theory Spec2Isabelle
  imports Complex_Main
begin

section \<open>The simulation core of docs/game.js\<close>

text \<open>
  A shallow embedding of the frame loop of the skiing game. JavaScript numbers are
  modelled as exact reals, counters that only ever hold whole numbers as \<open>nat\<close> or
  \<open>int\<close>. Scene-graph nodes and audio are left out; the one style attribute the
  game logic itself writes, the player's opacity, is a field of the player.
  \<open>Math.random()\<close> is the environment: the game record carries the sequence of values
  it returns (\<open>rnd\<close>) and the number of calls made so far (\<open>rndCalls\<close>).
  \<open>performance.now()\<close> is a parameter of the operations that read it.
\<close>

subsection \<open>CONFIG\<close>

definition GAME_WIDTH :: real where "GAME_WIDTH = 1024"
definition GAME_HEIGHT :: real where "GAME_HEIGHT = 640"
definition PLAYER_SPEED :: real where "PLAYER_SPEED = 8"
definition INITIAL_SCROLL_SPEED :: real where "INITIAL_SCROLL_SPEED = 3.5"
definition MAX_SPEED :: real where "MAX_SPEED = 8"
definition JUMP_DURATION :: real where "JUMP_DURATION = 800"
definition OBSTACLE_SPAWN_RATE :: nat where "OBSTACLE_SPAWN_RATE = 60"
definition WIN_DISTANCE :: real where "WIN_DISTANCE = 2000"
definition METER_SCALE :: real where "METER_SCALE = 0.1"

lemmas CONFIG_defs = GAME_WIDTH_def GAME_HEIGHT_def PLAYER_SPEED_def
  INITIAL_SCROLL_SPEED_def MAX_SPEED_def JUMP_DURATION_def OBSTACLE_SPAWN_RATE_def
  WIN_DISTANCE_def METER_SCALE_def

subsection \<open>Data model\<close>

datatype gstate = MENU | PLAYING | EXPLODING | GAMEOVER | VICTORY

datatype otype = Rock | Tree | Flag | Ditch | Kid | JJBarrier | Carousel | Poop

datatype bstate = BWait | BJump | BCrack | BDone

text \<open>
  class Obstacle. Fields the constructor leaves undefined for a type (and that are
  never read for that type) hold a default; \<open>triggered\<close> is undefined, hence falsy,
  until \<open>triggerCarouselEffect\<close> sets it; \<open>phase\<close> is undefined until
  \<open>spawnCarousel\<close> sets it.
\<close>

record obstacle =
  o_x :: real
  o_y :: real
  o_type :: otype
  o_width :: real
  o_height :: real
  kidOffsetX :: real
  barrierState :: bstate
  animTimer :: nat
  rotation :: real
  scaleX :: real
  animationSpeed :: real
  triggered :: bool
  phase :: "int option"

text \<open>class Player.\<close>

record player =
  p_x :: real
  p_y :: real
  p_vx :: real
  isJumping :: bool
  jumpStartTime :: real
  baseScale :: real
  p_scale :: real
  p_angle :: real
  bobOffset :: real
  p_frameCount :: nat
  opacity :: real

datatype jtype = Sled | Squat

datatype jstate = Entering | Skiing | Crawling

text \<open>The object literal stored in \<open>this.poopingJJ\<close>.\<close>

record pooper =
  jj_type :: jtype
  jj_x :: real
  jj_y :: real
  targetY :: real
  direction :: int
  poopTimer :: nat
  jj_state :: jstate
  jj_angle :: real
  lifeTime :: nat
  ropeElement :: bool

record trail =
  t_x :: real
  t_y :: real
  age :: nat

record particle =
  pt_x :: real
  pt_y :: real
  pt_vx :: real
  pt_vy :: real
  life :: real
  decay :: real
  pt_size :: real
  pt_color :: string

record patch =
  bg_x :: real
  bg_y :: real

record keyflags =
  ArrowLeft :: bool
  ArrowRight :: bool
  KeyA :: bool
  KeyD :: bool

text \<open>
  class Game, with the particle system's and the background manager's collections
  inlined. \<open>pathTarget\<close> is assigned nowhere but in \<open>updatePath\<close>: until then it is
  undefined, which is \<open>None\<close> here. \<open>svgTransform\<close> stands for the environment's
  answer to \<open>this.svg.style.transform && this.svg.style.transform.includes('translate')\<close>.
\<close>

record game =
  player :: player
  obstacles :: "obstacle list"
  trails :: "trail list"
  particles :: "particle list"
  patches :: "patch list"
  keys :: keyflags
  state :: gstate
  isExploding :: bool
  scrollSpeed :: real
  distance :: real
  lastHundredMeters :: int
  frameCount :: nat
  cameraX :: real
  pathCenter :: real
  pathTarget :: "real option"
  pathWidth :: real
  targetPathWidth :: real
  isSplitting :: bool
  startSeparating :: bool
  splitDistance :: real
  maxSplitDistance :: real
  splitTimer :: nat
  poopingJJ :: "pooper option"
  lastPoopJJSpawn :: real
  hasSpawnedFirstPooper :: bool
  carouselActive :: bool
  carouselPhase :: nat
  hasSpawnedCarousel1 :: bool
  hasSpawnedCarousel2 :: bool
  svgTransform :: bool
  rnd :: "nat \<Rightarrow> real"
  rndCalls :: nat

subsection \<open>Math.random\<close>

definition Math_random :: "game \<Rightarrow> real \<times> game" where
  "Math_random g = (rnd g (rndCalls g), g\<lparr>rndCalls := Suc (rndCalls g)\<rparr>)"

text \<open>What the language promises of \<open>Math.random()\<close>: a value in \<open>[0, 1)\<close>.\<close>

definition rnd_ok :: "game \<Rightarrow> bool" where
  "rnd_ok g = (\<forall>n. 0 \<le> rnd g n \<and> rnd g n < 1)"

subsection \<open>class ParticleSystem\<close>

text \<open>One turn of the \<open>for\<close> loop of \<open>spawnExplosion\<close>.\<close>

definition spawnParticle :: "real \<Rightarrow> real \<Rightarrow> string \<Rightarrow> game \<Rightarrow> game" where
  "spawnParticle x y color g =
     (let (r1, g1) = Math_random g;
          size = 10 + r1 * 20;
          (r2, g2) = Math_random g1;
          ang = r2 * pi * 2;
          (r3, g3) = Math_random g2;
          speed = 5 + r3 * 25;
          (r4, g4) = Math_random g3
      in g4\<lparr>particles := particles g4 @
           [\<lparr>pt_x = x, pt_y = y, pt_vx = cos ang * speed, pt_vy = sin ang * speed,
             life = 1.5, decay = 0.01 + r4 * 0.01, pt_size = size, pt_color = color\<rparr>]\<rparr>)"

fun spawnLoop :: "nat \<Rightarrow> real \<Rightarrow> real \<Rightarrow> string \<Rightarrow> game \<Rightarrow> game" where
  "spawnLoop 0 x y color g = g"
| "spawnLoop (Suc n) x y color g = spawnLoop n x y color (spawnParticle x y color g)"

definition particleCount :: nat where "particleCount = 60"

definition spawnExplosion :: "real \<Rightarrow> real \<Rightarrow> string \<Rightarrow> game \<Rightarrow> game" where
  "spawnExplosion x y color g = spawnLoop particleCount x y color g"

definition particle_step :: "particle \<Rightarrow> particle" where
  "particle_step p = p\<lparr>pt_x := pt_x p + pt_vx p, pt_y := pt_y p + pt_vy p,
                        life := life p - decay p\<rparr>"

text \<open>
  The loop of \<open>ParticleSystem.update\<close> runs from the last index down and splices the
  dead particle out at its own index, so the survivors keep their order.
\<close>

fun particles_loop :: "particle list \<Rightarrow> particle list" where
  "particles_loop [] = []"
| "particles_loop (p # ps) =
     (let rest = particles_loop ps; p' = particle_step p
      in if life p' \<le> 0 then rest else p' # rest)"

definition ParticleSystem_update :: "game \<Rightarrow> bool \<times> game" where
  "ParticleSystem_update g =
     (let ps = particles_loop (particles g)
      in (length ps > 0, g\<lparr>particles := ps\<rparr>))"

definition ParticleSystem_clear :: "game \<Rightarrow> game" where
  "ParticleSystem_clear g = g\<lparr>particles := []\<rparr>"

text \<open>
  Calling the per-frame advance until it returns false. The loop is not bounded in
  the source of the property, so not returning is the value \<open>None\<close>.
\<close>

partial_function (option) advance_until_false :: "game \<Rightarrow> game option" where
  "advance_until_false g =
     (let (hasParticles, g') = ParticleSystem_update g
      in if hasParticles then advance_until_false g' else Some g')"

subsection \<open>class Player\<close>

definition Player_new :: "real \<Rightarrow> real \<Rightarrow> player" where
  "Player_new x y =
     \<lparr>p_x = x, p_y = y, p_vx = 0, isJumping = False, jumpStartTime = 0,
      baseScale = 0.8, p_scale = 0.8, p_angle = 0, bobOffset = 0, p_frameCount = 0,
      opacity = 1\<rparr>"

definition Player_move :: "real \<Rightarrow> player \<Rightarrow> player" where
  "Player_move dx p =
     (let p1 = p\<lparr>p_x := p_x p + dx\<rparr>;
          targetAngle = (if dx > 0 then 15 else - 15)
      in p1\<lparr>p_angle := p_angle p1 + (targetAngle - p_angle p1) * 0.1\<rparr>)"

text \<open>\<open>now\<close> is the value of \<open>performance.now()\<close> at the call.\<close>

definition Player_jump :: "real \<Rightarrow> player \<Rightarrow> player" where
  "Player_jump now p =
     (if \<not> isJumping p then p\<lparr>isJumping := True, jumpStartTime := now\<rparr> else p)"

definition jump_progress :: "real \<Rightarrow> player \<Rightarrow> real" where
  "jump_progress now p = (now - jumpStartTime p) / JUMP_DURATION"

text \<open>
  \<open>Player.update(deltaTime)\<close> never reads its argument; the clock it reads is
  \<open>performance.now()\<close>.
\<close>

definition Player_update :: "real \<Rightarrow> player \<Rightarrow> player" where
  "Player_update now p =
     (let p1 = p\<lparr>p_frameCount := Suc (p_frameCount p)\<rparr>;
          p2 = (if \<bar>p_angle p1\<bar> > 0.1 then p1\<lparr>p_angle := p_angle p1 * 0.9\<rparr> else p1);
          p3 = (if \<not> isJumping p2
                then (let bobSpeed = (if \<bar>p_angle p2\<bar> > 5 then 0.3 else 0.15)
                      in p2\<lparr>bobOffset := sin (real (p_frameCount p2) * bobSpeed) * 2\<rparr>)
                else p2)
      in if isJumping p3
         then (let progress = jump_progress now p3
               in if progress \<ge> 1
                  then p3\<lparr>isJumping := False, p_scale := baseScale p3\<rparr>
                  else (let jumpHeight = sin (progress * pi)
                        in p3\<lparr>p_scale := baseScale p3 + jumpHeight * 0.4\<rparr>))
         else p3)"

subsection \<open>class Obstacle\<close>

definition Obstacle_width :: "otype \<Rightarrow> real" where
  "Obstacle_width ty =
     (if ty = JJBarrier then GAME_WIDTH
      else if ty = Carousel then GAME_WIDTH
      else if ty = Tree then 60
      else (if ty = Flag then 20 else (if ty = Kid then 45 else (if ty = Ditch then 50 else 40))))"

definition Obstacle_height :: "otype \<Rightarrow> real" where
  "Obstacle_height ty =
     (if ty = JJBarrier then 60
      else if ty = Carousel then 300
      else if ty = Tree then 75
      else (if ty = Flag then 30 else (if ty = Kid then 55 else (if ty = Ditch then 20 else 30))))"

definition Obstacle_new :: "real \<Rightarrow> real \<Rightarrow> otype \<Rightarrow> obstacle" where
  "Obstacle_new x y ty =
     \<lparr>o_x = x, o_y = y, o_type = ty,
      o_width = Obstacle_width ty, o_height = Obstacle_height ty,
      kidOffsetX = 0, barrierState = BWait, animTimer = 0, rotation = 0,
      scaleX = (if ty = Ditch then 0.1 else 1),
      animationSpeed = (if ty = Ditch then 0.05 else 0),
      triggered = False, phase = None\<rparr>"

definition Obstacle_updateAnimation :: "obstacle \<Rightarrow> obstacle" where
  "Obstacle_updateAnimation ob =
     (if o_type ob = Carousel then ob\<lparr>rotation := rotation ob + 2\<rparr>
      else if o_type ob = Ditch \<and> scaleX ob < 1.5
        then ob\<lparr>scaleX := scaleX ob + animationSpeed ob\<rparr>
      else if o_type ob = JJBarrier then
        (if barrierState ob = BWait \<and> o_y ob < GAME_HEIGHT - 100
           then ob\<lparr>barrierState := BJump, animTimer := 0\<rparr>
         else if barrierState ob = BJump then
           (let ob1 = ob\<lparr>animTimer := Suc (animTimer ob)\<rparr>
            in if animTimer ob1 \<le> 40 then ob1
               else ob1\<lparr>barrierState := BCrack, animTimer := 0\<rparr>)
         else if barrierState ob = BCrack then
           (let ob1 = ob\<lparr>animTimer := Suc (animTimer ob)\<rparr>
            in if animTimer ob1 \<le> 10 then ob1
               else ob1\<lparr>barrierState := BDone\<rparr>)
         else ob)
      else ob)"

subsection \<open>class BackgroundManager\<close>

definition spawnPatch :: "real \<Rightarrow> game \<Rightarrow> game" where
  "spawnPatch y g =
     (let (rw, g1) = Math_random g;
          (rh, g2) = Math_random g1;
          (rx, g3) = Math_random g2;
          x = rx * GAME_WIDTH
      in g3\<lparr>patches := patches g3 @ [\<lparr>bg_x = x, bg_y = y\<rparr>]\<rparr>)"

fun reset_loop :: "nat \<Rightarrow> game \<Rightarrow> game" where
  "reset_loop 0 g = g"
| "reset_loop (Suc n) g =
     (let (ry, g1) = Math_random g in reset_loop n (spawnPatch (ry * GAME_HEIGHT) g1))"

definition BackgroundManager_reset :: "game \<Rightarrow> game" where
  "BackgroundManager_reset g = reset_loop 8 (g\<lparr>patches := []\<rparr>)"

text \<open>
  The loop of \<open>BackgroundManager.update\<close> runs from the last patch down; a patch
  that left the screen is spliced out and its replacement pushed at the end, behind
  every index the loop still visits. The second component collects the patches kept.
\<close>

fun patches_loop :: "real \<Rightarrow> patch list \<Rightarrow> game \<Rightarrow> game \<times> patch list" where
  "patches_loop s [] g = (g, [])"
| "patches_loop s (p # ps) g =
     (let (g1, kept) = patches_loop s ps g;
          p' = p\<lparr>bg_y := bg_y p - s\<rparr>
      in if bg_y p' < - 100 then (spawnPatch (GAME_HEIGHT + 100) g1, kept)
         else (g1, p' # kept))"

definition BackgroundManager_update :: "real \<Rightarrow> game \<Rightarrow> game" where
  "BackgroundManager_update s g =
     (let (g1, kept) = patches_loop s (patches g) (g\<lparr>patches := []\<rparr>)
      in g1\<lparr>patches := kept @ patches g1\<rparr>)"

subsection \<open>class Game: construction, start and restart\<close>

definition createPlayer :: "game \<Rightarrow> game" where
  "createPlayer g = g\<lparr>player := Player_new (GAME_WIDTH / 2) 150\<rparr>"

text \<open>
  The fields the constructor assigns. Its parameters are the environment: the values
  \<open>Math.random()\<close> is going to return and the style test of the shake. The player
  is null here until \<open>createPlayer\<close> runs.
\<close>

definition Game_fields :: "(nat \<Rightarrow> real) \<Rightarrow> bool \<Rightarrow> game" where
  "Game_fields r sh =
     \<lparr>player = Player_new 0 0, obstacles = [], trails = [], particles = [], patches = [],
      keys = \<lparr>ArrowLeft = False, ArrowRight = False, KeyA = False, KeyD = False\<rparr>,
      state = MENU, isExploding = False, scrollSpeed = INITIAL_SCROLL_SPEED,
      distance = 0, lastHundredMeters = 0, frameCount = 0, cameraX = 0,
      pathCenter = GAME_WIDTH / 2, pathTarget = None, pathWidth = 450,
      targetPathWidth = 450, isSplitting = False, startSeparating = False,
      splitDistance = 0, maxSplitDistance = 250, splitTimer = 0,
      poopingJJ = None, lastPoopJJSpawn = 0, hasSpawnedFirstPooper = False,
      carouselActive = False, carouselPhase = 0,
      hasSpawnedCarousel1 = False, hasSpawnedCarousel2 = False,
      svgTransform = sh, rnd = r, rndCalls = 0\<rparr>"

text \<open>\<open>new Game()\<close>: the constructor's assignments, then \<open>init()\<close>.\<close>

definition Game_new :: "(nat \<Rightarrow> real) \<Rightarrow> bool \<Rightarrow> game" where
  "Game_new r sh = BackgroundManager_reset (createPlayer (Game_fields r sh))"

definition startGame :: "game \<Rightarrow> game" where
  "startGame g = g\<lparr>state := PLAYING\<rparr>"

definition restart :: "game \<Rightarrow> game" where
  "restart g =
     (let g1 = ParticleSystem_clear (g\<lparr>obstacles := []\<rparr>);
          g2 = g1\<lparr>trails := [], distance := 0, lastHundredMeters := 0, frameCount := 0,
                  scrollSpeed := INITIAL_SCROLL_SPEED, pathCenter := GAME_WIDTH / 2,
                  pathWidth := 450, targetPathWidth := 450, splitDistance := 0,
                  isSplitting := False, startSeparating := False, lastPoopJJSpawn := 0,
                  hasSpawnedFirstPooper := False, isExploding := False,
                  carouselActive := False, carouselPhase := 0,
                  hasSpawnedCarousel1 := False, hasSpawnedCarousel2 := False,
                  poopingJJ := None\<rparr>;
          g3 = createPlayer g2;
          g4 = g3\<lparr>player := (player g3)\<lparr>opacity := 1\<rparr>\<rparr>
      in g4\<lparr>state := PLAYING\<rparr>)"

definition gameOver :: "game \<Rightarrow> game" where
  "gameOver g = g\<lparr>state := GAMEOVER\<rparr>"

definition victory :: "game \<Rightarrow> game" where
  "victory g = g\<lparr>state := VICTORY\<rparr>"

subsection \<open>Path model\<close>

text \<open>
  \<open>updatePath\<close> is a sequence of \<open>if\<close> statements; each is one function here, named
  after what it does, and \<open>updatePath\<close> runs them in the order of the source.

  Lines 598 to 604. With \<open>pathTarget\<close> undefined the difference is NaN, and every
  comparison with NaN is false.
\<close>

definition path_retarget :: "game \<Rightarrow> game" where
  "path_retarget g =
     (case pathTarget g of
        None \<Rightarrow> g
      | Some t \<Rightarrow>
          if \<bar>pathCenter g - t\<bar> < 5
          then (let margin = 150;
                    (r, ga) = Math_random g;
                    gb = ga\<lparr>pathTarget := Some (margin + r * (GAME_WIDTH - margin * 2))\<rparr>
                in if \<not> isSplitting gb
                   then (let (r2, gc) = Math_random gb
                         in gc\<lparr>targetPathWidth := 300 + r2 * 300\<rparr>)
                   else gb)
          else g)"

text \<open>Lines 605 to 607. A comparison with undefined is false: the \<open>else\<close> runs.\<close>

definition path_move :: "game \<Rightarrow> game" where
  "path_move g =
     (let speed = 0.5 + scrollSpeed g * 0.1
      in if (case pathTarget g of None \<Rightarrow> False | Some t \<Rightarrow> pathCenter g < t)
         then g\<lparr>pathCenter := pathCenter g + speed\<rparr>
         else g\<lparr>pathCenter := pathCenter g - speed\<rparr>)"

text \<open>Line 609.\<close>

definition path_widen :: "game \<Rightarrow> game" where
  "path_widen g =
     (if pathWidth g < targetPathWidth g then g\<lparr>pathWidth := pathWidth g + 0.5\<rparr> else g)"

text \<open>Line 610.\<close>

definition path_narrow :: "game \<Rightarrow> game" where
  "path_narrow g =
     (if pathWidth g > targetPathWidth g then g\<lparr>pathWidth := pathWidth g - 0.5\<rparr> else g)"

text \<open>Line 612.\<close>

definition split_tick :: "game \<Rightarrow> game" where
  "split_tick g = g\<lparr>splitTimer := Suc (splitTimer g)\<rparr>"

text \<open>Lines 613 to 618: a fork begins.\<close>

definition split_start :: "game \<Rightarrow> game" where
  "split_start g =
     (if \<not> isSplitting g \<and> splitDistance g = 0
      then (let (r, ga) = Math_random g
            in if real (splitTimer ga) > 500 + r * 500
               then ga\<lparr>isSplitting := True, splitTimer := 0\<rparr>
               else ga)
      else g)"

text \<open>Lines 619 to 624: the path widens before the lanes part.\<close>

definition split_prepare :: "game \<Rightarrow> game" where
  "split_prepare g =
     (if isSplitting g \<and> splitDistance g = 0
      then (let ga = g\<lparr>targetPathWidth := 750\<rparr>
            in if pathWidth ga \<ge> 700 then ga\<lparr>startSeparating := True\<rparr> else ga)
      else g)"

text \<open>Lines 625 to 635: the lanes part, hold, and the fork ends.\<close>

definition split_separate :: "game \<Rightarrow> game" where
  "split_separate g =
     (if isSplitting g \<and> startSeparating g
      then (if splitDistance g < maxSplitDistance g
            then g\<lparr>splitDistance := splitDistance g + 1.5\<rparr>
            else if splitTimer g > 400
                 then g\<lparr>isSplitting := False, startSeparating := False, splitTimer := 0\<rparr>
                 else g)
      else g)"

text \<open>Lines 636 to 642: the lanes close again.\<close>

definition split_contract :: "game \<Rightarrow> game" where
  "split_contract g =
     (if \<not> isSplitting g \<and> splitDistance g > 0
      then (let ga = g\<lparr>splitDistance := splitDistance g - 1.5\<rparr>
            in if splitDistance ga \<le> 0
               then ga\<lparr>splitDistance := 0, targetPathWidth := 450\<rparr>
               else ga)
      else g)"

definition updatePath :: "game \<Rightarrow> game" where
  "updatePath g =
     split_contract (split_separate (split_prepare (split_start (split_tick
       (path_narrow (path_widen (path_move (path_retarget g))))))))"

subsection \<open>Obstacle registry\<close>

definition push_obstacle :: "obstacle \<Rightarrow> game \<Rightarrow> game" where
  "push_obstacle ob g = g\<lparr>obstacles := obstacles g @ [ob]\<rparr>"

definition spawnJJBarrier :: "game \<Rightarrow> game" where
  "spawnJJBarrier g =
     (if distance g < 100 then g
      else (let (r, g1) = Math_random g;
                isLeft = (r > 0.5);
                offset = pathWidth g1 / 2 - 30;
                x = (if isLeft then pathCenter g1 - offset else pathCenter g1 + offset);
                x' = max 100 (min (GAME_WIDTH - 100) x);
                ob = Obstacle_new (pathCenter g1) (GAME_HEIGHT + 150) JJBarrier
            in push_obstacle (ob\<lparr>kidOffsetX := x' - pathCenter g1\<rparr>) g1))"

definition spawnTreeAt :: "real \<Rightarrow> real \<Rightarrow> game \<Rightarrow> game" where
  "spawnTreeAt x y g =
     (let (r, g1) = Math_random g;
          jitter = (r - 0.5) * 20
      in push_obstacle (Obstacle_new (x + jitter) y Tree) g1)"

definition spawnWallTrees :: "game \<Rightarrow> game" where
  "spawnWallTrees g =
     (if distance g > 700 \<and> distance g < 1300 then g
      else (let y = GAME_HEIGHT + 50;
                leftPathCenter = pathCenter g - splitDistance g / 2;
                rightPathCenter = pathCenter g + splitDistance g / 2;
                currentPathWidth = (if isSplitting g \<or> splitDistance g > 0
                                    then pathWidth g / 2 else pathWidth g);
                leftEdge = leftPathCenter - currentPathWidth / 2;
                g1 = spawnTreeAt (leftEdge - 20) y g;
                rightEdge = rightPathCenter + currentPathWidth / 2;
                g2 = spawnTreeAt (rightEdge + 20) y g1
            in if splitDistance g2 > 80
               then (let midLeft = leftPathCenter + currentPathWidth / 2;
                         midRight = rightPathCenter - currentPathWidth / 2
                     in if midRight > midLeft
                        then spawnTreeAt ((midLeft + midRight) / 2) y g2 else g2)
               else g2))"

definition spawnInternalObstacle :: "game \<Rightarrow> game" where
  "spawnInternalObstacle g =
     (let (rand, g1) = Math_random g;
          ty1 = (if distance g1 > 400 \<and> rand > 0.7 then Flag else Rock);
          ty = (if distance g1 > 800 \<and> rand > 0.92 then Ditch else ty1);
          (targetCenter, targetWidth, g2) =
             (if splitDistance g1 > 50
              then (let (r, ga) = Math_random g1
                    in (if r > 0.5 then pathCenter ga - splitDistance ga / 2
                        else pathCenter ga + splitDistance ga / 2,
                        pathWidth ga / 2, ga))
              else (pathCenter g1, pathWidth g1, g1));
          safeWidth = targetWidth - 60;
          (r3, g3) = Math_random g2;
          xOffset = (r3 - 0.5) * safeWidth;
          x = targetCenter + xOffset
      in push_obstacle (Obstacle_new x (GAME_HEIGHT + 50) ty) g3)"

definition spawnObstacle :: "game \<Rightarrow> game" where
  "spawnObstacle g =
     (let g1 = updatePath g;
          currentHundred = \<lfloor>distance g1 / 100\<rfloor>
      in if currentHundred > lastHundredMeters g1 \<and> currentHundred > 0
         then spawnJJBarrier (g1\<lparr>lastHundredMeters := currentHundred\<rparr>)
         else (let g2 = (if frameCount g1 mod 10 = 0 then spawnWallTrees g1 else g1);
                   spawnRate1 = (if distance g2 > 500 then 45 else OBSTACLE_SPAWN_RATE);
                   spawnRate = (if distance g2 > 1000 then 30 else spawnRate1)
               in if frameCount g2 mod spawnRate = 0
                  then spawnInternalObstacle g2 else g2))"

definition spawnCarousel :: "int \<Rightarrow> game \<Rightarrow> game" where
  "spawnCarousel ph g =
     (let x = pathCenter g;
          y = GAME_HEIGHT + 200;
          ob = Obstacle_new x y Carousel
      in push_obstacle (ob\<lparr>phase := Some ph\<rparr>) g)"

definition spawnPoop :: "real \<Rightarrow> real \<Rightarrow> game \<Rightarrow> game" where
  "spawnPoop x y g = push_obstacle (Obstacle_new x y Poop) g"

subsection \<open>The pooping antagonist\<close>

definition spawnPoopingJJ :: "jtype option \<Rightarrow> game \<Rightarrow> game" where
  "spawnPoopingJJ forcedType g =
     (if poopingJJ g \<noteq> None then g
      else (let (ty, g1) = (case forcedType of
                              Some t \<Rightarrow> (t, g)
                            | None \<Rightarrow> (let (r, ga) = Math_random g
                                       in (if r > 0.5 then Sled else Squat, ga)));
                (r2, g2) = Math_random g1;
                startFromLeft = (r2 > 0.5);
                dir = (if startFromLeft then 1 else - 1);
                leftBound = pathCenter g2 - pathWidth g2 / 2 + 50;
                rightBound = pathCenter g2 + pathWidth g2 / 2 - 50;
                x = (if startFromLeft then leftBound else rightBound);
                y = - 100
            in g2\<lparr>poopingJJ := Some
                 \<lparr>jj_type = ty, jj_x = x, jj_y = y, targetY = 200, direction = dir,
                  poopTimer = 0, jj_state = Entering, jj_angle = 0, lifeTime = 0,
                  ropeElement = False\<rparr>\<rparr>))"

text \<open>
  \<open>updateSleddingJJ(jj)\<close> and \<open>updateSquattingJJ(jj)\<close> are handed the object in
  \<open>this.poopingJJ\<close> and write its fields in place. Each run of statements is a function
  on the game that rewrites the object in the slot; the two updates compose them in
  the order of the source.
\<close>

definition jj_set :: "(pooper \<Rightarrow> pooper) \<Rightarrow> game \<Rightarrow> game" where
  "jj_set f g = g\<lparr>poopingJJ := map_option f (poopingJJ g)\<rparr>"

text \<open>Lines 934 to 938.\<close>

definition sled_enter :: "game \<Rightarrow> game" where
  "sled_enter g =
     jj_set (\<lambda>jj. let jj1 = jj\<lparr>jj_y := jj_y jj + 4\<rparr>;
                     jj2 = jj1\<lparr>jj_x := jj_x jj1 + real_of_int (direction jj1) * 1\<rparr>
                 in if jj_y jj2 \<ge> targetY jj2 then jj2\<lparr>jj_state := Skiing\<rparr> else jj2) g"

text \<open>Lines 940 to 951.\<close>

definition sled_move :: "game \<Rightarrow> game" where
  "sled_move g =
     (let speedX = 2.5; speedY = 0.5;
          leftBound = pathCenter g - pathWidth g / 2 + 50;
          rightBound = pathCenter g + pathWidth g / 2 - 50
      in jj_set (\<lambda>jj. let jj1 = jj\<lparr>jj_x := jj_x jj + speedX * real_of_int (direction jj)\<rparr>;
                          jj2 = jj1\<lparr>jj_y := jj_y jj1 + speedY\<rparr>;
                          jj3 = (if jj_x jj2 > rightBound then jj2\<lparr>direction := - 1\<rparr> else jj2)
                      in if jj_x jj3 < leftBound then jj3\<lparr>direction := 1\<rparr> else jj3) g)"

text \<open>
  Lines 954 to 959, and lines 1042 to 1047 with the other limit: the timer counts
  up, and past the limit a poop is dropped and the timer starts again.
\<close>

definition poop_tick :: "nat \<Rightarrow> game \<Rightarrow> game" where
  "poop_tick limit g =
     (case poopingJJ g of
        None \<Rightarrow> g
      | Some jj \<Rightarrow>
          (let jj1 = jj\<lparr>poopTimer := Suc (poopTimer jj)\<rparr>
           in if poopTimer jj1 > limit
              then (spawnPoop (jj_x jj1) (jj_y jj1 + 20) g)\<lparr>poopingJJ := Some (jj1\<lparr>poopTimer := 0\<rparr>)\<rparr>
              else g\<lparr>poopingJJ := Some jj1\<rparr>))"

text \<open>Lines 962 to 976.\<close>

definition sled_age :: "game \<Rightarrow> game" where
  "sled_age g =
     (case poopingJJ g of
        None \<Rightarrow> g
      | Some jj \<Rightarrow>
          (let jj1 = jj\<lparr>jj_angle := real_of_int (direction jj) * - 10\<rparr>;
               jj2 = jj1\<lparr>lifeTime := Suc (lifeTime jj1)\<rparr>
           in if lifeTime jj2 > 600
              then (let jj3 = jj2\<lparr>jj_y := jj_y jj2 + 5\<rparr>
                    in if jj_y jj3 > GAME_HEIGHT + 100
                       then g\<lparr>poopingJJ := None\<rparr>
                       else g\<lparr>poopingJJ := Some jj3\<rparr>)
              else g\<lparr>poopingJJ := Some jj2\<rparr>))"

definition updateSleddingJJ :: "pooper \<Rightarrow> game \<Rightarrow> game" where
  "updateSleddingJJ jj g =
     (if jj_state jj = Entering then sled_enter g
      else if jj_state jj = Skiing then sled_age (poop_tick 60 (sled_move g))
      else g)"

text \<open>Lines 994 to 1036.\<close>

definition squat_enter :: "game \<Rightarrow> game" where
  "squat_enter g =
     jj_set (\<lambda>jj. let jj1 = (if \<not> ropeElement jj then jj\<lparr>ropeElement := True\<rparr> else jj);
                     jj2 = (if jj_y jj1 = - 100
                            then jj1\<lparr>jj_y := GAME_HEIGHT + 100, targetY := GAME_HEIGHT + 100\<rparr>
                            else jj1)
                 in jj2\<lparr>jj_state := Crawling\<rparr>) g"

text \<open>Lines 1038 and 1039.\<close>

definition squat_move :: "game \<Rightarrow> game" where
  "squat_move g =
     (let speed = 3
      in jj_set (\<lambda>jj. jj\<lparr>jj_x := jj_x jj + speed * real_of_int (direction jj)\<rparr>) g)"

text \<open>Lines 1053 to 1060.\<close>

definition squat_turn :: "game \<Rightarrow> game" where
  "squat_turn g =
     (let leftBound = pathCenter g - pathWidth g / 2 + 20;
          rightBound = pathCenter g + pathWidth g / 2 - 20
      in jj_set (\<lambda>jj. if direction jj = 1 \<and> jj_x jj > rightBound then jj\<lparr>direction := - 1\<rparr>
                      else if direction jj = - 1 \<and> jj_x jj < leftBound
                           then jj\<lparr>direction := 1\<rparr>
                      else jj) g)"

text \<open>Lines 1071 to 1079.\<close>

definition squat_scroll :: "game \<Rightarrow> game" where
  "squat_scroll g =
     (case poopingJJ g of
        None \<Rightarrow> g
      | Some jj \<Rightarrow>
          (let jj1 = jj\<lparr>jj_y := jj_y jj - scrollSpeed g\<rparr>
           in if jj_y jj1 < - 150
              then g\<lparr>poopingJJ := None\<rparr>
              else g\<lparr>poopingJJ := Some jj1\<rparr>))"

definition updateSquattingJJ :: "pooper \<Rightarrow> game \<Rightarrow> game" where
  "updateSquattingJJ jj g =
     (if jj_state jj = Entering then squat_enter g
      else if jj_state jj = Crawling
        then squat_scroll (squat_turn (poop_tick 20 (squat_move g)))
      else g)"

definition updatePoopingJJ :: "game \<Rightarrow> game" where
  "updatePoopingJJ g =
     (case poopingJJ g of
        None \<Rightarrow> g
      | Some jj \<Rightarrow> if jj_type jj = Sled then updateSleddingJJ jj g
                   else updateSquattingJJ jj g)"

subsection \<open>Collision and event resolver\<close>

definition checkCollision :: "player \<Rightarrow> obstacle \<Rightarrow> bool" where
  "checkCollision p ob =
     (let px = p_x p - 15; py = p_y p - 10; pw = 30; ph = 20;
          ox = o_x ob - o_width ob / 2; oy = o_y ob - o_height ob;
          ow = o_width ob; oh = o_height ob
      in px < ox + ow \<and> px + pw > ox \<and> py < oy + oh \<and> py + ph > oy)"

text \<open>
  \<open>triggerCarouselEffect\<close> writes both the game and the obstacle it is given, so it
  returns both.
\<close>

definition triggerCarouselEffect :: "obstacle \<Rightarrow> game \<Rightarrow> game \<times> obstacle" where
  "triggerCarouselEffect ob g =
     (if triggered ob then (g, ob)
      else (let ob1 = ob\<lparr>triggered := True\<rparr>
            in if phase ob1 = Some 1
               then (g\<lparr>carouselActive := True\<rparr>, ob1)
               else (g\<lparr>carouselActive := False\<rparr>, ob1)))"

definition explosionColor :: "otype \<Rightarrow> string" where
  "explosionColor ty =
     (if ty = Poop then ''#795548''
      else if ty = Tree then ''#2E7D32''
      else if ty = Rock then ''#9e9e9e''
      else if ty = Kid \<or> ty = JJBarrier then ''#fdd835''
      else ''#5d4037'')"

definition triggerExplosion :: "obstacle \<Rightarrow> game \<Rightarrow> game" where
  "triggerExplosion ob g =
     (let g1 = g\<lparr>state := EXPLODING\<rparr>;
          g2 = g1\<lparr>player := (player g1)\<lparr>opacity := 0\<rparr>\<rparr>;
          color = explosionColor (o_type ob);
          g3 = spawnExplosion (p_x (player g2)) (p_y (player g2)) color g2
      in spawnExplosion (p_x (player g3)) (p_y (player g3)) ''#ff3d00'' g3)"

text \<open>
  One turn of the obstacle loop of \<open>update\<close> (lines 816 to 833). The second
  component collects the obstacles the loop has visited and kept.
\<close>

definition obstacle_step :: "obstacle \<Rightarrow> game \<times> obstacle list \<Rightarrow> game \<times> obstacle list" where
  "obstacle_step ob gk =
     (let g = fst gk; kept = snd gk;
          ob1 = ob\<lparr>o_y := o_y ob - scrollSpeed g\<rparr>;
          (g1, ob2) = (if \<not> isJumping (player g)
                       then (if checkCollision (player g) ob1
                             then (if o_type ob1 = Carousel
                                   then triggerCarouselEffect ob1 g
                                   else (triggerExplosion ob1 g, ob1))
                             else (g, ob1))
                       else (g, ob1))
      in if o_y ob2 < - 100 then (g1, kept)
         else (g1, Obstacle_updateAnimation ob2 # kept))"

text \<open>
  The loop runs from the last index down to the first: \<open>foldr\<close> visits the last
  element first.
\<close>

definition obstacles_loop :: "game \<Rightarrow> game" where
  "obstacles_loop g =
     (let (g1, kept) = foldr obstacle_step (obstacles g) (g, [])
      in g1\<lparr>obstacles := kept\<rparr>)"

subsection \<open>Trails\<close>

fun trails_loop :: "real \<Rightarrow> trail list \<Rightarrow> trail list" where
  "trails_loop s [] = []"
| "trails_loop s (t # ts) =
     (let rest = trails_loop s ts;
          t1 = t\<lparr>t_y := t_y t - s\<rparr>;
          t2 = t1\<lparr>age := Suc (age t1)\<rparr>
      in if t_y t2 < - 100 \<or> age t2 > 200 then rest else t2 # rest)"

definition updateTrails :: "game \<Rightarrow> game" where
  "updateTrails g = g\<lparr>trails := trails_loop (scrollSpeed g) (trails g)\<rparr>"

subsection \<open>Frame orchestrator\<close>

text \<open>Lines 720 to 729 of \<open>update\<close>: distance and scroll speed.\<close>

definition update_speed :: "game \<Rightarrow> game" where
  "update_speed g =
     (let g1 = g\<lparr>distance := distance g + scrollSpeed g * METER_SCALE\<rparr>;
          targetMaxSpeed = (if carouselActive g1 then 4 else MAX_SPEED)
      in if scrollSpeed g1 < targetMaxSpeed
         then g1\<lparr>scrollSpeed := scrollSpeed g1 + 0.001\<rparr>
         else if scrollSpeed g1 > targetMaxSpeed
              then g1\<lparr>scrollSpeed := scrollSpeed g1 - 0.05\<rparr>
              else g1)"

text \<open>
  Lines 731 to 748: the camera. The shake values only reach the scene graph, but
  computing them calls \<open>Math.random()\<close> twice.
\<close>

definition update_camera :: "game \<Rightarrow> game" where
  "update_camera g =
     (let targetCamX = p_x (player g) - GAME_WIDTH / 2;
          g1 = g\<lparr>cameraX := cameraX g + (targetCamX - cameraX g) * 0.1\<rparr>
      in if svgTransform g1
         then (let (r1, ga) = Math_random g1;
                   (r2, gb) = Math_random ga
               in gb)
         else g1)"

text \<open>Lines 750 to 761: the antagonist's spawn rule.\<close>

definition pooper_spawn :: "game \<Rightarrow> game" where
  "pooper_spawn g =
     (if poopingJJ g = None
      then (if \<not> hasSpawnedFirstPooper g \<and> distance g > 250
            then (let ga = spawnPoopingJJ (Some Squat) g;
                      gb = ga\<lparr>hasSpawnedFirstPooper := True\<rparr>
                  in gb\<lparr>lastPoopJJSpawn := distance gb\<rparr>)
            else if hasSpawnedFirstPooper g \<and> distance g - lastPoopJJSpawn g > 400
                 then (let ga = spawnPoopingJJ None g
                       in ga\<lparr>lastPoopJJSpawn := distance ga\<rparr>)
                 else g)
      else g)"

text \<open>Lines 750 to 765: the spawn rule, then the antagonist's own update.\<close>

definition update_pooper :: "game \<Rightarrow> game" where
  "update_pooper g =
     (let g1 = pooper_spawn g
      in if poopingJJ g1 \<noteq> None then updatePoopingJJ g1 else g1)"

text \<open>Lines 767 to 773: the two carousels.\<close>

definition update_carousels :: "game \<Rightarrow> game" where
  "update_carousels g =
     (if \<not> hasSpawnedCarousel1 g \<and> distance g > 750
      then (spawnCarousel 1 g)\<lparr>hasSpawnedCarousel1 := True\<rparr>
      else if \<not> hasSpawnedCarousel2 g \<and> distance g > 1250
           then (spawnCarousel 2 g)\<lparr>hasSpawnedCarousel2 := True\<rparr>
           else g)"

text \<open>Lines 780 to 801: steering.\<close>

definition update_input :: "game \<Rightarrow> game" where
  "update_input g =
     (let k = keys g;
          moveDir0 = (0::int);
          moveDir1 = (if ArrowLeft k \<or> KeyA k then moveDir0 - 1 else moveDir0);
          moveDir2 = (if ArrowRight k \<or> KeyD k then moveDir1 + 1 else moveDir1);
          moveDir = (if carouselActive g then moveDir2 * - 1 else moveDir2)
      in if moveDir \<noteq> 0
         then g\<lparr>player := Player_move (real_of_int moveDir * PLAYER_SPEED) (player g)\<rparr>
         else g)"

text \<open>Lines 803 to 813: the player, the background and the trail.\<close>

definition update_player :: "real \<Rightarrow> game \<Rightarrow> game" where
  "update_player now g =
     (let g1 = g\<lparr>player := Player_update now (player g)\<rparr>;
          g2 = BackgroundManager_update (scrollSpeed g1) g1;
          g3 = (if \<not> isJumping (player g2)
                then g2\<lparr>trails := trails g2 @
                       [\<lparr>t_x = p_x (player g2), t_y = p_y (player g2) + 15, age = 0\<rparr>]\<rparr>
                else g2)
      in updateTrails g3)"

text \<open>Lines 720 to 773: everything between the explosion test and the win test.\<close>

definition update_head :: "game \<Rightarrow> game" where
  "update_head g = update_carousels (update_pooper (update_camera (update_speed g)))"

text \<open>Lines 780 to 834: everything after the win test.\<close>

definition update_tail :: "real \<Rightarrow> game \<Rightarrow> game" where
  "update_tail now g = obstacles_loop (spawnObstacle (update_player now (update_input g)))"

text \<open>
  \<open>update(deltaTime)\<close>. The argument is passed on to \<open>Player.update\<close> only, which
  ignores it; \<open>now\<close> is what \<open>performance.now()\<close> returns during the call.
\<close>

definition update :: "real \<Rightarrow> game \<Rightarrow> game" where
  "update now g =
     (let g0 = g\<lparr>frameCount := Suc (frameCount g)\<rparr>;
          (hasParticles, g1) = ParticleSystem_update g0
      in if state g1 = EXPLODING
         then (if \<not> hasParticles then gameOver g1 else g1)
         else (let g2 = update_head g1
               in if distance g2 \<ge> WIN_DISTANCE
                  then victory g2
                  else update_tail now g2))"

definition gameLoop :: "real \<Rightarrow> game \<Rightarrow> game" where
  "gameLoop now g =
     (if state g \<noteq> PLAYING \<and> state g \<noteq> EXPLODING then g else update now g)"

subsection \<open>Input events\<close>

definition keydown :: "string \<Rightarrow> real \<Rightarrow> game \<Rightarrow> game" where
  "keydown code now g =
     (let k = keys g;
          k1 = (if code = ''ArrowLeft'' then k\<lparr>ArrowLeft := True\<rparr>
                else if code = ''ArrowRight'' then k\<lparr>ArrowRight := True\<rparr>
                else if code = ''KeyA'' then k\<lparr>KeyA := True\<rparr>
                else if code = ''KeyD'' then k\<lparr>KeyD := True\<rparr>
                else k);
          g1 = g\<lparr>keys := k1\<rparr>
      in if (code = ''Space'' \<or> code = ''KeyW'' \<or> code = ''ArrowUp'') \<and> state g1 = PLAYING
         then g1\<lparr>player := Player_jump now (player g1)\<rparr>
         else g1)"

definition keyup :: "string \<Rightarrow> game \<Rightarrow> game" where
  "keyup code g =
     (let k = keys g;
          k1 = (if code = ''ArrowLeft'' then k\<lparr>ArrowLeft := False\<rparr>
                else if code = ''ArrowRight'' then k\<lparr>ArrowRight := False\<rparr>
                else if code = ''KeyA'' then k\<lparr>KeyA := False\<rparr>
                else if code = ''KeyD'' then k\<lparr>KeyD := False\<rparr>
                else k)
      in g\<lparr>keys := k1\<rparr>)"

text \<open>
  Everything that happens to a game: the start and restart buttons, an animation
  frame, a key going down or up. The touch handlers write the same two key flags and
  call the same \<open>jump\<close> under the same state test as the keyboard does.
\<close>

datatype event = StartBtn | RestartBtn | Frame real | KeyDown string real | KeyUp string

fun handle :: "event \<Rightarrow> game \<Rightarrow> game" where
  "handle StartBtn g = startGame g"
| "handle RestartBtn g = restart g"
| "handle (Frame now) g = gameLoop now g"
| "handle (KeyDown code now) g = keydown code now g"
| "handle (KeyUp code) g = keyup code g"

text \<open>Events are applied in the order of the list.\<close>

fun run :: "event list \<Rightarrow> game \<Rightarrow> game" where
  "run [] g = g"
| "run (e # es) g = run es (handle e g)"

text \<open>The states a game can be in: a fresh one, and the ones events lead to.\<close>

inductive reachable :: "game \<Rightarrow> bool" where
  fresh: "\<forall>n. 0 \<le> r n \<and> r n < 1 \<Longrightarrow> reachable (Game_new r sh)"
| step: "reachable g \<Longrightarrow> reachable (handle e g)"

subsection \<open>Frames: what an operation leaves alone\<close>

text \<open>
  Each function below blanks the fields one group of operations writes. Two games
  with the same image agree on every other field, so one equation per operation
  records everything it leaves alone.
\<close>

text \<open>Blanked: the random source's position, the background, the trail, the camera and the obstacle list.\<close>

definition rest_env :: "game \<Rightarrow> game" where
  "rest_env g =
     g\<lparr>rndCalls := 0, patches := [], trails := [], cameraX := 0, obstacles := []\<rparr>"

text \<open>Blanked: the path model.\<close>

definition rest_path :: "game \<Rightarrow> game" where
  "rest_path g =
     g\<lparr>rndCalls := 0, patches := [], trails := [], cameraX := 0, obstacles := [],
       pathCenter := 0, pathTarget := None, pathWidth := 0, targetPathWidth := 0,
       isSplitting := False, startSeparating := False, splitDistance := 0,
       splitTimer := 0, lastHundredMeters := 0\<rparr>"

text \<open>Blanked: the antagonist's slot and spawn bookkeeping.\<close>

definition rest_pooper :: "game \<Rightarrow> game" where
  "rest_pooper g =
     g\<lparr>rndCalls := 0, patches := [], trails := [], cameraX := 0, obstacles := [],
       poopingJJ := None, lastPoopJJSpawn := 0, hasSpawnedFirstPooper := False\<rparr>"

text \<open>Blanked: the particles and the random source's position.\<close>

definition rest_particles :: "game \<Rightarrow> game" where
  "rest_particles g =
     g\<lparr>particles := [], rndCalls := 0\<rparr>"

text \<open>Blanked: the distance and the scroll speed.\<close>

definition rest_speed :: "game \<Rightarrow> game" where
  "rest_speed g =
     g\<lparr>distance := 0, scrollSpeed := 0\<rparr>"

text \<open>Blanked: the carousels' spawn flags.\<close>

definition rest_carousels :: "game \<Rightarrow> game" where
  "rest_carousels g =
     g\<lparr>rndCalls := 0, patches := [], trails := [], cameraX := 0, obstacles := [],
       hasSpawnedCarousel1 := False, hasSpawnedCarousel2 := False\<rparr>"

text \<open>Blanked: the player.\<close>

definition rest_player :: "game \<Rightarrow> game" where
  "rest_player g =
     g\<lparr>rndCalls := 0, patches := [], trails := [], cameraX := 0, obstacles := [],
       player := Player_new 0 0\<rparr>"

text \<open>Blanked: what a collision can write.\<close>

definition rest_hit :: "game \<Rightarrow> game" where
  "rest_hit g =
     g\<lparr>rndCalls := 0, patches := [], trails := [], cameraX := 0, obstacles := [],
       state := MENU, player := Player_new 0 0, particles := [], carouselActive := False\<rparr>"

subsection \<open>Auxiliary definitions\<close>

text \<open>Lines 708 to 711 of \<open>update\<close>: the frame counter and the particles.\<close>

definition update_begin :: "game \<Rightarrow> game" where
  "update_begin g = snd (ParticleSystem_update (g\<lparr>frameCount := Suc (frameCount g)\<rparr>))"

text \<open>
  A concrete game to instantiate the theorems at: a new game whose random source
  always answers one half, after the start button.
\<close>

definition demo :: game where
  "demo = startGame (Game_new (\<lambda>_. 1 / 2) False)"

text \<open>The same game in the middle of an explosion, its particles already gone.\<close>

definition demo_exploding :: game where
  "demo_exploding = demo\<lparr>state := EXPLODING\<rparr>"

text \<open>The same game with one particle that has one more frame to live, and one that has none.\<close>

definition demo_particles :: game where
  "demo_particles =
     demo\<lparr>particles :=
       [\<lparr>pt_x = 0, pt_y = 0, pt_vx = 1, pt_vy = 1, life = 0.03, decay = 0.02, pt_size = 3, pt_color = ''#ff3d00''\<rparr>,
        \<lparr>pt_x = 0, pt_y = 0, pt_vx = 1, pt_vy = 1, life = 0.02, decay = 0.02, pt_size = 3, pt_color = ''#ff3d00''\<rparr>]\<rparr>"


text \<open>A rock right under the player, and the player in the air since time 0.\<close>

definition demo_rock :: obstacle where
  "demo_rock = Obstacle_new 512 165 Rock"

definition demo_jumping :: game where
  "demo_jumping = demo\<lparr>player := Player_jump 0 (player demo), obstacles := [demo_rock]\<rparr>"

definition demo_grounded :: game where
  "demo_grounded = demo\<lparr>obstacles := [demo_rock]\<rparr>"

text \<open>
  \<open>g'\<close> still has every obstacle of \<open>g\<close>, unchanged and at its index; it may have
  new ones behind them.
\<close>

definition obstacles_kept :: "game \<Rightarrow> game \<Rightarrow> bool" where
  "obstacles_kept g g' = (take (length (obstacles g)) (obstacles g') = obstacles g)"

text \<open>One frame short of the win, with a rock right under the grounded player.\<close>

definition demo_winning :: game where
  "demo_winning = demo\<lparr>distance := 1999.9, scrollSpeed := 8, obstacles := [demo_rock]\<rparr>"

text \<open>
  \<open>g'\<close> has no antagonist, or the one it has is the one \<open>g\<close> had (the same
  variant): no other antagonist has taken the slot.
\<close>

definition same_occupant :: "game \<Rightarrow> game \<Rightarrow> bool" where
  "same_occupant g g' =
     (case poopingJJ g' of
        None \<Rightarrow> True
      | Some b \<Rightarrow> (case poopingJJ g of None \<Rightarrow> False | Some a \<Rightarrow> jj_type b = jj_type a))"

text \<open>
  What holds of every game a fresh one can become: the bounds of the scroll speed,
  a distance that is not negative, no antagonist before the first spawn and no first
  spawn before 250 m, a fork distance that is not negative, a path target that is
  still undefined, a path centre that has moved left by at least the distance
  travelled, and a victory only at the win distance.
\<close>

definition inv :: "game \<Rightarrow> bool" where
  "inv g =
     (3.5 \<le> scrollSpeed g \<and> scrollSpeed g \<le> 8.001 \<and> 0 \<le> distance g
      \<and> (hasSpawnedFirstPooper g \<or> poopingJJ g = None)
      \<and> (distance g > 250 \<or> \<not> hasSpawnedFirstPooper g)
      \<and> 0 \<le> splitDistance g
      \<and> pathTarget g = None
      \<and> (pathCenter g + distance g \<le> 512 \<or> pathCenter g \<le> - 1000)
      \<and> (state g \<noteq> VICTORY \<or> distance g \<ge> WIN_DISTANCE))"

text \<open>The condition of the contraction branch of \<open>updatePath\<close> (line 636).\<close>

definition contracting :: "game \<Rightarrow> bool" where
  "contracting g = (\<not> isSplitting g \<and> splitDistance g > 0)"

text \<open>The same game with the fork timer run out, and with a fork closing.\<close>

definition demo_fork_due :: game where
  "demo_fork_due = demo\<lparr>splitTimer := 1000\<rparr>"

definition demo_fork_closing :: game where
  "demo_fork_closing = demo\<lparr>splitDistance := 3\<rparr>"


text \<open>
  Lines 708 to 814 of \<open>update\<close>, in a frame that neither finds the game exploding
  nor reaches the win distance: the game as the obstacle loop finds it.
\<close>

definition before_loop :: "real \<Rightarrow> game \<Rightarrow> game" where
  "before_loop now g =
     spawnObstacle (update_player now (update_input (update_head (update_begin g))))"

text \<open>
  One frame short of the win, the player grounded, and a rock that this frame's
  scroll would bring under the player.
\<close>

definition demo_rock_below :: obstacle where
  "demo_rock_below = Obstacle_new 512 195 Rock"

definition demo_last_frame :: game where
  "demo_last_frame = demo\<lparr>distance := 1999.9, scrollSpeed := 8, obstacles := [demo_rock_below]\<rparr>"

section \<open>Proofs\<close>

lemma rest_env_upd [simp]:
  "rest_env (g\<lparr>rndCalls := v0\<rparr>) = rest_env g"
  "rest_env (g\<lparr>patches := v1\<rparr>) = rest_env g"
  "rest_env (g\<lparr>trails := v2\<rparr>) = rest_env g"
  "rest_env (g\<lparr>cameraX := v3\<rparr>) = rest_env g"
  "rest_env (g\<lparr>obstacles := v4\<rparr>) = rest_env g"
  by (simp_all add: rest_env_def)

lemma rest_env_cong:
  assumes "rest_env a = rest_env b"
  shows "player a = player b"
    and "particles a = particles b"
    and "keys a = keys b"
    and "state a = state b"
    and "isExploding a = isExploding b"
    and "scrollSpeed a = scrollSpeed b"
    and "distance a = distance b"
    and "lastHundredMeters a = lastHundredMeters b"
    and "frameCount a = frameCount b"
    and "pathCenter a = pathCenter b"
    and "pathTarget a = pathTarget b"
    and "pathWidth a = pathWidth b"
    and "targetPathWidth a = targetPathWidth b"
    and "isSplitting a = isSplitting b"
    and "startSeparating a = startSeparating b"
    and "splitDistance a = splitDistance b"
    and "maxSplitDistance a = maxSplitDistance b"
    and "splitTimer a = splitTimer b"
    and "poopingJJ a = poopingJJ b"
    and "lastPoopJJSpawn a = lastPoopJJSpawn b"
    and "hasSpawnedFirstPooper a = hasSpawnedFirstPooper b"
    and "carouselActive a = carouselActive b"
    and "carouselPhase a = carouselPhase b"
    and "hasSpawnedCarousel1 a = hasSpawnedCarousel1 b"
    and "hasSpawnedCarousel2 a = hasSpawnedCarousel2 b"
    and "svgTransform a = svgTransform b"
    and "rnd a = rnd b"
    and "rest_path a = rest_path b"
    and "rest_pooper a = rest_pooper b"
    and "rest_carousels a = rest_carousels b"
    and "rest_player a = rest_player b"
    and "rest_hit a = rest_hit b"
proof -
  note e = assms [unfolded rest_env_def]
  show "player a = player b"
    using arg_cong [OF e, of player] by (simp)
  show "particles a = particles b"
    using arg_cong [OF e, of particles] by (simp)
  show "keys a = keys b"
    using arg_cong [OF e, of keys] by (simp)
  show "state a = state b"
    using arg_cong [OF e, of state] by (simp)
  show "isExploding a = isExploding b"
    using arg_cong [OF e, of isExploding] by (simp)
  show "scrollSpeed a = scrollSpeed b"
    using arg_cong [OF e, of scrollSpeed] by (simp)
  show "distance a = distance b"
    using arg_cong [OF e, of distance] by (simp)
  show "lastHundredMeters a = lastHundredMeters b"
    using arg_cong [OF e, of lastHundredMeters] by (simp)
  show "frameCount a = frameCount b"
    using arg_cong [OF e, of frameCount] by (simp)
  show "pathCenter a = pathCenter b"
    using arg_cong [OF e, of pathCenter] by (simp)
  show "pathTarget a = pathTarget b"
    using arg_cong [OF e, of pathTarget] by (simp)
  show "pathWidth a = pathWidth b"
    using arg_cong [OF e, of pathWidth] by (simp)
  show "targetPathWidth a = targetPathWidth b"
    using arg_cong [OF e, of targetPathWidth] by (simp)
  show "isSplitting a = isSplitting b"
    using arg_cong [OF e, of isSplitting] by (simp)
  show "startSeparating a = startSeparating b"
    using arg_cong [OF e, of startSeparating] by (simp)
  show "splitDistance a = splitDistance b"
    using arg_cong [OF e, of splitDistance] by (simp)
  show "maxSplitDistance a = maxSplitDistance b"
    using arg_cong [OF e, of maxSplitDistance] by (simp)
  show "splitTimer a = splitTimer b"
    using arg_cong [OF e, of splitTimer] by (simp)
  show "poopingJJ a = poopingJJ b"
    using arg_cong [OF e, of poopingJJ] by (simp)
  show "lastPoopJJSpawn a = lastPoopJJSpawn b"
    using arg_cong [OF e, of lastPoopJJSpawn] by (simp)
  show "hasSpawnedFirstPooper a = hasSpawnedFirstPooper b"
    using arg_cong [OF e, of hasSpawnedFirstPooper] by (simp)
  show "carouselActive a = carouselActive b"
    using arg_cong [OF e, of carouselActive] by (simp)
  show "carouselPhase a = carouselPhase b"
    using arg_cong [OF e, of carouselPhase] by (simp)
  show "hasSpawnedCarousel1 a = hasSpawnedCarousel1 b"
    using arg_cong [OF e, of hasSpawnedCarousel1] by (simp)
  show "hasSpawnedCarousel2 a = hasSpawnedCarousel2 b"
    using arg_cong [OF e, of hasSpawnedCarousel2] by (simp)
  show "svgTransform a = svgTransform b"
    using arg_cong [OF e, of svgTransform] by (simp)
  show "rnd a = rnd b"
    using arg_cong [OF e, of rnd] by (simp)
  show "rest_path a = rest_path b"
    using arg_cong [OF e, of rest_path] by (simp add: rest_path_def)
  show "rest_pooper a = rest_pooper b"
    using arg_cong [OF e, of rest_pooper] by (simp add: rest_pooper_def)
  show "rest_carousels a = rest_carousels b"
    using arg_cong [OF e, of rest_carousels] by (simp add: rest_carousels_def)
  show "rest_player a = rest_player b"
    using arg_cong [OF e, of rest_player] by (simp add: rest_player_def)
  show "rest_hit a = rest_hit b"
    using arg_cong [OF e, of rest_hit] by (simp add: rest_hit_def)
qed

lemma rest_path_upd [simp]:
  "rest_path (g\<lparr>rndCalls := v0\<rparr>) = rest_path g"
  "rest_path (g\<lparr>patches := v1\<rparr>) = rest_path g"
  "rest_path (g\<lparr>trails := v2\<rparr>) = rest_path g"
  "rest_path (g\<lparr>cameraX := v3\<rparr>) = rest_path g"
  "rest_path (g\<lparr>obstacles := v4\<rparr>) = rest_path g"
  "rest_path (g\<lparr>pathCenter := v5\<rparr>) = rest_path g"
  "rest_path (g\<lparr>pathTarget := v6\<rparr>) = rest_path g"
  "rest_path (g\<lparr>pathWidth := v7\<rparr>) = rest_path g"
  "rest_path (g\<lparr>targetPathWidth := v8\<rparr>) = rest_path g"
  "rest_path (g\<lparr>isSplitting := v9\<rparr>) = rest_path g"
  "rest_path (g\<lparr>startSeparating := v10\<rparr>) = rest_path g"
  "rest_path (g\<lparr>splitDistance := v11\<rparr>) = rest_path g"
  "rest_path (g\<lparr>splitTimer := v12\<rparr>) = rest_path g"
  "rest_path (g\<lparr>lastHundredMeters := v13\<rparr>) = rest_path g"
  by (simp_all add: rest_path_def)

lemma rest_path_cong:
  assumes "rest_path a = rest_path b"
  shows "player a = player b"
    and "particles a = particles b"
    and "keys a = keys b"
    and "state a = state b"
    and "isExploding a = isExploding b"
    and "scrollSpeed a = scrollSpeed b"
    and "distance a = distance b"
    and "frameCount a = frameCount b"
    and "maxSplitDistance a = maxSplitDistance b"
    and "poopingJJ a = poopingJJ b"
    and "lastPoopJJSpawn a = lastPoopJJSpawn b"
    and "hasSpawnedFirstPooper a = hasSpawnedFirstPooper b"
    and "carouselActive a = carouselActive b"
    and "carouselPhase a = carouselPhase b"
    and "hasSpawnedCarousel1 a = hasSpawnedCarousel1 b"
    and "hasSpawnedCarousel2 a = hasSpawnedCarousel2 b"
    and "svgTransform a = svgTransform b"
    and "rnd a = rnd b"
proof -
  note e = assms [unfolded rest_path_def]
  show "player a = player b"
    using arg_cong [OF e, of player] by (simp)
  show "particles a = particles b"
    using arg_cong [OF e, of particles] by (simp)
  show "keys a = keys b"
    using arg_cong [OF e, of keys] by (simp)
  show "state a = state b"
    using arg_cong [OF e, of state] by (simp)
  show "isExploding a = isExploding b"
    using arg_cong [OF e, of isExploding] by (simp)
  show "scrollSpeed a = scrollSpeed b"
    using arg_cong [OF e, of scrollSpeed] by (simp)
  show "distance a = distance b"
    using arg_cong [OF e, of distance] by (simp)
  show "frameCount a = frameCount b"
    using arg_cong [OF e, of frameCount] by (simp)
  show "maxSplitDistance a = maxSplitDistance b"
    using arg_cong [OF e, of maxSplitDistance] by (simp)
  show "poopingJJ a = poopingJJ b"
    using arg_cong [OF e, of poopingJJ] by (simp)
  show "lastPoopJJSpawn a = lastPoopJJSpawn b"
    using arg_cong [OF e, of lastPoopJJSpawn] by (simp)
  show "hasSpawnedFirstPooper a = hasSpawnedFirstPooper b"
    using arg_cong [OF e, of hasSpawnedFirstPooper] by (simp)
  show "carouselActive a = carouselActive b"
    using arg_cong [OF e, of carouselActive] by (simp)
  show "carouselPhase a = carouselPhase b"
    using arg_cong [OF e, of carouselPhase] by (simp)
  show "hasSpawnedCarousel1 a = hasSpawnedCarousel1 b"
    using arg_cong [OF e, of hasSpawnedCarousel1] by (simp)
  show "hasSpawnedCarousel2 a = hasSpawnedCarousel2 b"
    using arg_cong [OF e, of hasSpawnedCarousel2] by (simp)
  show "svgTransform a = svgTransform b"
    using arg_cong [OF e, of svgTransform] by (simp)
  show "rnd a = rnd b"
    using arg_cong [OF e, of rnd] by (simp)
qed

lemma rest_pooper_upd [simp]:
  "rest_pooper (g\<lparr>rndCalls := v0\<rparr>) = rest_pooper g"
  "rest_pooper (g\<lparr>patches := v1\<rparr>) = rest_pooper g"
  "rest_pooper (g\<lparr>trails := v2\<rparr>) = rest_pooper g"
  "rest_pooper (g\<lparr>cameraX := v3\<rparr>) = rest_pooper g"
  "rest_pooper (g\<lparr>obstacles := v4\<rparr>) = rest_pooper g"
  "rest_pooper (g\<lparr>poopingJJ := v5\<rparr>) = rest_pooper g"
  "rest_pooper (g\<lparr>lastPoopJJSpawn := v6\<rparr>) = rest_pooper g"
  "rest_pooper (g\<lparr>hasSpawnedFirstPooper := v7\<rparr>) = rest_pooper g"
  by (simp_all add: rest_pooper_def)

lemma rest_pooper_cong:
  assumes "rest_pooper a = rest_pooper b"
  shows "player a = player b"
    and "particles a = particles b"
    and "keys a = keys b"
    and "state a = state b"
    and "isExploding a = isExploding b"
    and "scrollSpeed a = scrollSpeed b"
    and "distance a = distance b"
    and "lastHundredMeters a = lastHundredMeters b"
    and "frameCount a = frameCount b"
    and "pathCenter a = pathCenter b"
    and "pathTarget a = pathTarget b"
    and "pathWidth a = pathWidth b"
    and "targetPathWidth a = targetPathWidth b"
    and "isSplitting a = isSplitting b"
    and "startSeparating a = startSeparating b"
    and "splitDistance a = splitDistance b"
    and "maxSplitDistance a = maxSplitDistance b"
    and "splitTimer a = splitTimer b"
    and "carouselActive a = carouselActive b"
    and "carouselPhase a = carouselPhase b"
    and "hasSpawnedCarousel1 a = hasSpawnedCarousel1 b"
    and "hasSpawnedCarousel2 a = hasSpawnedCarousel2 b"
    and "svgTransform a = svgTransform b"
    and "rnd a = rnd b"
proof -
  note e = assms [unfolded rest_pooper_def]
  show "player a = player b"
    using arg_cong [OF e, of player] by (simp)
  show "particles a = particles b"
    using arg_cong [OF e, of particles] by (simp)
  show "keys a = keys b"
    using arg_cong [OF e, of keys] by (simp)
  show "state a = state b"
    using arg_cong [OF e, of state] by (simp)
  show "isExploding a = isExploding b"
    using arg_cong [OF e, of isExploding] by (simp)
  show "scrollSpeed a = scrollSpeed b"
    using arg_cong [OF e, of scrollSpeed] by (simp)
  show "distance a = distance b"
    using arg_cong [OF e, of distance] by (simp)
  show "lastHundredMeters a = lastHundredMeters b"
    using arg_cong [OF e, of lastHundredMeters] by (simp)
  show "frameCount a = frameCount b"
    using arg_cong [OF e, of frameCount] by (simp)
  show "pathCenter a = pathCenter b"
    using arg_cong [OF e, of pathCenter] by (simp)
  show "pathTarget a = pathTarget b"
    using arg_cong [OF e, of pathTarget] by (simp)
  show "pathWidth a = pathWidth b"
    using arg_cong [OF e, of pathWidth] by (simp)
  show "targetPathWidth a = targetPathWidth b"
    using arg_cong [OF e, of targetPathWidth] by (simp)
  show "isSplitting a = isSplitting b"
    using arg_cong [OF e, of isSplitting] by (simp)
  show "startSeparating a = startSeparating b"
    using arg_cong [OF e, of startSeparating] by (simp)
  show "splitDistance a = splitDistance b"
    using arg_cong [OF e, of splitDistance] by (simp)
  show "maxSplitDistance a = maxSplitDistance b"
    using arg_cong [OF e, of maxSplitDistance] by (simp)
  show "splitTimer a = splitTimer b"
    using arg_cong [OF e, of splitTimer] by (simp)
  show "carouselActive a = carouselActive b"
    using arg_cong [OF e, of carouselActive] by (simp)
  show "carouselPhase a = carouselPhase b"
    using arg_cong [OF e, of carouselPhase] by (simp)
  show "hasSpawnedCarousel1 a = hasSpawnedCarousel1 b"
    using arg_cong [OF e, of hasSpawnedCarousel1] by (simp)
  show "hasSpawnedCarousel2 a = hasSpawnedCarousel2 b"
    using arg_cong [OF e, of hasSpawnedCarousel2] by (simp)
  show "svgTransform a = svgTransform b"
    using arg_cong [OF e, of svgTransform] by (simp)
  show "rnd a = rnd b"
    using arg_cong [OF e, of rnd] by (simp)
qed

lemma rest_particles_upd [simp]:
  "rest_particles (g\<lparr>particles := v0\<rparr>) = rest_particles g"
  "rest_particles (g\<lparr>rndCalls := v1\<rparr>) = rest_particles g"
  by (simp_all add: rest_particles_def)

lemma rest_particles_cong:
  assumes "rest_particles a = rest_particles b"
  shows "player a = player b"
    and "obstacles a = obstacles b"
    and "trails a = trails b"
    and "patches a = patches b"
    and "keys a = keys b"
    and "state a = state b"
    and "isExploding a = isExploding b"
    and "scrollSpeed a = scrollSpeed b"
    and "distance a = distance b"
    and "lastHundredMeters a = lastHundredMeters b"
    and "frameCount a = frameCount b"
    and "cameraX a = cameraX b"
    and "pathCenter a = pathCenter b"
    and "pathTarget a = pathTarget b"
    and "pathWidth a = pathWidth b"
    and "targetPathWidth a = targetPathWidth b"
    and "isSplitting a = isSplitting b"
    and "startSeparating a = startSeparating b"
    and "splitDistance a = splitDistance b"
    and "maxSplitDistance a = maxSplitDistance b"
    and "splitTimer a = splitTimer b"
    and "poopingJJ a = poopingJJ b"
    and "lastPoopJJSpawn a = lastPoopJJSpawn b"
    and "hasSpawnedFirstPooper a = hasSpawnedFirstPooper b"
    and "carouselActive a = carouselActive b"
    and "carouselPhase a = carouselPhase b"
    and "hasSpawnedCarousel1 a = hasSpawnedCarousel1 b"
    and "hasSpawnedCarousel2 a = hasSpawnedCarousel2 b"
    and "svgTransform a = svgTransform b"
    and "rnd a = rnd b"
    and "rest_hit a = rest_hit b"
proof -
  note e = assms [unfolded rest_particles_def]
  show "player a = player b"
    using arg_cong [OF e, of player] by (simp)
  show "obstacles a = obstacles b"
    using arg_cong [OF e, of obstacles] by (simp)
  show "trails a = trails b"
    using arg_cong [OF e, of trails] by (simp)
  show "patches a = patches b"
    using arg_cong [OF e, of patches] by (simp)
  show "keys a = keys b"
    using arg_cong [OF e, of keys] by (simp)
  show "state a = state b"
    using arg_cong [OF e, of state] by (simp)
  show "isExploding a = isExploding b"
    using arg_cong [OF e, of isExploding] by (simp)
  show "scrollSpeed a = scrollSpeed b"
    using arg_cong [OF e, of scrollSpeed] by (simp)
  show "distance a = distance b"
    using arg_cong [OF e, of distance] by (simp)
  show "lastHundredMeters a = lastHundredMeters b"
    using arg_cong [OF e, of lastHundredMeters] by (simp)
  show "frameCount a = frameCount b"
    using arg_cong [OF e, of frameCount] by (simp)
  show "cameraX a = cameraX b"
    using arg_cong [OF e, of cameraX] by (simp)
  show "pathCenter a = pathCenter b"
    using arg_cong [OF e, of pathCenter] by (simp)
  show "pathTarget a = pathTarget b"
    using arg_cong [OF e, of pathTarget] by (simp)
  show "pathWidth a = pathWidth b"
    using arg_cong [OF e, of pathWidth] by (simp)
  show "targetPathWidth a = targetPathWidth b"
    using arg_cong [OF e, of targetPathWidth] by (simp)
  show "isSplitting a = isSplitting b"
    using arg_cong [OF e, of isSplitting] by (simp)
  show "startSeparating a = startSeparating b"
    using arg_cong [OF e, of startSeparating] by (simp)
  show "splitDistance a = splitDistance b"
    using arg_cong [OF e, of splitDistance] by (simp)
  show "maxSplitDistance a = maxSplitDistance b"
    using arg_cong [OF e, of maxSplitDistance] by (simp)
  show "splitTimer a = splitTimer b"
    using arg_cong [OF e, of splitTimer] by (simp)
  show "poopingJJ a = poopingJJ b"
    using arg_cong [OF e, of poopingJJ] by (simp)
  show "lastPoopJJSpawn a = lastPoopJJSpawn b"
    using arg_cong [OF e, of lastPoopJJSpawn] by (simp)
  show "hasSpawnedFirstPooper a = hasSpawnedFirstPooper b"
    using arg_cong [OF e, of hasSpawnedFirstPooper] by (simp)
  show "carouselActive a = carouselActive b"
    using arg_cong [OF e, of carouselActive] by (simp)
  show "carouselPhase a = carouselPhase b"
    using arg_cong [OF e, of carouselPhase] by (simp)
  show "hasSpawnedCarousel1 a = hasSpawnedCarousel1 b"
    using arg_cong [OF e, of hasSpawnedCarousel1] by (simp)
  show "hasSpawnedCarousel2 a = hasSpawnedCarousel2 b"
    using arg_cong [OF e, of hasSpawnedCarousel2] by (simp)
  show "svgTransform a = svgTransform b"
    using arg_cong [OF e, of svgTransform] by (simp)
  show "rnd a = rnd b"
    using arg_cong [OF e, of rnd] by (simp)
  show "rest_hit a = rest_hit b"
    using arg_cong [OF e, of rest_hit] by (simp add: rest_hit_def)
qed

lemma rest_speed_upd [simp]:
  "rest_speed (g\<lparr>distance := v0\<rparr>) = rest_speed g"
  "rest_speed (g\<lparr>scrollSpeed := v1\<rparr>) = rest_speed g"
  by (simp_all add: rest_speed_def)

lemma rest_speed_cong:
  assumes "rest_speed a = rest_speed b"
  shows "player a = player b"
    and "obstacles a = obstacles b"
    and "trails a = trails b"
    and "particles a = particles b"
    and "patches a = patches b"
    and "keys a = keys b"
    and "state a = state b"
    and "isExploding a = isExploding b"
    and "lastHundredMeters a = lastHundredMeters b"
    and "frameCount a = frameCount b"
    and "cameraX a = cameraX b"
    and "pathCenter a = pathCenter b"
    and "pathTarget a = pathTarget b"
    and "pathWidth a = pathWidth b"
    and "targetPathWidth a = targetPathWidth b"
    and "isSplitting a = isSplitting b"
    and "startSeparating a = startSeparating b"
    and "splitDistance a = splitDistance b"
    and "maxSplitDistance a = maxSplitDistance b"
    and "splitTimer a = splitTimer b"
    and "poopingJJ a = poopingJJ b"
    and "lastPoopJJSpawn a = lastPoopJJSpawn b"
    and "hasSpawnedFirstPooper a = hasSpawnedFirstPooper b"
    and "carouselActive a = carouselActive b"
    and "carouselPhase a = carouselPhase b"
    and "hasSpawnedCarousel1 a = hasSpawnedCarousel1 b"
    and "hasSpawnedCarousel2 a = hasSpawnedCarousel2 b"
    and "svgTransform a = svgTransform b"
    and "rnd a = rnd b"
    and "rndCalls a = rndCalls b"
proof -
  note e = assms [unfolded rest_speed_def]
  show "player a = player b"
    using arg_cong [OF e, of player] by (simp)
  show "obstacles a = obstacles b"
    using arg_cong [OF e, of obstacles] by (simp)
  show "trails a = trails b"
    using arg_cong [OF e, of trails] by (simp)
  show "particles a = particles b"
    using arg_cong [OF e, of particles] by (simp)
  show "patches a = patches b"
    using arg_cong [OF e, of patches] by (simp)
  show "keys a = keys b"
    using arg_cong [OF e, of keys] by (simp)
  show "state a = state b"
    using arg_cong [OF e, of state] by (simp)
  show "isExploding a = isExploding b"
    using arg_cong [OF e, of isExploding] by (simp)
  show "lastHundredMeters a = lastHundredMeters b"
    using arg_cong [OF e, of lastHundredMeters] by (simp)
  show "frameCount a = frameCount b"
    using arg_cong [OF e, of frameCount] by (simp)
  show "cameraX a = cameraX b"
    using arg_cong [OF e, of cameraX] by (simp)
  show "pathCenter a = pathCenter b"
    using arg_cong [OF e, of pathCenter] by (simp)
  show "pathTarget a = pathTarget b"
    using arg_cong [OF e, of pathTarget] by (simp)
  show "pathWidth a = pathWidth b"
    using arg_cong [OF e, of pathWidth] by (simp)
  show "targetPathWidth a = targetPathWidth b"
    using arg_cong [OF e, of targetPathWidth] by (simp)
  show "isSplitting a = isSplitting b"
    using arg_cong [OF e, of isSplitting] by (simp)
  show "startSeparating a = startSeparating b"
    using arg_cong [OF e, of startSeparating] by (simp)
  show "splitDistance a = splitDistance b"
    using arg_cong [OF e, of splitDistance] by (simp)
  show "maxSplitDistance a = maxSplitDistance b"
    using arg_cong [OF e, of maxSplitDistance] by (simp)
  show "splitTimer a = splitTimer b"
    using arg_cong [OF e, of splitTimer] by (simp)
  show "poopingJJ a = poopingJJ b"
    using arg_cong [OF e, of poopingJJ] by (simp)
  show "lastPoopJJSpawn a = lastPoopJJSpawn b"
    using arg_cong [OF e, of lastPoopJJSpawn] by (simp)
  show "hasSpawnedFirstPooper a = hasSpawnedFirstPooper b"
    using arg_cong [OF e, of hasSpawnedFirstPooper] by (simp)
  show "carouselActive a = carouselActive b"
    using arg_cong [OF e, of carouselActive] by (simp)
  show "carouselPhase a = carouselPhase b"
    using arg_cong [OF e, of carouselPhase] by (simp)
  show "hasSpawnedCarousel1 a = hasSpawnedCarousel1 b"
    using arg_cong [OF e, of hasSpawnedCarousel1] by (simp)
  show "hasSpawnedCarousel2 a = hasSpawnedCarousel2 b"
    using arg_cong [OF e, of hasSpawnedCarousel2] by (simp)
  show "svgTransform a = svgTransform b"
    using arg_cong [OF e, of svgTransform] by (simp)
  show "rnd a = rnd b"
    using arg_cong [OF e, of rnd] by (simp)
  show "rndCalls a = rndCalls b"
    using arg_cong [OF e, of rndCalls] by (simp)
qed

lemma rest_carousels_upd [simp]:
  "rest_carousels (g\<lparr>rndCalls := v0\<rparr>) = rest_carousels g"
  "rest_carousels (g\<lparr>patches := v1\<rparr>) = rest_carousels g"
  "rest_carousels (g\<lparr>trails := v2\<rparr>) = rest_carousels g"
  "rest_carousels (g\<lparr>cameraX := v3\<rparr>) = rest_carousels g"
  "rest_carousels (g\<lparr>obstacles := v4\<rparr>) = rest_carousels g"
  "rest_carousels (g\<lparr>hasSpawnedCarousel1 := v5\<rparr>) = rest_carousels g"
  "rest_carousels (g\<lparr>hasSpawnedCarousel2 := v6\<rparr>) = rest_carousels g"
  by (simp_all add: rest_carousels_def)

lemma rest_carousels_cong:
  assumes "rest_carousels a = rest_carousels b"
  shows "player a = player b"
    and "particles a = particles b"
    and "keys a = keys b"
    and "state a = state b"
    and "isExploding a = isExploding b"
    and "scrollSpeed a = scrollSpeed b"
    and "distance a = distance b"
    and "lastHundredMeters a = lastHundredMeters b"
    and "frameCount a = frameCount b"
    and "pathCenter a = pathCenter b"
    and "pathTarget a = pathTarget b"
    and "pathWidth a = pathWidth b"
    and "targetPathWidth a = targetPathWidth b"
    and "isSplitting a = isSplitting b"
    and "startSeparating a = startSeparating b"
    and "splitDistance a = splitDistance b"
    and "maxSplitDistance a = maxSplitDistance b"
    and "splitTimer a = splitTimer b"
    and "poopingJJ a = poopingJJ b"
    and "lastPoopJJSpawn a = lastPoopJJSpawn b"
    and "hasSpawnedFirstPooper a = hasSpawnedFirstPooper b"
    and "carouselActive a = carouselActive b"
    and "carouselPhase a = carouselPhase b"
    and "svgTransform a = svgTransform b"
    and "rnd a = rnd b"
proof -
  note e = assms [unfolded rest_carousels_def]
  show "player a = player b"
    using arg_cong [OF e, of player] by (simp)
  show "particles a = particles b"
    using arg_cong [OF e, of particles] by (simp)
  show "keys a = keys b"
    using arg_cong [OF e, of keys] by (simp)
  show "state a = state b"
    using arg_cong [OF e, of state] by (simp)
  show "isExploding a = isExploding b"
    using arg_cong [OF e, of isExploding] by (simp)
  show "scrollSpeed a = scrollSpeed b"
    using arg_cong [OF e, of scrollSpeed] by (simp)
  show "distance a = distance b"
    using arg_cong [OF e, of distance] by (simp)
  show "lastHundredMeters a = lastHundredMeters b"
    using arg_cong [OF e, of lastHundredMeters] by (simp)
  show "frameCount a = frameCount b"
    using arg_cong [OF e, of frameCount] by (simp)
  show "pathCenter a = pathCenter b"
    using arg_cong [OF e, of pathCenter] by (simp)
  show "pathTarget a = pathTarget b"
    using arg_cong [OF e, of pathTarget] by (simp)
  show "pathWidth a = pathWidth b"
    using arg_cong [OF e, of pathWidth] by (simp)
  show "targetPathWidth a = targetPathWidth b"
    using arg_cong [OF e, of targetPathWidth] by (simp)
  show "isSplitting a = isSplitting b"
    using arg_cong [OF e, of isSplitting] by (simp)
  show "startSeparating a = startSeparating b"
    using arg_cong [OF e, of startSeparating] by (simp)
  show "splitDistance a = splitDistance b"
    using arg_cong [OF e, of splitDistance] by (simp)
  show "maxSplitDistance a = maxSplitDistance b"
    using arg_cong [OF e, of maxSplitDistance] by (simp)
  show "splitTimer a = splitTimer b"
    using arg_cong [OF e, of splitTimer] by (simp)
  show "poopingJJ a = poopingJJ b"
    using arg_cong [OF e, of poopingJJ] by (simp)
  show "lastPoopJJSpawn a = lastPoopJJSpawn b"
    using arg_cong [OF e, of lastPoopJJSpawn] by (simp)
  show "hasSpawnedFirstPooper a = hasSpawnedFirstPooper b"
    using arg_cong [OF e, of hasSpawnedFirstPooper] by (simp)
  show "carouselActive a = carouselActive b"
    using arg_cong [OF e, of carouselActive] by (simp)
  show "carouselPhase a = carouselPhase b"
    using arg_cong [OF e, of carouselPhase] by (simp)
  show "svgTransform a = svgTransform b"
    using arg_cong [OF e, of svgTransform] by (simp)
  show "rnd a = rnd b"
    using arg_cong [OF e, of rnd] by (simp)
qed

lemma rest_player_upd [simp]:
  "rest_player (g\<lparr>rndCalls := v0\<rparr>) = rest_player g"
  "rest_player (g\<lparr>patches := v1\<rparr>) = rest_player g"
  "rest_player (g\<lparr>trails := v2\<rparr>) = rest_player g"
  "rest_player (g\<lparr>cameraX := v3\<rparr>) = rest_player g"
  "rest_player (g\<lparr>obstacles := v4\<rparr>) = rest_player g"
  "rest_player (g\<lparr>player := v5\<rparr>) = rest_player g"
  by (simp_all add: rest_player_def)

lemma rest_player_cong:
  assumes "rest_player a = rest_player b"
  shows "particles a = particles b"
    and "keys a = keys b"
    and "state a = state b"
    and "isExploding a = isExploding b"
    and "scrollSpeed a = scrollSpeed b"
    and "distance a = distance b"
    and "lastHundredMeters a = lastHundredMeters b"
    and "frameCount a = frameCount b"
    and "pathCenter a = pathCenter b"
    and "pathTarget a = pathTarget b"
    and "pathWidth a = pathWidth b"
    and "targetPathWidth a = targetPathWidth b"
    and "isSplitting a = isSplitting b"
    and "startSeparating a = startSeparating b"
    and "splitDistance a = splitDistance b"
    and "maxSplitDistance a = maxSplitDistance b"
    and "splitTimer a = splitTimer b"
    and "poopingJJ a = poopingJJ b"
    and "lastPoopJJSpawn a = lastPoopJJSpawn b"
    and "hasSpawnedFirstPooper a = hasSpawnedFirstPooper b"
    and "carouselActive a = carouselActive b"
    and "carouselPhase a = carouselPhase b"
    and "hasSpawnedCarousel1 a = hasSpawnedCarousel1 b"
    and "hasSpawnedCarousel2 a = hasSpawnedCarousel2 b"
    and "svgTransform a = svgTransform b"
    and "rnd a = rnd b"
    and "rest_hit a = rest_hit b"
proof -
  note e = assms [unfolded rest_player_def]
  show "particles a = particles b"
    using arg_cong [OF e, of particles] by (simp)
  show "keys a = keys b"
    using arg_cong [OF e, of keys] by (simp)
  show "state a = state b"
    using arg_cong [OF e, of state] by (simp)
  show "isExploding a = isExploding b"
    using arg_cong [OF e, of isExploding] by (simp)
  show "scrollSpeed a = scrollSpeed b"
    using arg_cong [OF e, of scrollSpeed] by (simp)
  show "distance a = distance b"
    using arg_cong [OF e, of distance] by (simp)
  show "lastHundredMeters a = lastHundredMeters b"
    using arg_cong [OF e, of lastHundredMeters] by (simp)
  show "frameCount a = frameCount b"
    using arg_cong [OF e, of frameCount] by (simp)
  show "pathCenter a = pathCenter b"
    using arg_cong [OF e, of pathCenter] by (simp)
  show "pathTarget a = pathTarget b"
    using arg_cong [OF e, of pathTarget] by (simp)
  show "pathWidth a = pathWidth b"
    using arg_cong [OF e, of pathWidth] by (simp)
  show "targetPathWidth a = targetPathWidth b"
    using arg_cong [OF e, of targetPathWidth] by (simp)
  show "isSplitting a = isSplitting b"
    using arg_cong [OF e, of isSplitting] by (simp)
  show "startSeparating a = startSeparating b"
    using arg_cong [OF e, of startSeparating] by (simp)
  show "splitDistance a = splitDistance b"
    using arg_cong [OF e, of splitDistance] by (simp)
  show "maxSplitDistance a = maxSplitDistance b"
    using arg_cong [OF e, of maxSplitDistance] by (simp)
  show "splitTimer a = splitTimer b"
    using arg_cong [OF e, of splitTimer] by (simp)
  show "poopingJJ a = poopingJJ b"
    using arg_cong [OF e, of poopingJJ] by (simp)
  show "lastPoopJJSpawn a = lastPoopJJSpawn b"
    using arg_cong [OF e, of lastPoopJJSpawn] by (simp)
  show "hasSpawnedFirstPooper a = hasSpawnedFirstPooper b"
    using arg_cong [OF e, of hasSpawnedFirstPooper] by (simp)
  show "carouselActive a = carouselActive b"
    using arg_cong [OF e, of carouselActive] by (simp)
  show "carouselPhase a = carouselPhase b"
    using arg_cong [OF e, of carouselPhase] by (simp)
  show "hasSpawnedCarousel1 a = hasSpawnedCarousel1 b"
    using arg_cong [OF e, of hasSpawnedCarousel1] by (simp)
  show "hasSpawnedCarousel2 a = hasSpawnedCarousel2 b"
    using arg_cong [OF e, of hasSpawnedCarousel2] by (simp)
  show "svgTransform a = svgTransform b"
    using arg_cong [OF e, of svgTransform] by (simp)
  show "rnd a = rnd b"
    using arg_cong [OF e, of rnd] by (simp)
  show "rest_hit a = rest_hit b"
    using arg_cong [OF e, of rest_hit] by (simp add: rest_hit_def)
qed

lemma rest_hit_upd [simp]:
  "rest_hit (g\<lparr>rndCalls := v0\<rparr>) = rest_hit g"
  "rest_hit (g\<lparr>patches := v1\<rparr>) = rest_hit g"
  "rest_hit (g\<lparr>trails := v2\<rparr>) = rest_hit g"
  "rest_hit (g\<lparr>cameraX := v3\<rparr>) = rest_hit g"
  "rest_hit (g\<lparr>obstacles := v4\<rparr>) = rest_hit g"
  "rest_hit (g\<lparr>state := v5\<rparr>) = rest_hit g"
  "rest_hit (g\<lparr>player := v6\<rparr>) = rest_hit g"
  "rest_hit (g\<lparr>particles := v7\<rparr>) = rest_hit g"
  "rest_hit (g\<lparr>carouselActive := v8\<rparr>) = rest_hit g"
  by (simp_all add: rest_hit_def)

lemma rest_hit_cong:
  assumes "rest_hit a = rest_hit b"
  shows "keys a = keys b"
    and "isExploding a = isExploding b"
    and "scrollSpeed a = scrollSpeed b"
    and "distance a = distance b"
    and "lastHundredMeters a = lastHundredMeters b"
    and "frameCount a = frameCount b"
    and "pathCenter a = pathCenter b"
    and "pathTarget a = pathTarget b"
    and "pathWidth a = pathWidth b"
    and "targetPathWidth a = targetPathWidth b"
    and "isSplitting a = isSplitting b"
    and "startSeparating a = startSeparating b"
    and "splitDistance a = splitDistance b"
    and "maxSplitDistance a = maxSplitDistance b"
    and "splitTimer a = splitTimer b"
    and "poopingJJ a = poopingJJ b"
    and "lastPoopJJSpawn a = lastPoopJJSpawn b"
    and "hasSpawnedFirstPooper a = hasSpawnedFirstPooper b"
    and "carouselPhase a = carouselPhase b"
    and "hasSpawnedCarousel1 a = hasSpawnedCarousel1 b"
    and "hasSpawnedCarousel2 a = hasSpawnedCarousel2 b"
    and "svgTransform a = svgTransform b"
    and "rnd a = rnd b"
proof -
  note e = assms [unfolded rest_hit_def]
  show "keys a = keys b"
    using arg_cong [OF e, of keys] by (simp)
  show "isExploding a = isExploding b"
    using arg_cong [OF e, of isExploding] by (simp)
  show "scrollSpeed a = scrollSpeed b"
    using arg_cong [OF e, of scrollSpeed] by (simp)
  show "distance a = distance b"
    using arg_cong [OF e, of distance] by (simp)
  show "lastHundredMeters a = lastHundredMeters b"
    using arg_cong [OF e, of lastHundredMeters] by (simp)
  show "frameCount a = frameCount b"
    using arg_cong [OF e, of frameCount] by (simp)
  show "pathCenter a = pathCenter b"
    using arg_cong [OF e, of pathCenter] by (simp)
  show "pathTarget a = pathTarget b"
    using arg_cong [OF e, of pathTarget] by (simp)
  show "pathWidth a = pathWidth b"
    using arg_cong [OF e, of pathWidth] by (simp)
  show "targetPathWidth a = targetPathWidth b"
    using arg_cong [OF e, of targetPathWidth] by (simp)
  show "isSplitting a = isSplitting b"
    using arg_cong [OF e, of isSplitting] by (simp)
  show "startSeparating a = startSeparating b"
    using arg_cong [OF e, of startSeparating] by (simp)
  show "splitDistance a = splitDistance b"
    using arg_cong [OF e, of splitDistance] by (simp)
  show "maxSplitDistance a = maxSplitDistance b"
    using arg_cong [OF e, of maxSplitDistance] by (simp)
  show "splitTimer a = splitTimer b"
    using arg_cong [OF e, of splitTimer] by (simp)
  show "poopingJJ a = poopingJJ b"
    using arg_cong [OF e, of poopingJJ] by (simp)
  show "lastPoopJJSpawn a = lastPoopJJSpawn b"
    using arg_cong [OF e, of lastPoopJJSpawn] by (simp)
  show "hasSpawnedFirstPooper a = hasSpawnedFirstPooper b"
    using arg_cong [OF e, of hasSpawnedFirstPooper] by (simp)
  show "carouselPhase a = carouselPhase b"
    using arg_cong [OF e, of carouselPhase] by (simp)
  show "hasSpawnedCarousel1 a = hasSpawnedCarousel1 b"
    using arg_cong [OF e, of hasSpawnedCarousel1] by (simp)
  show "hasSpawnedCarousel2 a = hasSpawnedCarousel2 b"
    using arg_cong [OF e, of hasSpawnedCarousel2] by (simp)
  show "svgTransform a = svgTransform b"
    using arg_cong [OF e, of svgTransform] by (simp)
  show "rnd a = rnd b"
    using arg_cong [OF e, of rnd] by (simp)
qed

subsection \<open>Operations on the environment and the scenery\<close>

lemma Math_random_env [simp]: "rest_env (snd (Math_random g)) = rest_env g"
  by (simp add: Math_random_def)

lemmas Math_random_frame [simp] = rest_env_cong [OF Math_random_env]

lemma spawnPatch_env [simp]: "rest_env (spawnPatch y g) = rest_env g"
  by (simp add: spawnPatch_def Let_def split_def)

lemmas spawnPatch_frame [simp] = rest_env_cong [OF spawnPatch_env]

lemma reset_loop_env [simp]: "rest_env (reset_loop n g) = rest_env g"
  by (induction n arbitrary: g) (simp_all add: Let_def split_def)

lemma BackgroundManager_reset_env [simp]: "rest_env (BackgroundManager_reset g) = rest_env g"
  by (simp add: BackgroundManager_reset_def)

lemmas BackgroundManager_reset_frame [simp] = rest_env_cong [OF BackgroundManager_reset_env]

lemma patches_loop_env [simp]: "rest_env (fst (patches_loop s ps g)) = rest_env g"
  by (induction ps) (simp_all add: Let_def split_def)

lemma BackgroundManager_update_env [simp]: "rest_env (BackgroundManager_update s g) = rest_env g"
  by (simp add: BackgroundManager_update_def Let_def split_def)

lemmas BackgroundManager_update_frame [simp] = rest_env_cong [OF BackgroundManager_update_env]

lemma push_obstacle_env [simp]: "rest_env (push_obstacle ob g) = rest_env g"
  by (simp add: push_obstacle_def)

lemmas push_obstacle_frame [simp] = rest_env_cong [OF push_obstacle_env]

lemma spawnJJBarrier_env [simp]: "rest_env (spawnJJBarrier g) = rest_env g"
  by (simp add: spawnJJBarrier_def Let_def split_def)

lemmas spawnJJBarrier_frame [simp] = rest_env_cong [OF spawnJJBarrier_env]

lemma spawnTreeAt_env [simp]: "rest_env (spawnTreeAt x y g) = rest_env g"
  by (simp add: spawnTreeAt_def Let_def split_def)

lemmas spawnTreeAt_frame [simp] = rest_env_cong [OF spawnTreeAt_env]

lemma spawnWallTrees_env [simp]: "rest_env (spawnWallTrees g) = rest_env g"
  by (simp add: spawnWallTrees_def Let_def)

lemmas spawnWallTrees_frame [simp] = rest_env_cong [OF spawnWallTrees_env]

lemma spawnInternalObstacle_env [simp]: "rest_env (spawnInternalObstacle g) = rest_env g"
  by (simp add: spawnInternalObstacle_def Let_def split_def)

lemmas spawnInternalObstacle_frame [simp] = rest_env_cong [OF spawnInternalObstacle_env]

lemma spawnCarousel_env [simp]: "rest_env (spawnCarousel ph g) = rest_env g"
  by (simp add: spawnCarousel_def Let_def)

lemmas spawnCarousel_frame [simp] = rest_env_cong [OF spawnCarousel_env]

lemma spawnPoop_env [simp]: "rest_env (spawnPoop x y g) = rest_env g"
  by (simp add: spawnPoop_def)

lemmas spawnPoop_frame [simp] = rest_env_cong [OF spawnPoop_env]

lemma updateTrails_env [simp]: "rest_env (updateTrails g) = rest_env g"
  by (simp add: updateTrails_def)

lemmas updateTrails_frame [simp] = rest_env_cong [OF updateTrails_env]

lemma update_camera_env [simp]: "rest_env (update_camera g) = rest_env g"
  by (simp add: update_camera_def Let_def split_def)

lemmas update_camera_frame [simp] = rest_env_cong [OF update_camera_env]

subsection \<open>The path model\<close>

lemma path_retarget_path [simp]: "rest_path (path_retarget g) = rest_path g"
  by (simp add: path_retarget_def Let_def split_def split: option.splits)

lemma path_move_path [simp]: "rest_path (path_move g) = rest_path g"
  by (simp add: path_move_def Let_def)

lemma path_widen_path [simp]: "rest_path (path_widen g) = rest_path g"
  by (simp add: path_widen_def)

lemma path_narrow_path [simp]: "rest_path (path_narrow g) = rest_path g"
  by (simp add: path_narrow_def)

lemma split_tick_path [simp]: "rest_path (split_tick g) = rest_path g"
  by (simp add: split_tick_def)

lemma split_start_path [simp]: "rest_path (split_start g) = rest_path g"
  by (simp add: split_start_def Let_def split_def)

lemma split_prepare_path [simp]: "rest_path (split_prepare g) = rest_path g"
  by (simp add: split_prepare_def Let_def)

lemma split_separate_path [simp]: "rest_path (split_separate g) = rest_path g"
  by (simp add: split_separate_def)

lemma split_contract_path [simp]: "rest_path (split_contract g) = rest_path g"
  by (simp add: split_contract_def Let_def)

lemma updatePath_path [simp]: "rest_path (updatePath g) = rest_path g"
  by (simp add: updatePath_def)

lemmas updatePath_frame [simp] = rest_path_cong [OF updatePath_path]

lemma spawnObstacle_path [simp]: "rest_path (spawnObstacle g) = rest_path g"
  by (simp add: spawnObstacle_def Let_def)

lemmas spawnObstacle_frame [simp] = rest_path_cong [OF spawnObstacle_path]

subsection \<open>The antagonist\<close>

lemma spawnPoopingJJ_pooper [simp]: "rest_pooper (spawnPoopingJJ ft g) = rest_pooper g"
  by (simp add: spawnPoopingJJ_def Let_def split_def split: option.splits)

lemma jj_set_pooper [simp]: "rest_pooper (jj_set f g) = rest_pooper g"
  by (simp add: jj_set_def)

lemma poop_tick_pooper [simp]: "rest_pooper (poop_tick n g) = rest_pooper g"
  by (simp add: poop_tick_def Let_def split: option.splits)

lemma sled_age_pooper [simp]: "rest_pooper (sled_age g) = rest_pooper g"
  by (simp add: sled_age_def Let_def split: option.splits)

lemma squat_scroll_pooper [simp]: "rest_pooper (squat_scroll g) = rest_pooper g"
  by (simp add: squat_scroll_def Let_def split: option.splits)

lemma updateSleddingJJ_pooper [simp]: "rest_pooper (updateSleddingJJ jj g) = rest_pooper g"
  by (simp add: updateSleddingJJ_def sled_enter_def sled_move_def Let_def)

lemma updateSquattingJJ_pooper [simp]: "rest_pooper (updateSquattingJJ jj g) = rest_pooper g"
  by (simp add: updateSquattingJJ_def squat_enter_def squat_move_def squat_turn_def Let_def)

lemma updatePoopingJJ_pooper [simp]: "rest_pooper (updatePoopingJJ g) = rest_pooper g"
  by (simp add: updatePoopingJJ_def split: option.splits)

lemma pooper_spawn_pooper [simp]: "rest_pooper (pooper_spawn g) = rest_pooper g"
  by (simp add: pooper_spawn_def Let_def)

lemma update_pooper_pooper [simp]: "rest_pooper (update_pooper g) = rest_pooper g"
  by (simp add: update_pooper_def Let_def)

lemmas update_pooper_frame [simp] = rest_pooper_cong [OF update_pooper_pooper]

subsection \<open>Speed, carousels, steering\<close>

lemma update_speed_speed [simp]: "rest_speed (update_speed g) = rest_speed g"
  by (simp add: update_speed_def Let_def)

lemmas update_speed_frame [simp] = rest_speed_cong [OF update_speed_speed]

lemma update_carousels_carousels [simp]: "rest_carousels (update_carousels g) = rest_carousels g"
  by (simp add: update_carousels_def)

lemmas update_carousels_frame [simp] = rest_carousels_cong [OF update_carousels_carousels]

lemma update_input_player [simp]: "rest_player (update_input g) = rest_player g"
  by (simp add: update_input_def Let_def)

lemmas update_input_frame [simp] = rest_player_cong [OF update_input_player]

lemma update_player_player [simp]: "rest_player (update_player now g) = rest_player g"
  by (simp add: update_player_def Let_def)

lemmas update_player_frame [simp] = rest_player_cong [OF update_player_player]

subsection \<open>Particles and collisions\<close>

lemma spawnParticle_particles [simp]: "rest_particles (spawnParticle x y c g) = rest_particles g"
  by (simp add: spawnParticle_def Math_random_def Let_def split_def)

lemma spawnLoop_particles [simp]: "rest_particles (spawnLoop n x y c g) = rest_particles g"
  by (induction n arbitrary: g) simp_all

lemma spawnExplosion_particles [simp]: "rest_particles (spawnExplosion x y c g) = rest_particles g"
  by (simp add: spawnExplosion_def)

lemmas spawnExplosion_frame [simp] = rest_particles_cong [OF spawnExplosion_particles]

lemma ParticleSystem_update_particles [simp]:
  "rest_particles (snd (ParticleSystem_update g)) = rest_particles g"
  by (simp add: ParticleSystem_update_def Let_def)

lemmas ParticleSystem_update_frame [simp] = rest_particles_cong [OF ParticleSystem_update_particles]

lemma triggerExplosion_hit [simp]: "rest_hit (triggerExplosion ob g) = rest_hit g"
  by (simp add: triggerExplosion_def Let_def)

lemmas triggerExplosion_frame [simp] = rest_hit_cong [OF triggerExplosion_hit]

lemma triggerCarouselEffect_hit [simp]: "rest_hit (fst (triggerCarouselEffect ob g)) = rest_hit g"
  by (simp add: triggerCarouselEffect_def Let_def)

lemmas triggerCarouselEffect_frame [simp] = rest_hit_cong [OF triggerCarouselEffect_hit]

lemma obstacle_step_hit [simp]: "rest_hit (fst (obstacle_step ob gk)) = rest_hit (fst gk)"
  by (simp add: obstacle_step_def Let_def split_def)

lemmas obstacle_step_frame [simp] = rest_hit_cong [OF obstacle_step_hit]

lemma foldr_obstacle_step_hit [simp]:
  "rest_hit (fst (foldr obstacle_step obs gk)) = rest_hit (fst gk)"
  by (induction obs) simp_all

lemmas foldr_obstacle_step_frame [simp] = rest_hit_cong [OF foldr_obstacle_step_hit]

lemma obstacles_loop_hit [simp]: "rest_hit (obstacles_loop g) = rest_hit g"
  by (simp add: obstacles_loop_def Let_def split_def)

lemmas obstacles_loop_frame [simp] = rest_hit_cong [OF obstacles_loop_hit]

subsection \<open>Facts about one frame\<close>

lemma ParticleSystem_update_fst [simp]:
  "fst (ParticleSystem_update g) = (particles_loop (particles g) \<noteq> [])"
  by (simp add: ParticleSystem_update_def Let_def)

lemma ParticleSystem_update_result [simp]:
  "particles (snd (ParticleSystem_update g)) = particles_loop (particles g)"
  by (simp add: ParticleSystem_update_def Let_def)

lemma update_speed_distance [simp]:
  "distance (update_speed g) = distance g + scrollSpeed g * METER_SCALE"
  by (simp add: update_speed_def Let_def)

lemma update_head_distance [simp]:
  "distance (update_head g) = distance g + scrollSpeed g * METER_SCALE"
  by (simp add: update_head_def)

lemma update_head_keeps [simp]:
  "state (update_head g) = state g"
  "player (update_head g) = player g"
  "particles (update_head g) = particles g"
  "carouselActive (update_head g) = carouselActive g"
  by (simp_all add: update_head_def)

lemma update_begin_keeps [simp]:
  "state (update_begin g) = state g"
  "player (update_begin g) = player g"
  "distance (update_begin g) = distance g"
  "scrollSpeed (update_begin g) = scrollSpeed g"
  "carouselActive (update_begin g) = carouselActive g"
  "obstacles (update_begin g) = obstacles g"
  "trails (update_begin g) = trails g"
  "patches (update_begin g) = patches g"
  "particles (update_begin g) = particles_loop (particles g)"
  by (simp_all add: update_begin_def ParticleSystem_update_def Let_def)

lemma update_exploding:
  "state g = EXPLODING \<Longrightarrow>
   update now g = (if particles_loop (particles g) \<noteq> [] then update_begin g
                   else gameOver (update_begin g))"
  by (simp add: update_def update_begin_def Let_def split_def)

lemma update_won:
  "state g \<noteq> EXPLODING \<Longrightarrow> distance g + scrollSpeed g * METER_SCALE \<ge> WIN_DISTANCE \<Longrightarrow>
   update now g = victory (update_head (update_begin g))"
  by (simp add: update_def update_begin_def Let_def split_def)

lemma update_playing:
  "state g \<noteq> EXPLODING \<Longrightarrow> distance g + scrollSpeed g * METER_SCALE < WIN_DISTANCE \<Longrightarrow>
   update now g = update_tail now (update_head (update_begin g))"
  by (simp add: update_def update_begin_def Let_def split_def)

subsection \<open>Concrete games\<close>

lemma demo_fields [simp]:
  "state demo = PLAYING" "particles demo = []" "rnd demo = (\<lambda>_. 1 / 2)"
  "player demo = Player_new 512 150" "distance demo = 0" "scrollSpeed demo = 3.5"
  "poopingJJ demo = None" "hasSpawnedFirstPooper demo = False" "carouselActive demo = False"
  "pathTarget demo = None" "pathCenter demo = 512" "splitDistance demo = 0"
  "isSplitting demo = False" "startSeparating demo = False" "pathWidth demo = 450"
  "targetPathWidth demo = 450" "splitTimer demo = 0" "maxSplitDistance demo = 250"
  "lastPoopJJSpawn demo = 0" "keys demo = \<lparr>ArrowLeft = False, ArrowRight = False, KeyA = False, KeyD = False\<rparr>"
  by (simp_all add: demo_def startGame_def Game_new_def createPlayer_def Game_fields_def
        CONFIG_defs)

lemma rnd_ok_demo [simp]: "rnd_ok demo"
  by (simp add: rnd_ok_def)

subsection \<open>Particles\<close>

lemma spawnParticle_last:
  "\<exists>p. particles (spawnParticle x y c g) = particles g @ [p] \<and> life p = 1.5
       \<and> (\<exists>k. decay p = 0.01 + rnd g k * 0.01)"
  by (rule exI [of _ "last (particles (spawnParticle x y c g))"])
     (auto simp: spawnParticle_def Math_random_def Let_def)

lemma spawnParticle_rnd [simp]: "rnd (spawnParticle x y c g) = rnd g"
  using rest_particles_cong [OF spawnParticle_particles] by simp

lemma spawnLoop_new:
  "\<exists>ps. particles (spawnLoop n x y c g) = particles g @ ps \<and> length ps = n
        \<and> (\<forall>p\<in>set ps. life p = 1.5 \<and> (\<exists>k. decay p = 0.01 + rnd g k * 0.01))"
proof (induction n arbitrary: g)
  case 0
  show ?case by simp
next
  case (Suc n)
  obtain p where p: "particles (spawnParticle x y c g) = particles g @ [p]" "life p = 1.5"
    "\<exists>k. decay p = 0.01 + rnd g k * 0.01"
    using spawnParticle_last by blast
  obtain ps where ps:
    "particles (spawnLoop n x y c (spawnParticle x y c g)) = particles (spawnParticle x y c g) @ ps"
    "length ps = n" "\<forall>q\<in>set ps. life q = 1.5 \<and> (\<exists>k. decay q = 0.01 + rnd g k * 0.01)"
    using Suc.IH [of "spawnParticle x y c g"] by auto
  show ?case
    by (rule exI [of _ "p # ps"]) (use p ps in auto)
qed

lemma particles_loop_mem:
  "p' \<in> set (particles_loop ps) \<Longrightarrow> \<exists>p\<in>set ps. p' = particle_step p \<and> life p' > 0"
  by (induction ps) (auto simp: Let_def split: if_splits)

lemma particles_loop_filter:
  "particles_loop ps = filter (\<lambda>p. life p > 0) (map particle_step ps)"
  by (induction ps) (auto simp: Let_def)

lemma advance_until_false_unfold:
  "advance_until_false g =
     (if particles_loop (particles g) \<noteq> []
      then advance_until_false (g\<lparr>particles := particles_loop (particles g)\<rparr>)
      else Some (g\<lparr>particles := particles_loop (particles g)\<rparr>))"
  by (subst advance_until_false.simps) (simp add: ParticleSystem_update_def Let_def)

lemma drain:
  "\<forall>p\<in>set (particles g). life p \<le> real m * 0.01 \<and> decay p \<ge> 0.01
   \<Longrightarrow> \<exists>g'. advance_until_false g = Some g' \<and> particles g' = []"
proof (induction m arbitrary: g)
  case 0
  have "particles_loop (particles g) = []"
  proof (rule ccontr)
    assume "particles_loop (particles g) \<noteq> []"
    then obtain p' where "p' \<in> set (particles_loop (particles g))"
      by (meson last_in_set)
    then obtain p where "p \<in> set (particles g)" "p' = particle_step p" "life p' > 0"
      using particles_loop_mem by blast
    with 0 show False by (auto simp: particle_step_def)
  qed
  then show ?case
    by (subst advance_until_false_unfold) simp
next
  case (Suc m)
  let ?ps = "particles_loop (particles g)"
  show ?case
  proof (cases "?ps = []")
    case True
    then show ?thesis
      by (subst advance_until_false_unfold) simp
  next
    case False
    have inv: "\<forall>p\<in>set (particles (g\<lparr>particles := ?ps\<rparr>)). life p \<le> real m * 0.01 \<and> decay p \<ge> 0.01"
    proof
      fix p' assume "p' \<in> set (particles (g\<lparr>particles := ?ps\<rparr>))"
      then obtain p where p: "p \<in> set (particles g)" "p' = particle_step p"
        using particles_loop_mem by fastforce
      with Suc.prems have "life p \<le> real (Suc m) * 0.01" "decay p \<ge> 0.01" by auto
      with p show "life p' \<le> real m * 0.01 \<and> decay p' \<ge> 0.01"
        by (simp add: particle_step_def algebra_simps)
    qed
    from Suc.IH [OF inv] obtain g' where
      "advance_until_false (g\<lparr>particles := ?ps\<rparr>) = Some g'" "particles g' = []" by blast
    with False show ?thesis
      by (subst advance_until_false_unfold) simp
  qed
qed

text \<open>
  C8. A burst spawned into an empty particle system, advanced until the advance
  returns false: the loop returns, and the collection is empty then. The burst has
  \<open>particleCount\<close> (60) particles, each with life 1.5 and a decay in \<open>[0.01, 0.02)\<close>;
  the same holds of a burst of any size \<open>n\<close>. The per-frame advance,
  \<open>ParticleSystem.update\<close>, takes each particle's decay off its life (and leaves the
  decay as it is), keeps exactly the particles whose life is still positive, in
  their order, changes nothing else of the game, and returns whether any particle
  is left; the loop calls it again exactly when it has returned true. A frame that
  starts in EXPLODING does that advance to the game's particles.
\<close>

theorem C8_burst_round_trip:
  assumes "rnd_ok g" and "particles g = []"
  shows "(\<exists>g'. advance_until_false (spawnExplosion x y color g) = Some g' \<and> particles g' = [])
       \<and> (\<exists>g'. advance_until_false (spawnLoop n x y color g) = Some g' \<and> particles g' = [])
       \<and> length (particles (spawnExplosion x y color g)) = 60
       \<and> (\<forall>p\<in>set (particles (spawnExplosion x y color g)).
             life p = 1.5 \<and> 0.01 \<le> decay p \<and> decay p < 0.02)
       \<and> particles_loop ps = filter (\<lambda>p. life p > 0) (map particle_step ps)
       \<and> life (particle_step p) = life p - decay p
       \<and> decay (particle_step p) = decay p
       \<and> length (particles (spawnLoop n x y color g)) = n
       \<and> (\<forall>p\<in>set (particles (spawnLoop n x y color g)).
             life p = 1.5 \<and> 0.01 \<le> decay p \<and> decay p < 0.02)
       \<and> ParticleSystem_update h =
            (filter (\<lambda>p. life p > 0) (map particle_step (particles h)) \<noteq> [],
             h\<lparr>particles := filter (\<lambda>p. life p > 0) (map particle_step (particles h))\<rparr>)
       \<and> advance_until_false h =
            (if fst (ParticleSystem_update h)
             then advance_until_false (snd (ParticleSystem_update h))
             else Some (snd (ParticleSystem_update h)))
       \<and> (state h = EXPLODING \<longrightarrow>
            particles (gameLoop now h) =
              filter (\<lambda>p. life p > 0) (map particle_step (particles h)))"
proof -
  have burst: "\<forall>p\<in>set (particles (spawnLoop k x y color g)).
                 life p = 1.5 \<and> 0.01 \<le> decay p \<and> decay p < 0.02"
       and len: "length (particles (spawnLoop k x y color g)) = k" for k
  proof -
    obtain qs where qs: "particles (spawnLoop k x y color g) = particles g @ qs" "length qs = k"
      "\<forall>p\<in>set qs. life p = 1.5 \<and> (\<exists>j. decay p = 0.01 + rnd g j * 0.01)"
      using spawnLoop_new by blast
    show "\<forall>p\<in>set (particles (spawnLoop k x y color g)).
            life p = 1.5 \<and> 0.01 \<le> decay p \<and> decay p < 0.02"
    proof
      fix p assume "p \<in> set (particles (spawnLoop k x y color g))"
      with qs assms obtain j where j: "life p = 1.5" "decay p = 0.01 + rnd g j * 0.01"
        by auto
      from assms have "0 \<le> rnd g j" "rnd g j < 1"
        by (simp_all add: rnd_ok_def)
      with j show "life p = 1.5 \<and> 0.01 \<le> decay p \<and> decay p < 0.02"
        by simp
    qed
    show "length (particles (spawnLoop k x y color g)) = k"
      using qs assms by simp
  qed
  have drains: "\<exists>g'. advance_until_false (spawnLoop k x y color g) = Some g' \<and> particles g' = []" for k
  proof (rule drain [where m = 150])
    show "\<forall>p\<in>set (particles (spawnLoop k x y color g)). life p \<le> real (150::nat) * 0.01 \<and> 0.01 \<le> decay p"
      using burst [of k] by auto
  qed
  have adv: "ParticleSystem_update h =
            (filter (\<lambda>p. life p > 0) (map particle_step (particles h)) \<noteq> [],
             h\<lparr>particles := filter (\<lambda>p. life p > 0) (map particle_step (particles h))\<rparr>)"
    by (simp add: ParticleSystem_update_def Let_def particles_loop_filter)
  have unf: "advance_until_false h =
            (if fst (ParticleSystem_update h)
             then advance_until_false (snd (ParticleSystem_update h))
             else Some (snd (ParticleSystem_update h)))"
    by (subst advance_until_false.simps) (simp add: split_def Let_def)
  have frame: "state h = EXPLODING \<longrightarrow>
            particles (gameLoop now h) =
              filter (\<lambda>p. life p > 0) (map particle_step (particles h))"
    by (simp add: gameLoop_def update_exploding gameOver_def particles_loop_filter)
  have first: "(\<exists>g'. advance_until_false (spawnExplosion x y color g) = Some g' \<and> particles g' = [])
       \<and> (\<exists>g'. advance_until_false (spawnLoop n x y color g) = Some g' \<and> particles g' = [])
       \<and> length (particles (spawnExplosion x y color g)) = 60
       \<and> (\<forall>p\<in>set (particles (spawnExplosion x y color g)).
             life p = 1.5 \<and> 0.01 \<le> decay p \<and> decay p < 0.02)
       \<and> particles_loop ps = filter (\<lambda>p. life p > 0) (map particle_step ps)
       \<and> life (particle_step p) = life p - decay p
       \<and> decay (particle_step p) = decay p"
    using drains [of particleCount] drains [of n] burst [of particleCount] len [of particleCount]
    by (simp add: spawnExplosion_def particleCount_def particles_loop_filter particle_step_def)
  from first len [of n] burst [of n] adv unf frame show ?thesis
    by blast
qed

theorem C8_burst_round_trip_witness:
  "rnd_ok demo \<and> particles demo = []
   \<and> (\<exists>g'. advance_until_false (spawnExplosion 512 150 ''#ff3d00'' demo) = Some g' \<and> particles g' = [])
   \<and> length (particles (spawnExplosion 512 150 ''#ff3d00'' demo)) = 60
   \<and> length (particles (spawnLoop 7 512 150 ''#ff3d00'' demo)) = 7
   \<and> fst (ParticleSystem_update demo_particles)
   \<and> map life (particles (snd (ParticleSystem_update demo_particles))) = [0.01]
   \<and> \<not> fst (ParticleSystem_update (snd (ParticleSystem_update demo_particles)))
   \<and> state demo_exploding = EXPLODING
   \<and> particles (gameLoop 0 demo_exploding) = []"
  using C8_burst_round_trip [of demo 512 150 "''#ff3d00''" 7 "[]" "hd (particles demo_particles)" demo_particles 0]
    C8_burst_round_trip [of demo 512 150 "''#ff3d00''" 7 "[]" "hd (particles demo_particles)"
       "snd (ParticleSystem_update demo_particles)" 0]
    C8_burst_round_trip [of demo 512 150 "''#ff3d00''" 7 "[]" "hd (particles demo_particles)" demo_exploding 0]
  by (simp add: demo_particles_def demo_exploding_def particle_step_def)
subsection \<open>Terminal states\<close>

lemma gameOver_state [simp]: "state (gameOver g) = GAMEOVER"
  by (simp add: gameOver_def)

lemma victory_state [simp]: "state (victory g) = VICTORY"
  by (simp add: victory_def)

subsection \<open>The carousel\<close>

lemma Obstacle_updateAnimation_keeps [simp]:
  "triggered (Obstacle_updateAnimation ob) = triggered ob"
  "phase (Obstacle_updateAnimation ob) = phase ob"
  "o_type (Obstacle_updateAnimation ob) = o_type ob"
  "o_x (Obstacle_updateAnimation ob) = o_x ob"
  "o_y (Obstacle_updateAnimation ob) = o_y ob"
  "o_width (Obstacle_updateAnimation ob) = o_width ob"
  "o_height (Obstacle_updateAnimation ob) = o_height ob"
  by (simp_all add: Obstacle_updateAnimation_def Let_def)

lemma triggerCarouselEffect_obstacle [simp]:
  "triggered (snd (triggerCarouselEffect ob g))"
  "phase (snd (triggerCarouselEffect ob g)) = phase ob"
  "o_type (snd (triggerCarouselEffect ob g)) = o_type ob"
  "o_y (snd (triggerCarouselEffect ob g)) = o_y ob"
  by (simp_all add: triggerCarouselEffect_def Let_def)

lemma triggerCarouselEffect_triggered:
  "triggered ob \<Longrightarrow> triggerCarouselEffect ob g = (g, ob)"
  by (simp add: triggerCarouselEffect_def)

subsection \<open>The carousel's hitbox\<close>

text \<open>
  C10, as stated: a carousel whose vertical span overlaps the grounded player's
  hitbox collides with the player wherever the player is. It does not: nothing
  bounds the player's x, and a player at x = 2000 is beside a carousel at x = 512.
\<close>

theorem C10_counterexample:
  "p_y ((Player_new 512 150)\<lparr>p_x := 2000\<rparr>) - 10 < o_y (Obstacle_new 512 200 Carousel)
   \<and> p_y ((Player_new 512 150)\<lparr>p_x := 2000\<rparr>) + 10
        > o_y (Obstacle_new 512 200 Carousel) - o_height (Obstacle_new 512 200 Carousel)
   \<and> \<not> checkCollision ((Player_new 512 150)\<lparr>p_x := 2000\<rparr>) (Obstacle_new 512 200 Carousel)"
  by (simp add: Player_new_def Obstacle_new_def Obstacle_width_def Obstacle_height_def
        checkCollision_def GAME_WIDTH_def)

text \<open>
  C10, amended. A carousel is 1024 wide and 300 high, anchored at its bottom centre.
  It collides with the player exactly when their vertical spans overlap and the
  player's x is less than 527 away from the carousel's x (half the width plus half
  the player's hitbox).
\<close>

theorem C10_carousel_hitbox:
  "o_width (Obstacle_new x y Carousel) = 1024
   \<and> o_height (Obstacle_new x y Carousel) = 300
   \<and> (checkCollision p (Obstacle_new x y Carousel) \<longleftrightarrow>
        (p_y p - 10 < y \<and> p_y p + 10 > y - 300) \<and> \<bar>p_x p - x\<bar> < 527)"
  by (auto simp: Obstacle_new_def Obstacle_width_def Obstacle_height_def
        checkCollision_def GAME_WIDTH_def Let_def)
subsection \<open>The obstacle loop\<close>

lemma triggerExplosion_state [simp]: "state (triggerExplosion ob g) = EXPLODING"
  by (simp add: triggerExplosion_def Let_def)

lemma triggerExplosion_player [simp]:
  "player (triggerExplosion ob g) = (player g)\<lparr>opacity := 0\<rparr>"
  by (simp add: triggerExplosion_def Let_def)

lemma triggerCarouselEffect_keeps [simp]:
  "state (fst (triggerCarouselEffect ob g)) = state g"
  "player (fst (triggerCarouselEffect ob g)) = player g"
  "particles (fst (triggerCarouselEffect ob g)) = particles g"
  by (simp_all add: triggerCarouselEffect_def Let_def)

lemma obstacle_step_jumping:
  "isJumping (player (fst gk)) \<Longrightarrow> fst (obstacle_step ob gk) = fst gk"
  by (simp add: obstacle_step_def Let_def split_def)

lemma foldr_obstacle_step_jumping:
  "isJumping (player (fst gk)) \<Longrightarrow> fst (foldr obstacle_step obs gk) = fst gk"
  by (induction obs) (simp_all add: obstacle_step_jumping)

lemma obstacle_step_grounded:
  "\<not> isJumping (player g) \<Longrightarrow>
   fst (obstacle_step ob (g, kept)) =
     (if checkCollision (player g) (ob\<lparr>o_y := o_y ob - scrollSpeed g\<rparr>)
      then (if o_type ob = Carousel
            then fst (triggerCarouselEffect (ob\<lparr>o_y := o_y ob - scrollSpeed g\<rparr>) g)
            else triggerExplosion (ob\<lparr>o_y := o_y ob - scrollSpeed g\<rparr>) g)
      else g)"
  by (simp add: obstacle_step_def Let_def split_def)

lemma obstacle_step_player:
  "p_x (player (fst (obstacle_step ob gk))) = p_x (player (fst gk))"
  "p_y (player (fst (obstacle_step ob gk))) = p_y (player (fst gk))"
  "isJumping (player (fst (obstacle_step ob gk))) = isJumping (player (fst gk))"
  by (simp_all add: obstacle_step_def Let_def split_def)

lemma foldr_obstacle_step_player:
  "p_x (player (fst (foldr obstacle_step obs gk))) = p_x (player (fst gk))"
  "p_y (player (fst (foldr obstacle_step obs gk))) = p_y (player (fst gk))"
  "isJumping (player (fst (foldr obstacle_step obs gk))) = isJumping (player (fst gk))"
  by (induction obs) (simp_all add: obstacle_step_player)

lemma checkCollision_cong:
  "p_x p = p_x q \<Longrightarrow> p_y p = p_y q \<Longrightarrow> checkCollision p ob = checkCollision q ob"
  by (simp add: checkCollision_def)

lemma obstacle_step_exploded:
  "state (fst gk) = EXPLODING \<Longrightarrow> state (fst (obstacle_step ob gk)) = EXPLODING"
  by (simp add: obstacle_step_def Let_def split_def)

lemma obstacle_step_hidden:
  "opacity (player (fst gk)) = 0 \<Longrightarrow> opacity (player (fst (obstacle_step ob gk))) = 0"
  by (simp add: obstacle_step_def Let_def split_def)

lemma obstacle_step_collides:
  assumes "\<not> isJumping (player (fst gk))" and "o_type ob \<noteq> Carousel"
    and "checkCollision (player (fst gk)) (ob\<lparr>o_y := o_y ob - scrollSpeed (fst gk)\<rparr>)"
  shows "state (fst (obstacle_step ob gk)) = EXPLODING"
    and "opacity (player (fst (obstacle_step ob gk))) = 0"
  using assms by (simp_all add: obstacle_step_def Let_def split_def)

lemma foldr_obstacle_step_explodes:
  assumes "\<not> isJumping (player g)" and "ob \<in> set obs" and "o_type ob \<noteq> Carousel"
    and "checkCollision (player g) (ob\<lparr>o_y := o_y ob - scrollSpeed g\<rparr>)"
  shows "state (fst (foldr obstacle_step obs (g, kept))) = EXPLODING
       \<and> opacity (player (fst (foldr obstacle_step obs (g, kept)))) = 0"
  using assms(2)
proof (induction obs)
  case Nil
  then show ?case by simp
next
  case (Cons a obs)
  let ?gk = "foldr obstacle_step obs (g, kept)"
  show ?case
  proof (cases "ob \<in> set obs")
    case True
    with Cons.IH show ?thesis
      by (simp add: obstacle_step_exploded obstacle_step_hidden)
  next
    case False
    with Cons.prems have a: "a = ob" by simp
    have j: "\<not> isJumping (player (fst ?gk))"
      using assms(1) by (simp add: foldr_obstacle_step_player)
    have s: "scrollSpeed (fst ?gk) = scrollSpeed g"
      by simp
    have c: "checkCollision (player (fst ?gk)) (ob\<lparr>o_y := o_y ob - scrollSpeed (fst ?gk)\<rparr>)"
      using assms(4) s
        checkCollision_cong [of "player (fst ?gk)" "player g"]
      by (simp add: foldr_obstacle_step_player)
    show ?thesis
      using obstacle_step_collides [OF j assms(3) c] a by simp
  qed
qed

lemma obstacles_loop_explodes:
  assumes "\<not> isJumping (player g)" and "ob \<in> set (obstacles g)" and "o_type ob \<noteq> Carousel"
    and "checkCollision (player g) (ob\<lparr>o_y := o_y ob - scrollSpeed g\<rparr>)"
  shows "state (obstacles_loop g) = EXPLODING" and "opacity (player (obstacles_loop g)) = 0"
  using foldr_obstacle_step_explodes [OF assms, of "[]"]
  by (simp_all add: obstacles_loop_def Let_def split_def)

lemma obstacles_loop_jumping:
  "isJumping (player g) \<Longrightarrow> obstacles_loop g = g\<lparr>obstacles := obstacles (obstacles_loop g)\<rparr>"
  by (simp add: obstacles_loop_def Let_def split_def foldr_obstacle_step_jumping)

subsection \<open>The jump\<close>

lemma Player_update_jump:
  "isJumping (Player_update now p) = (isJumping p \<and> jump_progress now p < 1)"
  "jumpStartTime (Player_update now p) = jumpStartTime p"
  "baseScale (Player_update now p) = baseScale p"
  "p_x (Player_update now p) = p_x p"
  "p_y (Player_update now p) = p_y p"
  "opacity (Player_update now p) = opacity p"
  by (auto simp: Player_update_def jump_progress_def Let_def)

lemma Player_update_landed:
  "isJumping p \<Longrightarrow> jump_progress now p \<ge> 1 \<Longrightarrow> p_scale (Player_update now p) = baseScale p"
  by (simp add: Player_update_def jump_progress_def Let_def)

lemma demo_rock_hits [simp]:
  "checkCollision (Player_new 512 150) (demo_rock\<lparr>o_y := o_y demo_rock - 3.5\<rparr>)"
  "o_type demo_rock = Rock"
  by (simp_all add: demo_rock_def checkCollision_def Player_new_def Obstacle_new_def
        Obstacle_width_def Obstacle_height_def)
subsection \<open>Obstacles that are only pushed\<close>

lemma obstacles_kept_iff: "obstacles_kept g g' \<longleftrightarrow> (\<exists>xs. obstacles g' = obstacles g @ xs)"
  unfolding obstacles_kept_def
  by (metis append_eq_conv_conj append_take_drop_id)

lemma obstacles_kept_same: "obstacles g' = obstacles g \<Longrightarrow> obstacles_kept g g'"
  by (simp add: obstacles_kept_def)

lemma obstacles_kept_trans:
  "obstacles_kept a b \<Longrightarrow> obstacles_kept b c \<Longrightarrow> obstacles_kept a c"
  by (auto simp: obstacles_kept_iff)

lemma obstacles_kept_mem: "obstacles_kept g g' \<Longrightarrow> ob \<in> set (obstacles g) \<Longrightarrow> ob \<in> set (obstacles g')"
  by (auto simp: obstacles_kept_iff)

lemma push_obstacle_obstacles [simp]: "obstacles (push_obstacle ob g) = obstacles g @ [ob]"
  by (simp add: push_obstacle_def)

lemma update_camera_obstacles [simp]: "obstacles (update_camera g) = obstacles g"
  by (simp add: update_camera_def Math_random_def Let_def split_def)

lemma spawnPoopingJJ_obstacles [simp]: "obstacles (spawnPoopingJJ ft g) = obstacles g"
  by (simp add: spawnPoopingJJ_def Math_random_def Let_def split_def split: option.splits)

lemma pooper_spawn_obstacles [simp]: "obstacles (pooper_spawn g) = obstacles g"
  by (simp add: pooper_spawn_def Let_def)

lemma jj_set_obstacles [simp]: "obstacles (jj_set f g) = obstacles g"
  by (simp add: jj_set_def)

lemma sled_obstacles [simp]:
  "obstacles (sled_enter g) = obstacles g"
  "obstacles (sled_move g) = obstacles g"
  "obstacles (sled_age g) = obstacles g"
  by (simp_all add: sled_enter_def sled_move_def sled_age_def Let_def split: option.splits)

lemma squat_obstacles [simp]:
  "obstacles (squat_enter g) = obstacles g"
  "obstacles (squat_move g) = obstacles g"
  "obstacles (squat_turn g) = obstacles g"
  "obstacles (squat_scroll g) = obstacles g"
  by (simp_all add: squat_enter_def squat_move_def squat_turn_def squat_scroll_def Let_def
        split: option.splits)

lemma poop_tick_kept: "obstacles_kept g (poop_tick n g)"
  by (simp add: obstacles_kept_def poop_tick_def spawnPoop_def Let_def split: option.splits)

lemma updatePoopingJJ_kept: "obstacles_kept g (updatePoopingJJ g)"
proof -
  have a: "obstacles_kept g (sled_age (poop_tick 60 (sled_move g)))"
    using poop_tick_kept [of "sled_move g" 60] by (simp add: obstacles_kept_def)
  have b: "obstacles_kept g (squat_scroll (squat_turn (poop_tick 20 (squat_move g))))"
    using poop_tick_kept [of "squat_move g" 20] by (simp add: obstacles_kept_def)
  show ?thesis
    using a b
    by (simp add: updatePoopingJJ_def updateSleddingJJ_def updateSquattingJJ_def
          obstacles_kept_same split: option.splits)
qed

lemma update_pooper_kept: "obstacles_kept g (update_pooper g)"
  using updatePoopingJJ_kept [of "pooper_spawn g"]
  by (simp add: update_pooper_def Let_def obstacles_kept_def)

lemma update_carousels_kept: "obstacles_kept g (update_carousels g)"
  by (simp add: update_carousels_def spawnCarousel_def Let_def obstacles_kept_def)

lemma update_head_kept: "obstacles_kept g (update_head g)"
proof -
  have "obstacles_kept g (update_camera (update_speed g))"
    by (simp add: obstacles_kept_same)
  then show ?thesis
    unfolding update_head_def
    using update_pooper_kept update_carousels_kept obstacles_kept_trans by blast
qed

lemma update_head_path [simp]:
  "pathCenter (update_head g) = pathCenter g"
  "pathWidth (update_head g) = pathWidth g"
  "splitDistance (update_head g) = splitDistance g"
  "isSplitting (update_head g) = isSplitting g"
  by (simp_all add: update_head_def)

lemma update_begin_path [simp]:
  "pathCenter (update_begin g) = pathCenter g"
  "pathWidth (update_begin g) = pathWidth g"
  "splitDistance (update_begin g) = splitDistance g"
  "isSplitting (update_begin g) = isSplitting g"
  by (simp_all add: update_begin_def)

text \<open>
  C1. A frame that starts in PLAYING and whose distance, once the frame's share is
  added, has reached the win distance, ends in VICTORY, and is over with
  \<open>victory()\<close>: of \<open>update\<close> only the statements before the win test have run. So
  nothing after the test has happened: the player has not moved, jumped, landed or
  been hidden, no explosion has spawned particles (the particle collection is what
  the frame's particle update left), the reversed-controls flag and the path are as
  they were, and every obstacle is where it was, whatever it overlaps.
\<close>

theorem C1_win_precedes_collision:
  assumes "state g = PLAYING" and "distance g + scrollSpeed g * METER_SCALE \<ge> WIN_DISTANCE"
  shows "update now g = victory (update_head (update_begin g))
       \<and> state (update now g) = VICTORY
       \<and> player (update now g) = player g
       \<and> particles (update now g) = particles_loop (particles g)
       \<and> carouselActive (update now g) = carouselActive g
       \<and> pathCenter (update now g) = pathCenter g
       \<and> pathWidth (update now g) = pathWidth g
       \<and> obstacles_kept g (update now g)"
proof -
  have u: "update now g = victory (update_head (update_begin g))"
    using assms by (simp add: update_won)
  have k: "obstacles_kept g (update_head (update_begin g))"
    using update_head_kept [of "update_begin g"] by (simp add: obstacles_kept_def)
  show ?thesis
    using k by (simp add: u victory_def obstacles_kept_def)
qed

theorem C1_win_precedes_collision_witness:
  "state demo_winning = PLAYING
   \<and> distance demo_winning + scrollSpeed demo_winning * METER_SCALE \<ge> WIN_DISTANCE
   \<and> \<not> isJumping (player demo_winning)
   \<and> checkCollision (player demo_winning) (demo_rock\<lparr>o_y := o_y demo_rock - 8\<rparr>)
   \<and> state (update 0 demo_winning) = VICTORY
   \<and> opacity (player (update 0 demo_winning)) = 1
   \<and> particles (update 0 demo_winning) = []
   \<and> hd (obstacles (update 0 demo_winning)) = demo_rock"
proof -
  have h1: "state demo_winning = PLAYING"
    by (simp add: demo_winning_def)
  have h2: "distance demo_winning + scrollSpeed demo_winning * METER_SCALE \<ge> WIN_DISTANCE"
    by (simp add: demo_winning_def WIN_DISTANCE_def METER_SCALE_def)
  note t = C1_win_precedes_collision [OF h1 h2, of 0]
  have p: "player demo_winning = Player_new 512 150" "particles demo_winning = []"
    "obstacles demo_winning = [demo_rock]"
    by (simp_all add: demo_winning_def)
  have c: "checkCollision (player demo_winning) (demo_rock\<lparr>o_y := o_y demo_rock - 8\<rparr>)"
    by (simp add: p Player_new_def checkCollision_def demo_rock_def Obstacle_new_def
          Obstacle_width_def Obstacle_height_def)
  from t have "obstacles_kept demo_winning (update 0 demo_winning)"
    by blast
  then have "take 1 (obstacles (update 0 demo_winning)) = [demo_rock]"
    by (simp add: obstacles_kept_def p)
  then have o: "hd (obstacles (update 0 demo_winning)) = demo_rock"
    by (metis hd_take list.sel(1) zero_less_one)
  from t have r: "state (update 0 demo_winning) = VICTORY"
    "player (update 0 demo_winning) = player demo_winning"
    "particles (update 0 demo_winning) = particles_loop (particles demo_winning)"
    by blast+
  show ?thesis
    using h1 h2 c o by (simp add: r p Player_new_def)
qed

subsection \<open>After the explosion\<close>

lemma keydown_keeps [simp]:
  "distance (keydown code now g) = distance g" "state (keydown code now g) = state g"
  by (simp_all add: keydown_def Let_def)

lemma keyup_keeps [simp]:
  "distance (keyup code g) = distance g" "state (keyup code g) = state g"
  by (simp_all add: keyup_def Let_def)

lemma gameLoop_dead:
  assumes "state g = EXPLODING \<or> state g = GAMEOVER"
  shows "distance (gameLoop now g) = distance g"
    and "state (gameLoop now g) = EXPLODING \<or> state (gameLoop now g) = GAMEOVER"
  using assms by (auto simp: gameLoop_def update_exploding gameOver_def)

lemma run_dead:
  assumes "\<forall>e\<in>set es. e \<noteq> RestartBtn \<and> e \<noteq> StartBtn"
    and "state g = EXPLODING \<or> state g = GAMEOVER"
  shows "distance (run es g) = distance g
       \<and> (state (run es g) = EXPLODING \<or> state (run es g) = GAMEOVER)"
  using assms
proof (induction es arbitrary: g)
  case Nil
  then show ?case by simp
next
  case (Cons e es)
  have d: "distance (handle e g) = distance g"
    and s: "state (handle e g) = EXPLODING \<or> state (handle e g) = GAMEOVER"
    using Cons.prems gameLoop_dead [of g] by (cases e; simp)+
  from Cons.IH [of "handle e g"] Cons.prems s d show ?case by simp
qed

text \<open>
  C3. \<open>g\<close> is the game as a frame reaches its obstacle loop. If the state is PLAYING,
  the player is grounded and some obstacle that is not a carousel overlaps the
  player once it has scrolled, then the loop leaves the state EXPLODING and the
  player hidden (opacity 0), in that same frame. From then on no frame and no key
  adds to the distance, and the state stays EXPLODING or GAMEOVER, until the restart
  (or start) button is pressed. The loop's result is the frame's result: a frame that
  starts in PLAYING short of the win distance ends with the obstacle loop.
\<close>

theorem C3_collision_explodes:
  assumes "state g = PLAYING" and "\<not> isJumping (player g)"
    and "ob \<in> set (obstacles g)" and "o_type ob \<noteq> Carousel"
    and "checkCollision (player g) (ob\<lparr>o_y := o_y ob - scrollSpeed g\<rparr>)"
    and "\<forall>e\<in>set es. e \<noteq> RestartBtn \<and> e \<noteq> StartBtn"
  shows "state (obstacles_loop g) = EXPLODING
       \<and> opacity (player (obstacles_loop g)) = 0
       \<and> distance (obstacles_loop g) = distance g
       \<and> distance (run es (obstacles_loop g)) = distance g
       \<and> (state (run es (obstacles_loop g)) = EXPLODING
            \<or> state (run es (obstacles_loop g)) = GAMEOVER)
       \<and> (\<forall>g0 now. state g0 = PLAYING
              \<and> distance g0 + scrollSpeed g0 * METER_SCALE < WIN_DISTANCE
              \<and> g = spawnObstacle (update_player now (update_input (update_head (update_begin g0))))
            \<longrightarrow> update now g0 = obstacles_loop g)"
proof -
  have e: "state (obstacles_loop g) = EXPLODING" "opacity (player (obstacles_loop g)) = 0"
    using obstacles_loop_explodes [OF assms(2-5)] by simp_all
  have r: "distance (run es (obstacles_loop g)) = distance (obstacles_loop g)
       \<and> (state (run es (obstacles_loop g)) = EXPLODING
            \<or> state (run es (obstacles_loop g)) = GAMEOVER)"
    using run_dead [OF assms(6), of "obstacles_loop g"] e by simp
  show ?thesis
    using e r by (simp add: update_playing update_tail_def)
qed

theorem C3_collision_explodes_witness:
  "state demo_grounded = PLAYING \<and> \<not> isJumping (player demo_grounded)
   \<and> demo_rock \<in> set (obstacles demo_grounded) \<and> o_type demo_rock \<noteq> Carousel
   \<and> checkCollision (player demo_grounded)
        (demo_rock\<lparr>o_y := o_y demo_rock - scrollSpeed demo_grounded\<rparr>)
   \<and> state (obstacles_loop demo_grounded) = EXPLODING
   \<and> opacity (player (obstacles_loop demo_grounded)) = 0
   \<and> distance (run [Frame 16, KeyDown ''Space'' 20, Frame 32] (obstacles_loop demo_grounded)) = 0"
proof -
  have h: "state demo_grounded = PLAYING" "\<not> isJumping (player demo_grounded)"
    "demo_rock \<in> set (obstacles demo_grounded)" "o_type demo_rock \<noteq> Carousel"
    "checkCollision (player demo_grounded)
        (demo_rock\<lparr>o_y := o_y demo_rock - scrollSpeed demo_grounded\<rparr>)"
    "\<forall>e\<in>set [Frame 16, KeyDown ''Space'' 20, Frame 32]. e \<noteq> RestartBtn \<and> e \<noteq> StartBtn"
    by (simp_all add: demo_grounded_def Player_new_def checkCollision_def demo_rock_def
          Obstacle_new_def Obstacle_width_def Obstacle_height_def)
  have d: "distance demo_grounded = 0"
    by (simp add: demo_grounded_def)
  from C3_collision_explodes [OF h] h d show ?thesis
    by simp
qed
subsection \<open>The path model, statement by statement\<close>

lemma path_retarget_fork [simp]:
  "isSplitting (path_retarget g) = isSplitting g"
  "startSeparating (path_retarget g) = startSeparating g"
  "splitDistance (path_retarget g) = splitDistance g"
  "splitTimer (path_retarget g) = splitTimer g"
  "pathCenter (path_retarget g) = pathCenter g"
  "pathWidth (path_retarget g) = pathWidth g"
  by (simp_all add: path_retarget_def Math_random_def Let_def split_def split: option.splits)

lemma path_retarget_undefined [simp]: "pathTarget g = None \<Longrightarrow> path_retarget g = g"
  by (simp add: path_retarget_def)

lemma path_move_fork [simp]:
  "isSplitting (path_move g) = isSplitting g"
  "startSeparating (path_move g) = startSeparating g"
  "splitDistance (path_move g) = splitDistance g"
  "splitTimer (path_move g) = splitTimer g"
  "pathTarget (path_move g) = pathTarget g"
  "pathWidth (path_move g) = pathWidth g"
  "targetPathWidth (path_move g) = targetPathWidth g"
  by (simp_all add: path_move_def Let_def)

lemma path_move_undefined:
  "pathTarget g = None \<Longrightarrow> pathCenter (path_move g) = pathCenter g - (0.5 + scrollSpeed g * 0.1)"
  by (simp add: path_move_def Let_def)

lemma path_widen_fork [simp]:
  "isSplitting (path_widen g) = isSplitting g"
  "startSeparating (path_widen g) = startSeparating g"
  "splitDistance (path_widen g) = splitDistance g"
  "splitTimer (path_widen g) = splitTimer g"
  "pathTarget (path_widen g) = pathTarget g"
  "pathCenter (path_widen g) = pathCenter g"
  by (simp_all add: path_widen_def)

lemma path_narrow_fork [simp]:
  "isSplitting (path_narrow g) = isSplitting g"
  "startSeparating (path_narrow g) = startSeparating g"
  "splitDistance (path_narrow g) = splitDistance g"
  "splitTimer (path_narrow g) = splitTimer g"
  "pathTarget (path_narrow g) = pathTarget g"
  "pathCenter (path_narrow g) = pathCenter g"
  by (simp_all add: path_narrow_def)

lemma split_tick_keeps [simp]:
  "isSplitting (split_tick g) = isSplitting g"
  "startSeparating (split_tick g) = startSeparating g"
  "splitDistance (split_tick g) = splitDistance g"
  "pathTarget (split_tick g) = pathTarget g"
  "pathCenter (split_tick g) = pathCenter g"
  by (simp_all add: split_tick_def)

lemma split_start_keeps [simp]:
  "splitDistance (split_start g) = splitDistance g"
  "pathTarget (split_start g) = pathTarget g"
  "pathCenter (split_start g) = pathCenter g"
  by (simp_all add: split_start_def Math_random_def Let_def split_def)

lemma split_start_begins:
  "isSplitting (split_start g) \<Longrightarrow> \<not> isSplitting g \<Longrightarrow> splitDistance g = 0"
  by (simp add: split_start_def Math_random_def Let_def split_def split: if_splits)

lemma split_start_not:
  "\<not> isSplitting g \<Longrightarrow> splitDistance g > 0 \<Longrightarrow> split_start g = g"
  by (simp add: split_start_def)

lemma split_prepare_keeps [simp]:
  "isSplitting (split_prepare g) = isSplitting g"
  "splitDistance (split_prepare g) = splitDistance g"
  "pathTarget (split_prepare g) = pathTarget g"
  "pathCenter (split_prepare g) = pathCenter g"
  by (simp_all add: split_prepare_def Let_def)

lemma split_prepare_not: "\<not> isSplitting g \<Longrightarrow> split_prepare g = g"
  by (simp add: split_prepare_def)

lemma split_separate_keeps [simp]:
  "pathTarget (split_separate g) = pathTarget g"
  "pathCenter (split_separate g) = pathCenter g"
  by (simp_all add: split_separate_def)

lemma split_separate_not: "\<not> isSplitting g \<Longrightarrow> split_separate g = g"
  by (simp add: split_separate_def)

lemma split_separate_fork:
  "isSplitting (split_separate g) \<Longrightarrow> isSplitting g"
  "0 \<le> splitDistance g \<Longrightarrow> 0 \<le> splitDistance (split_separate g)"
  by (simp_all add: split_separate_def split: if_splits)

lemma split_contract_keeps [simp]:
  "isSplitting (split_contract g) = isSplitting g"
  "pathTarget (split_contract g) = pathTarget g"
  "pathCenter (split_contract g) = pathCenter g"
  by (simp_all add: split_contract_def Let_def)

lemma split_contract_fork:
  "0 \<le> splitDistance g \<Longrightarrow> 0 \<le> splitDistance (split_contract g)"
  by (simp add: split_contract_def Let_def)

lemma split_contract_contracting:
  "\<not> isSplitting g \<Longrightarrow> splitDistance g > 0 \<Longrightarrow>
   splitDistance (split_contract g) = max 0 (splitDistance g - 1.5)"
  by (simp add: split_contract_def Let_def)

lemma updatePath_nonneg: "0 \<le> splitDistance g \<Longrightarrow> 0 \<le> splitDistance (updatePath g)"
  by (simp add: updatePath_def split_contract_fork split_separate_fork)

lemma updatePath_begins:
  assumes "isSplitting (updatePath g)" and "\<not> isSplitting g"
  shows "splitDistance g = 0"
proof -
  let ?a = "split_tick (path_narrow (path_widen (path_move (path_retarget g))))"
  from assms(1) have "isSplitting (split_separate (split_prepare (split_start ?a)))"
    by (simp add: updatePath_def)
  then have "isSplitting (split_start ?a)"
    using split_separate_fork(1) by fastforce
  moreover have "\<not> isSplitting ?a" using assms(2) by simp
  ultimately have "splitDistance ?a = 0" by (rule split_start_begins)
  then show ?thesis by simp
qed

lemma updatePath_contracting:
  assumes "\<not> isSplitting g" and "splitDistance g > 0"
  shows "splitDistance (updatePath g) = max 0 (splitDistance g - 1.5)"
    and "\<not> isSplitting (updatePath g)"
proof -
  let ?a = "split_tick (path_narrow (path_widen (path_move (path_retarget g))))"
  have a: "\<not> isSplitting ?a" "splitDistance ?a > 0" "splitDistance ?a = splitDistance g"
    using assms by simp_all
  have "split_separate (split_prepare (split_start ?a)) = ?a"
    using a by (simp add: split_start_not split_prepare_not split_separate_not)
  then have u: "updatePath g = split_contract ?a"
    by (simp add: updatePath_def)
  show "splitDistance (updatePath g) = max 0 (splitDistance g - 1.5)"
    unfolding u using split_contract_contracting [OF a(1) a(2)] a(3) by simp
  show "\<not> isSplitting (updatePath g)"
    unfolding u using a by simp
qed

lemma updatePath_undefined:
  assumes "pathTarget g = None"
  shows "pathTarget (updatePath g) = None"
    and "pathCenter (updatePath g) = pathCenter g - (0.5 + scrollSpeed g * 0.1)"
  using assms by (simp_all add: updatePath_def path_move_undefined)

lemma spawnObstacle_path_fields [simp]:
  "isSplitting (spawnObstacle g) = isSplitting (updatePath g)"
  "splitDistance (spawnObstacle g) = splitDistance (updatePath g)"
  "pathTarget (spawnObstacle g) = pathTarget (updatePath g)"
  "pathCenter (spawnObstacle g) = pathCenter (updatePath g)"
  by (simp_all add: spawnObstacle_def Let_def)
subsection \<open>The antagonist's slot\<close>

lemma same_occupant_refl [simp]: "same_occupant g g"
  by (simp add: same_occupant_def split: option.splits)





lemma updatePoopingJJ_flags [simp]:
  "hasSpawnedFirstPooper (updatePoopingJJ g) = hasSpawnedFirstPooper g"
  "lastPoopJJSpawn (updatePoopingJJ g) = lastPoopJJSpawn g"
  by (simp_all add: updatePoopingJJ_def updateSleddingJJ_def updateSquattingJJ_def
        sled_enter_def sled_move_def sled_age_def squat_enter_def squat_move_def
        squat_turn_def squat_scroll_def poop_tick_def jj_set_def Let_def split: option.splits)


lemma spawnPoopingJJ_flags [simp]:
  "hasSpawnedFirstPooper (spawnPoopingJJ ft g) = hasSpawnedFirstPooper g"
  "lastPoopJJSpawn (spawnPoopingJJ ft g) = lastPoopJJSpawn g"
  "distance (spawnPoopingJJ ft g) = distance g"
  by (simp_all add: spawnPoopingJJ_def Math_random_def Let_def split_def split: option.splits)




lemma pooper_spawn_flags:
  "hasSpawnedFirstPooper (pooper_spawn g) \<Longrightarrow> hasSpawnedFirstPooper g \<or> distance g > 250"
  "hasSpawnedFirstPooper g \<Longrightarrow> hasSpawnedFirstPooper (pooper_spawn g)"
  "\<not> hasSpawnedFirstPooper (pooper_spawn g) \<Longrightarrow> poopingJJ (pooper_spawn g) = poopingJJ g"
  by (auto simp: pooper_spawn_def Let_def split: if_splits)

lemma update_pooper_flags:
  "hasSpawnedFirstPooper (update_pooper g) \<Longrightarrow> hasSpawnedFirstPooper g \<or> distance g > 250"
  "hasSpawnedFirstPooper g \<Longrightarrow> hasSpawnedFirstPooper (update_pooper g)"
  using pooper_spawn_flags [of g] by (auto simp: update_pooper_def Let_def split: if_splits)

lemma update_pooper_no_first:
  assumes "\<not> hasSpawnedFirstPooper (update_pooper g)" and "poopingJJ g = None"
  shows "poopingJJ (update_pooper g) = None"
proof -
  have "\<not> hasSpawnedFirstPooper (pooper_spawn g)"
    using assms(1) by (simp add: update_pooper_def Let_def split: if_splits)
  then have "poopingJJ (pooper_spawn g) = None"
    using pooper_spawn_flags(3) [of g] assms(2) by simp
  then show ?thesis
    by (simp add: update_pooper_def Let_def)
qed


subsection \<open>What one frame does to the speed, the antagonist and the path\<close>

lemma update_speed_scroll:
  assumes "3.5 \<le> scrollSpeed g" and "scrollSpeed g \<le> 8.001"
  shows "3.5 \<le> scrollSpeed (update_speed g)" and "scrollSpeed (update_speed g) \<le> 8.001"
    and "scrollSpeed g - 0.05 \<le> scrollSpeed (update_speed g)"
  using assms by (auto simp: update_speed_def Let_def MAX_SPEED_def)

lemma update_head_scroll [simp]:
  "scrollSpeed (update_head g) = scrollSpeed (update_speed g)"
  by (simp add: update_head_def)

lemma update_head_target [simp]: "pathTarget (update_head g) = pathTarget g"
  by (simp add: update_head_def)

lemma update_head_pooper:
  "\<exists>x. poopingJJ x = poopingJJ g \<and> hasSpawnedFirstPooper x = hasSpawnedFirstPooper g
       \<and> lastPoopJJSpawn x = lastPoopJJSpawn g
       \<and> distance x = distance g + scrollSpeed g * METER_SCALE
       \<and> poopingJJ (update_head g) = poopingJJ (update_pooper x)
       \<and> hasSpawnedFirstPooper (update_head g) = hasSpawnedFirstPooper (update_pooper x)
       \<and> lastPoopJJSpawn (update_head g) = lastPoopJJSpawn (update_pooper x)"
  by (rule exI [of _ "update_camera (update_speed g)"]) (simp add: update_head_def)

lemma update_begin_more [simp]:
  "poopingJJ (update_begin g) = poopingJJ g"
  "hasSpawnedFirstPooper (update_begin g) = hasSpawnedFirstPooper g"
  "lastPoopJJSpawn (update_begin g) = lastPoopJJSpawn g"
  "pathTarget (update_begin g) = pathTarget g"
  by (simp_all add: update_begin_def)

lemma update_speed_begin [simp]:
  "scrollSpeed (update_speed (update_begin g)) = scrollSpeed (update_speed g)"
  by (simp add: update_speed_def Let_def)

lemma update_tail_keeps [simp]:
  "scrollSpeed (update_tail now g) = scrollSpeed g"
  "distance (update_tail now g) = distance g"
  "poopingJJ (update_tail now g) = poopingJJ g"
  "hasSpawnedFirstPooper (update_tail now g) = hasSpawnedFirstPooper g"
  "lastPoopJJSpawn (update_tail now g) = lastPoopJJSpawn g"
  by (simp_all add: update_tail_def)

lemma update_tail_path:
  "\<exists>y. isSplitting y = isSplitting g \<and> splitDistance y = splitDistance g
       \<and> pathTarget y = pathTarget g \<and> pathCenter y = pathCenter g
       \<and> scrollSpeed y = scrollSpeed g
       \<and> isSplitting (update_tail now g) = isSplitting (updatePath y)
       \<and> splitDistance (update_tail now g) = splitDistance (updatePath y)
       \<and> pathTarget (update_tail now g) = pathTarget (updatePath y)
       \<and> pathCenter (update_tail now g) = pathCenter (updatePath y)"
  by (rule exI [of _ "update_player now (update_input g)"]) (simp add: update_tail_def)

lemma obstacle_step_state:
  "state (fst (obstacle_step ob gk)) = state (fst gk)
   \<or> state (fst (obstacle_step ob gk)) = EXPLODING"
  by (simp add: obstacle_step_def Let_def split_def)

lemma foldr_obstacle_step_state:
  "state (fst (foldr obstacle_step obs gk)) = state (fst gk)
   \<or> state (fst (foldr obstacle_step obs gk)) = EXPLODING"
proof (induction obs)
  case Nil
  show ?case by simp
next
  case (Cons a obs)
  then show ?case
    using obstacle_step_state [of a "foldr obstacle_step obs gk"] by auto
qed

lemma update_tail_state:
  "state (update_tail now g) = state g \<or> state (update_tail now g) = EXPLODING"
  using foldr_obstacle_step_state
    [of "obstacles (spawnObstacle (update_player now (update_input g)))"
        "(spawnObstacle (update_player now (update_input g)), [])"]
  by (simp add: update_tail_def obstacles_loop_def Let_def split_def)

text \<open>The three ways a frame can go.\<close>

lemma gameLoop_cases:
  obtains (idle) "state g \<noteq> PLAYING" "state g \<noteq> EXPLODING" "gameLoop now g = g"
  | (exploding) "state g = EXPLODING"
      "gameLoop now g = update_begin g \<or> gameLoop now g = gameOver (update_begin g)"
  | (won) "state g = PLAYING" "distance g + scrollSpeed g * METER_SCALE \<ge> WIN_DISTANCE"
      "gameLoop now g = victory (update_head (update_begin g))"
  | (playing) "state g = PLAYING" "distance g + scrollSpeed g * METER_SCALE < WIN_DISTANCE"
      "gameLoop now g = update_tail now (update_head (update_begin g))"
proof (cases "state g = PLAYING \<or> state g = EXPLODING")
  case False
  then have "state g \<noteq> PLAYING" "state g \<noteq> EXPLODING" "gameLoop now g = g"
    by (simp_all add: gameLoop_def)
  then show ?thesis by (rule idle)
next
  case True
  show ?thesis
  proof (cases "state g = EXPLODING")
    case True
    then have "gameLoop now g = update_begin g \<or> gameLoop now g = gameOver (update_begin g)"
      by (simp add: gameLoop_def update_exploding)
    with True show ?thesis by (rule exploding)
  next
    case False
    with True have p: "state g = PLAYING" by simp
    show ?thesis
    proof (cases "distance g + scrollSpeed g * METER_SCALE \<ge> WIN_DISTANCE")
      case True
      with p have "gameLoop now g = victory (update_head (update_begin g))"
        by (simp add: gameLoop_def update_won)
      with p True show ?thesis by (rule won)
    next
      case False
      then have lt: "distance g + scrollSpeed g * METER_SCALE < WIN_DISTANCE"
        by simp
      with p have "gameLoop now g = update_tail now (update_head (update_begin g))"
        by (simp add: gameLoop_def update_playing)
      with p lt show ?thesis by (rule playing)
    qed
  qed
qed
subsection \<open>An invariant of every reachable game\<close>

lemma inv_Game_new: "inv (Game_new r sh)"
  by (simp add: inv_def Game_new_def createPlayer_def Game_fields_def CONFIG_defs)

lemma inv_startGame: "inv g \<Longrightarrow> inv (startGame g)"
  by (simp add: inv_def startGame_def)

lemma inv_restart: "inv g \<Longrightarrow> inv (restart g)"
  by (simp add: inv_def restart_def ParticleSystem_clear_def createPlayer_def Let_def
        CONFIG_defs)

lemma keydown_more [simp]:
  "scrollSpeed (keydown code now g) = scrollSpeed g"
  "hasSpawnedFirstPooper (keydown code now g) = hasSpawnedFirstPooper g"
  "poopingJJ (keydown code now g) = poopingJJ g"
  "splitDistance (keydown code now g) = splitDistance g"
  "pathTarget (keydown code now g) = pathTarget g"
  "pathCenter (keydown code now g) = pathCenter g"
  by (simp_all add: keydown_def Let_def)

lemma keyup_more [simp]:
  "scrollSpeed (keyup code g) = scrollSpeed g"
  "hasSpawnedFirstPooper (keyup code g) = hasSpawnedFirstPooper g"
  "poopingJJ (keyup code g) = poopingJJ g"
  "splitDistance (keyup code g) = splitDistance g"
  "pathTarget (keyup code g) = pathTarget g"
  "pathCenter (keyup code g) = pathCenter g"
  by (simp_all add: keyup_def Let_def)

lemma inv_keydown: "inv g \<Longrightarrow> inv (keydown code now g)"
  by (simp add: inv_def)

lemma inv_keyup: "inv g \<Longrightarrow> inv (keyup code g)"
  by (simp add: inv_def)

text \<open>The part of a frame before the win test.\<close>

lemma inv_head:
  assumes "inv g"
  defines "h \<equiv> update_head (update_begin g)"
  shows "3.5 \<le> scrollSpeed h" and "scrollSpeed h \<le> 8.001"
    and "scrollSpeed g - 0.05 \<le> scrollSpeed h"
    and "distance h = distance g + scrollSpeed g * METER_SCALE"
    and "hasSpawnedFirstPooper h \<or> poopingJJ h = None"
    and "distance h > 250 \<or> \<not> hasSpawnedFirstPooper h"
    and "splitDistance h = splitDistance g" and "pathTarget h = None"
    and "pathCenter h = pathCenter g" and "state h = state g"
proof -
  from assms(1) have s: "3.5 \<le> scrollSpeed g" "scrollSpeed g \<le> 8.001"
    by (simp_all add: inv_def)
  show "3.5 \<le> scrollSpeed h" "scrollSpeed h \<le> 8.001" "scrollSpeed g - 0.05 \<le> scrollSpeed h"
    using update_speed_scroll [OF s] by (simp_all add: h_def)
  show d: "distance h = distance g + scrollSpeed g * METER_SCALE"
    by (simp add: h_def)
  obtain x where x: "poopingJJ x = poopingJJ g"
    "hasSpawnedFirstPooper x = hasSpawnedFirstPooper g"
    "distance x = distance g + scrollSpeed g * METER_SCALE"
    "poopingJJ h = poopingJJ (update_pooper x)"
    "hasSpawnedFirstPooper h = hasSpawnedFirstPooper (update_pooper x)"
    using update_head_pooper [of "update_begin g"] by (auto simp: h_def)
  show "hasSpawnedFirstPooper h \<or> poopingJJ h = None"
  proof (cases "hasSpawnedFirstPooper h")
    case False
    then have n: "\<not> hasSpawnedFirstPooper (update_pooper x)" using x by simp
    then have "\<not> hasSpawnedFirstPooper x" using update_pooper_flags(2) by blast
    with assms(1) x have "poopingJJ x = None" by (simp add: inv_def)
    with n x show ?thesis by (simp add: update_pooper_no_first)
  qed simp
  show "distance h > 250 \<or> \<not> hasSpawnedFirstPooper h"
  proof (cases "hasSpawnedFirstPooper h")
    case True
    then have "hasSpawnedFirstPooper (update_pooper x)"
      using x by simp
    then have "hasSpawnedFirstPooper x \<or> distance x > 250"
      by (rule update_pooper_flags(1))
    moreover have "distance g \<le> distance x"
      using s x by (simp add: METER_SCALE_def)
    ultimately show ?thesis
      using assms(1) x d by (auto simp: inv_def)
  qed simp
  show "splitDistance h = splitDistance g" "pathCenter h = pathCenter g" "state h = state g"
    by (simp_all add: h_def)
  show "pathTarget h = None"
    using assms(1) by (simp add: h_def inv_def)
qed

lemma inv_gameLoop:
  assumes "inv g"
  shows "inv (gameLoop now g)"
proof (cases rule: gameLoop_cases [of g now])
  case idle
  with assms show ?thesis by simp
next
  case exploding
  with assms show ?thesis
    by (auto simp: inv_def gameOver_def)
next
  case won
  note h = inv_head [OF assms]
  from assms have c: "pathCenter g + distance g \<le> 512 \<or> pathCenter g \<le> - 1000"
    and s: "scrollSpeed g \<le> 8.001" and d: "0 \<le> distance g"
    by (simp_all add: inv_def)
  have far: "pathCenter g \<le> - 1000"
    using c s won(2) by (auto simp: WIN_DISTANCE_def METER_SCALE_def)
  have v: "\<And>f. f (victory (update_head (update_begin g)))
             = f ((update_head (update_begin g))\<lparr>state := VICTORY\<rparr>)"
    by (simp add: victory_def)
  show ?thesis
    unfolding won(3) inv_def v
    using h far won(2) assms by (simp add: inv_def WIN_DISTANCE_def)
next
  case playing
  note h = inv_head [OF assms]
  let ?h = "update_head (update_begin g)"
  obtain y where y: "splitDistance y = splitDistance ?h" "pathTarget y = pathTarget ?h"
    "pathCenter y = pathCenter ?h" "scrollSpeed y = scrollSpeed ?h"
    "splitDistance (update_tail now ?h) = splitDistance (updatePath y)"
    "pathTarget (update_tail now ?h) = pathTarget (updatePath y)"
    "pathCenter (update_tail now ?h) = pathCenter (updatePath y)"
    using update_tail_path [of ?h now] by blast
  have t: "pathTarget y = None" using y h by simp
  have sd: "0 \<le> splitDistance (updatePath y)"
    using updatePath_nonneg [of y] y h assms by (simp add: inv_def)
  have pc: "pathCenter (update_tail now ?h) = pathCenter g - (0.5 + scrollSpeed ?h * 0.1)"
    using updatePath_undefined(2) [OF t] y h by simp
  from assms have c: "pathCenter g + distance g \<le> 512 \<or> pathCenter g \<le> - 1000"
    by (simp add: inv_def)
  have c': "pathCenter (update_tail now ?h) + distance ?h \<le> 512
          \<or> pathCenter (update_tail now ?h) \<le> - 1000"
    using c h(1) h(3) h(4) by (auto simp: pc METER_SCALE_def)
  have st: "state (update_tail now ?h) \<noteq> VICTORY"
    using update_tail_state [of now ?h] h(10) playing(1) by auto
  have dn: "0 \<le> distance ?h"
    using h(4) assms by (simp add: inv_def METER_SCALE_def)
  show ?thesis
    unfolding playing(3) inv_def
    using h sd c' st dn updatePath_undefined(1) [OF t] y by simp
qed

lemma inv_handle: "inv g \<Longrightarrow> inv (handle e g)"
  by (cases e) (simp_all add: inv_startGame inv_restart inv_gameLoop inv_keydown inv_keyup)

lemma reachable_inv: "reachable g \<Longrightarrow> inv g"
  by (induction rule: reachable.induct) (simp_all add: inv_Game_new inv_handle)

lemma reachable_run: "reachable g \<Longrightarrow> reachable (run es g)"
  by (induction es arbitrary: g) (simp_all add: reachable.step)

lemma reachable_demo: "reachable demo"
proof -
  have "reachable (Game_new (\<lambda>_. 1 / 2) False)"
    by (rule reachable.fresh) simp
  then have "reachable (handle StartBtn (Game_new (\<lambda>_. 1 / 2) False))"
    by (rule reachable.step)
  then show ?thesis by (simp add: demo_def)
qed
subsection \<open>The fork\<close>

lemma gameLoop_fork_begins:
  assumes "isSplitting (gameLoop now g)" and "\<not> isSplitting g"
  shows "splitDistance g = 0"
proof (cases rule: gameLoop_cases [of g now])
  case idle
  with assms show ?thesis by simp
next
  case exploding
  with assms show ?thesis by (auto simp: gameOver_def)
next
  case won
  with assms show ?thesis by (simp add: victory_def)
next
  case playing
  let ?h = "update_head (update_begin g)"
  obtain y where y: "isSplitting y = isSplitting ?h" "splitDistance y = splitDistance ?h"
    "isSplitting (update_tail now ?h) = isSplitting (updatePath y)"
    using update_tail_path [of ?h now] by blast
  from assms playing y have "isSplitting (updatePath y)" "\<not> isSplitting y"
    by simp_all
  then have "splitDistance y = 0" by (rule updatePath_begins)
  with y show ?thesis by simp
qed

lemma split_start_guard:
  "\<not> (\<not> isSplitting g \<and> splitDistance g = 0) \<Longrightarrow> split_start g = g"
  by (auto simp: split_start_def)

text \<open>
  C7. In every reachable game the fork distance is not negative, so it is 0
  whenever no fork is in progress (\<open>isSplitting\<close> false) and none is contracting (the
  condition of the contraction branch false). In any game, the split-start branch
  leaves the game alone unless \<open>isSplitting\<close> is false and \<open>splitDistance\<close> is 0, and
  a fork that begins in \<open>updatePath\<close>, or in a frame, begins at \<open>splitDistance\<close> 0;
  while a fork is contracting, \<open>updatePath\<close> takes 1.5 off the distance, down to 0,
  and no fork begins.
\<close>

theorem C7_fork_invariant:
  assumes "reachable g"
  shows "0 \<le> splitDistance g
       \<and> (\<not> isSplitting g \<and> \<not> contracting g \<longrightarrow> splitDistance g = 0)
       \<and> (\<not> (\<not> isSplitting g' \<and> splitDistance g' = 0) \<longrightarrow> split_start g' = g')
       \<and> (\<not> isSplitting g' \<and> isSplitting (updatePath g') \<longrightarrow> splitDistance g' = 0)
       \<and> (\<not> isSplitting g' \<and> isSplitting (gameLoop now g') \<longrightarrow> splitDistance g' = 0)
       \<and> (contracting g' \<longrightarrow>
            splitDistance (updatePath g') = max 0 (splitDistance g' - 1.5)
            \<and> \<not> isSplitting (updatePath g'))"
proof -
  have n: "0 \<le> splitDistance g"
    using reachable_inv [OF assms] by (simp add: inv_def)
  then have z: "\<not> isSplitting g \<and> \<not> contracting g \<longrightarrow> splitDistance g = 0"
    by (auto simp: contracting_def)
  show ?thesis
    using n z split_start_guard [of g'] updatePath_begins [of g']
      gameLoop_fork_begins [of now g'] updatePath_contracting [of g']
    by (simp add: contracting_def)
qed

lemma demo_fork_due_begins: "isSplitting (updatePath demo_fork_due)"
  by (simp add: updatePath_def path_retarget_def path_move_def path_widen_def path_narrow_def
        split_tick_def split_start_def split_prepare_def split_separate_def
        split_contract_def Math_random_def Let_def demo_fork_due_def)

theorem C7_fork_invariant_witness:
  "reachable demo \<and> \<not> isSplitting demo \<and> \<not> contracting demo \<and> splitDistance demo = 0
   \<and> \<not> isSplitting demo_fork_due \<and> isSplitting (updatePath demo_fork_due)
   \<and> splitDistance demo_fork_due = 0
   \<and> contracting demo_fork_closing
   \<and> splitDistance (updatePath demo_fork_closing) = 1.5"
proof -
  have c: "contracting demo_fork_closing"
    by (simp add: contracting_def demo_fork_closing_def)
  have d: "\<not> isSplitting demo_fork_due" "splitDistance demo_fork_due = 0"
    by (simp_all add: demo_fork_due_def)
  from C7_fork_invariant [OF reachable_demo, of demo_fork_closing 0]
  have "splitDistance (updatePath demo_fork_closing) = max 0 (splitDistance demo_fork_closing - 1.5)"
    using c by blast
  then have e: "splitDistance (updatePath demo_fork_closing) = 1.5"
    by (simp add: demo_fork_closing_def)
  from C7_fork_invariant [OF reachable_demo, of demo_fork_due 0]
  show ?thesis
    using c d e demo_fork_due_begins reachable_demo by (simp add: contracting_def)
qed
subsection \<open>The antagonist's spawn rule\<close>










subsection \<open>The path centre\<close>

lemma gameLoop_path_center:
  assumes "state g = PLAYING" and "distance g + scrollSpeed g * METER_SCALE < WIN_DISTANCE"
    and "pathTarget g = None"
  shows "pathCenter (gameLoop now g) = pathCenter g - (0.5 + scrollSpeed (gameLoop now g) * 0.1)"
proof -
  let ?h = "update_head (update_begin g)"
  have u: "gameLoop now g = update_tail now ?h"
    using assms by (simp add: gameLoop_def update_playing)
  obtain y where y: "pathTarget y = pathTarget ?h" "pathCenter y = pathCenter ?h"
    "scrollSpeed y = scrollSpeed ?h"
    "pathCenter (update_tail now ?h) = pathCenter (updatePath y)"
    using update_tail_path [of ?h now] by blast
  have "pathTarget y = None" using y assms by simp
  from updatePath_undefined(2) [OF this] y show ?thesis
    by (simp add: u)
qed

text \<open>
  C2 fails on the code. \<open>pathTarget\<close> is assigned only inside the branch that tests
  it, so it is undefined in every reachable game, the re-roll never runs, and every
  playing frame short of the win moves the centre left by 0.5 plus a tenth of the
  scroll speed, which is at least 0.85. The centre is left of \<open>512 - distance\<close> (or
  left of -1000): outside \<open>[0, 1024]\<close> from 512 m on, and in every game that is won.
\<close>

theorem C2_path_center_leaves_playfield:
  assumes "reachable g"
  shows "pathTarget g = None
       \<and> (pathCenter g + distance g \<le> 512 \<or> pathCenter g \<le> - 1000)
       \<and> (distance g > 512 \<longrightarrow> pathCenter g < 0)
       \<and> (state g = VICTORY \<longrightarrow> pathCenter g < 0)
       \<and> (state g = PLAYING \<and> distance g + scrollSpeed g * METER_SCALE < WIN_DISTANCE \<longrightarrow>
            pathCenter (gameLoop now g) = pathCenter g - (0.5 + scrollSpeed (gameLoop now g) * 0.1)
            \<and> pathCenter (gameLoop now g) \<le> pathCenter g - 0.85)"
proof -
  note i = reachable_inv [OF assms]
  have t: "pathTarget g = None"
    and c: "pathCenter g + distance g \<le> 512 \<or> pathCenter g \<le> - 1000"
    and v: "state g \<noteq> VICTORY \<or> distance g \<ge> WIN_DISTANCE"
    using i by (simp_all add: inv_def)
  have s: "3.5 \<le> scrollSpeed (gameLoop now g)"
    using reachable_inv [OF reachable.step [OF assms, of "Frame now"]] by (simp add: inv_def)
  have m: "state g = PLAYING \<and> distance g + scrollSpeed g * METER_SCALE < WIN_DISTANCE \<longrightarrow>
            pathCenter (gameLoop now g) = pathCenter g - (0.5 + scrollSpeed (gameLoop now g) * 0.1)
            \<and> pathCenter (gameLoop now g) \<le> pathCenter g - 0.85"
    using gameLoop_path_center [of g now] t s by auto
  show ?thesis
    using t c v m by (auto simp: WIN_DISTANCE_def)
qed

theorem C2_path_center_leaves_playfield_witness:
  "reachable demo \<and> state demo = PLAYING
   \<and> distance demo + scrollSpeed demo * METER_SCALE < WIN_DISTANCE
   \<and> pathTarget demo = None \<and> pathCenter demo = 512
   \<and> pathCenter (gameLoop 0 demo) \<le> 511.15
   \<and> pathTarget (gameLoop 0 demo) = None"
proof -
  have h: "state demo = PLAYING" "distance demo + scrollSpeed demo * METER_SCALE < WIN_DISTANCE"
    by (simp_all add: METER_SCALE_def WIN_DISTANCE_def)
  from C2_path_center_leaves_playfield [OF reachable_demo, of 0] h
  have a: "pathCenter (gameLoop 0 demo) \<le> pathCenter demo - 0.85" by blast
  have "reachable (handle (Frame 0) demo)"
    by (rule reachable.step [OF reachable_demo])
  from C2_path_center_leaves_playfield [OF this, of 0]
  have b: "pathTarget (gameLoop 0 demo) = None" by simp
  show ?thesis
    using a b h reachable_demo by simp
qed
subsection \<open>The explosion resolves to game over\<close>

text \<open>
  C4. In a frame that starts in EXPLODING the next state is GAMEOVER exactly when
  the particle update of that frame reports no particle left, and EXPLODING
  otherwise: the transition happens in the first such frame, and nothing but that
  report decides it. The report is false exactly when the update leaves no particle.
  No frame reaches GAMEOVER in another way.
\<close>

theorem C4_gameover_when_particles_gone:
  "(state g = EXPLODING \<longrightarrow>
      (state (update now g) = GAMEOVER \<longleftrightarrow> \<not> fst (ParticleSystem_update g))
      \<and> (state (update now g) = EXPLODING \<longleftrightarrow> fst (ParticleSystem_update g))
      \<and> (fst (ParticleSystem_update g) \<longleftrightarrow> particles (update now g) \<noteq> [])
      \<and> (fst (ParticleSystem_update g) \<longleftrightarrow> particles (snd (ParticleSystem_update g)) \<noteq> []))
   \<and> (state (gameLoop now g) = GAMEOVER \<and> state g \<noteq> GAMEOVER \<longrightarrow>
      state g = EXPLODING \<and> \<not> fst (ParticleSystem_update g))"
proof -
  have a: "state g = EXPLODING \<longrightarrow>
      (state (update now g) = GAMEOVER \<longleftrightarrow> \<not> fst (ParticleSystem_update g))
      \<and> (state (update now g) = EXPLODING \<longleftrightarrow> fst (ParticleSystem_update g))
      \<and> (fst (ParticleSystem_update g) \<longleftrightarrow> particles (update now g) \<noteq> [])
      \<and> (fst (ParticleSystem_update g) \<longleftrightarrow> particles (snd (ParticleSystem_update g)) \<noteq> [])"
    by (simp add: update_exploding gameOver_def)
  have b: "state g = EXPLODING \<and> \<not> fst (ParticleSystem_update g)"
    if "state (gameLoop now g) = GAMEOVER" "state g \<noteq> GAMEOVER"
  proof (cases rule: gameLoop_cases [of g now])
    case idle
    with that show ?thesis by simp
  next
    case exploding
    with that a show ?thesis
      by (auto simp: gameLoop_def)
  next
    case won
    with that show ?thesis by simp
  next
    case playing
    with that update_tail_state [of now "update_head (update_begin g)"] show ?thesis
      by auto
  qed
  from a b show ?thesis by blast
qed

theorem C4_gameover_when_particles_gone_witness:
  "state demo_exploding = EXPLODING
   \<and> \<not> fst (ParticleSystem_update demo_exploding)
   \<and> state (update 0 demo_exploding) = GAMEOVER
   \<and> state (gameLoop 0 demo_exploding) = GAMEOVER"
  using C4_gameover_when_particles_gone [of demo_exploding 0]
  by (simp add: demo_exploding_def gameLoop_def)
subsection \<open>The frame as far as the obstacle loop\<close>

lemma gameLoop_reaches_loop:
  "state g = PLAYING \<Longrightarrow> distance g + scrollSpeed g * METER_SCALE < WIN_DISTANCE \<Longrightarrow>
   gameLoop now g = obstacles_loop (before_loop now g)"
  by (simp add: gameLoop_def update_playing update_tail_def before_loop_def)

lemma Player_move_jump [simp]:
  "isJumping (Player_move dx p) = isJumping p"
  "jumpStartTime (Player_move dx p) = jumpStartTime p"
  by (simp_all add: Player_move_def Let_def)

lemma update_input_jump [simp]:
  "isJumping (player (update_input g)) = isJumping (player g)"
  "jumpStartTime (player (update_input g)) = jumpStartTime (player g)"
  by (simp_all add: update_input_def Let_def)

lemma update_player_writes_player [simp]:
  "player (update_player now g) = Player_update now (player g)"
  by (simp add: update_player_def Let_def updateTrails_def)

lemma before_loop_state [simp]: "state (before_loop now g) = state g"
  by (simp add: before_loop_def)

lemma before_loop_player:
  "player (before_loop now g) = Player_update now (player (update_input (update_head (update_begin g))))"
  by (simp add: before_loop_def)

lemma before_loop_jumping:
  "isJumping (player (before_loop now g)) \<longleftrightarrow>
     isJumping (player g) \<and> jump_progress now (player g) < 1"
  by (simp add: before_loop_player Player_update_jump jump_progress_def)

lemma before_loop_landed:
  "isJumping (player g) \<Longrightarrow> jump_progress now (player g) \<ge> 1 \<Longrightarrow>
   p_scale (player (before_loop now g)) = baseScale (player g)"
  by (simp add: before_loop_player Player_update_def jump_progress_def Let_def
        update_input_def Player_move_def)

subsection \<open>A loop without a hit\<close>

lemma obstacle_step_safe:
  assumes "\<not> (o_type ob \<noteq> Carousel
              \<and> checkCollision (player (fst gk)) (ob\<lparr>o_y := o_y ob - scrollSpeed (fst gk)\<rparr>))"
  shows "state (fst (obstacle_step ob gk)) = state (fst gk)"
  using assms by (auto simp: obstacle_step_def Let_def split_def)

lemma foldr_obstacle_step_safe:
  assumes "\<forall>ob\<in>set obs. \<not> (o_type ob \<noteq> Carousel
              \<and> checkCollision (player g) (ob\<lparr>o_y := o_y ob - scrollSpeed g\<rparr>))"
  shows "state (fst (foldr obstacle_step obs (g, kept))) = state g"
  using assms
proof (induction obs)
  case Nil
  show ?case by simp
next
  case (Cons a obs)
  let ?gk = "foldr obstacle_step obs (g, kept)"
  have s: "scrollSpeed (fst ?gk) = scrollSpeed g"
    by simp
  have c: "checkCollision (player (fst ?gk)) (a\<lparr>o_y := o_y a - scrollSpeed (fst ?gk)\<rparr>)
         = checkCollision (player g) (a\<lparr>o_y := o_y a - scrollSpeed g\<rparr>)"
    unfolding s
    by (rule checkCollision_cong) (simp_all add: foldr_obstacle_step_player)
  have "state (fst (obstacle_step a ?gk)) = state (fst ?gk)"
    by (rule obstacle_step_safe) (use Cons.prems c in simp)
  with Cons show ?case by simp
qed

lemma obstacles_loop_safe:
  assumes "\<forall>ob\<in>set (obstacles g). \<not> (o_type ob \<noteq> Carousel
              \<and> checkCollision (player g) (ob\<lparr>o_y := o_y ob - scrollSpeed g\<rparr>))"
  shows "state (obstacles_loop g) = state g"
  using foldr_obstacle_step_safe [OF assms, of "[]"]
  by (simp add: obstacles_loop_def Let_def split_def)

lemma obstacles_loop_immune:
  "isJumping (player g) \<Longrightarrow> state (obstacles_loop g) = state g"
  "isJumping (player g) \<Longrightarrow> player (obstacles_loop g) = player g"
  "isJumping (player g) \<Longrightarrow> carouselActive (obstacles_loop g) = carouselActive g"
  "isJumping (player g) \<Longrightarrow> particles (obstacles_loop g) = particles g"
  by (simp_all add: obstacles_loop_def Let_def split_def foldr_obstacle_step_jumping)

text \<open>Whether a frame that reaches the obstacle loop ends in an explosion.\<close>

lemma gameLoop_explodes_iff:
  assumes "state g = PLAYING" and "distance g + scrollSpeed g * METER_SCALE < WIN_DISTANCE"
  shows "state (gameLoop now g) = EXPLODING \<longleftrightarrow>
           \<not> isJumping (player (before_loop now g))
           \<and> (\<exists>ob\<in>set (obstacles (before_loop now g)). o_type ob \<noteq> Carousel
                \<and> checkCollision (player (before_loop now g))
                     (ob\<lparr>o_y := o_y ob - scrollSpeed (before_loop now g)\<rparr>))"
proof -
  let ?b = "before_loop now g"
  have l: "gameLoop now g = obstacles_loop ?b"
    using assms by (rule gameLoop_reaches_loop)
  have p: "state ?b = PLAYING" using assms(1) by simp
  show ?thesis
  proof (cases "isJumping (player ?b)")
    case True
    then show ?thesis
      using p by (simp add: l obstacles_loop_immune)
  next
    case False
    show ?thesis
    proof (cases "\<exists>ob\<in>set (obstacles ?b). o_type ob \<noteq> Carousel
                \<and> checkCollision (player ?b) (ob\<lparr>o_y := o_y ob - scrollSpeed ?b\<rparr>)")
      case True
      then obtain ob where "ob \<in> set (obstacles ?b)" "o_type ob \<noteq> Carousel"
        "checkCollision (player ?b) (ob\<lparr>o_y := o_y ob - scrollSpeed ?b\<rparr>)"
        by blast
      from obstacles_loop_explodes(1) [OF False this] True False show ?thesis
        by (simp add: l)
    next
      case n: False
      then have "state (obstacles_loop ?b) = state ?b"
        by (intro obstacles_loop_safe) blast
      with n p show ?thesis
        by (simp add: l)
    qed
  qed
qed

text \<open>A frame that does not reach the obstacle loop.\<close>

lemma gameLoop_no_test:
  assumes "state g \<noteq> PLAYING \<or> distance g + scrollSpeed g * METER_SCALE \<ge> WIN_DISTANCE"
  shows "player (gameLoop now g) = player g" and "obstacles_kept g (gameLoop now g)"
    and "carouselActive (gameLoop now g) = carouselActive g"
    and "state (gameLoop now g) = EXPLODING \<longrightarrow> state g = EXPLODING"
proof -
  have "player (gameLoop now g) = player g \<and> obstacles_kept g (gameLoop now g)
      \<and> carouselActive (gameLoop now g) = carouselActive g
      \<and> (state (gameLoop now g) = EXPLODING \<longrightarrow> state g = EXPLODING)"
  proof (cases rule: gameLoop_cases [of g now])
    case idle
    then show ?thesis by (simp add: obstacles_kept_same)
  next
    case exploding
    then show ?thesis
      by (auto simp: gameOver_def obstacles_kept_same)
  next
    case won
    have "obstacles_kept g (update_head (update_begin g))"
      using update_head_kept [of "update_begin g"] by (simp add: obstacles_kept_def)
    then show ?thesis
      by (simp add: won victory_def obstacles_kept_def)
  next
    case playing
    with assms show ?thesis by simp
  qed
  then show "player (gameLoop now g) = player g" and "obstacles_kept g (gameLoop now g)"
    and "carouselActive (gameLoop now g) = carouselActive g"
    and "state (gameLoop now g) = EXPLODING \<longrightarrow> state g = EXPLODING"
    by simp_all
qed

subsection \<open>The jump\<close>

text \<open>
  C5, as stated: in every frame the collision test is skipped only if the player is
  jumping. It is not: the frame that reaches the win distance leaves \<open>update\<close> before
  the obstacle loop. Here the player is grounded and the rock, clear of the player
  when the frame begins, overlaps the player once scrolled by this frame's speed;
  the frame ends in VICTORY with the player untouched and the rock where it was.
\<close>

theorem C5_counterexample:
  "state demo_last_frame = PLAYING
   \<and> \<not> isJumping (player demo_last_frame)
   \<and> demo_rock_below \<in> set (obstacles demo_last_frame)
   \<and> o_type demo_rock_below \<noteq> Carousel
   \<and> \<not> checkCollision (player demo_last_frame) demo_rock_below
   \<and> checkCollision (player demo_last_frame)
        (demo_rock_below\<lparr>o_y := o_y demo_rock_below - scrollSpeed demo_last_frame\<rparr>)
   \<and> state (gameLoop 0 demo_last_frame) = VICTORY
   \<and> player (gameLoop 0 demo_last_frame) = player demo_last_frame
   \<and> opacity (player (gameLoop 0 demo_last_frame)) = 1
   \<and> demo_rock_below \<in> set (obstacles (gameLoop 0 demo_last_frame))"
proof -
  have w: "distance demo_last_frame + scrollSpeed demo_last_frame * METER_SCALE \<ge> WIN_DISTANCE"
    by (simp add: demo_last_frame_def WIN_DISTANCE_def METER_SCALE_def)
  have s: "state demo_last_frame = PLAYING" "player demo_last_frame = Player_new 512 150"
    "obstacles demo_last_frame = [demo_rock_below]" "scrollSpeed demo_last_frame = 8"
    by (simp_all add: demo_last_frame_def)
  have u: "gameLoop 0 demo_last_frame = victory (update_head (update_begin demo_last_frame))"
    using w s(1) by (simp add: gameLoop_def update_won)
  have k: "obstacles_kept demo_last_frame (gameLoop 0 demo_last_frame)"
    using gameLoop_no_test(2) [of demo_last_frame 0] w by simp
  have m: "demo_rock_below \<in> set (obstacles (gameLoop 0 demo_last_frame))"
    by (rule obstacles_kept_mem [OF k]) (simp add: s)
  have c: "checkCollision (Player_new 512 150) (demo_rock_below\<lparr>o_y := o_y demo_rock_below - 8\<rparr>)"
    "o_type demo_rock_below \<noteq> Carousel"
    "\<not> checkCollision (Player_new 512 150) demo_rock_below"
    by (simp_all add: demo_rock_below_def checkCollision_def Player_new_def Obstacle_new_def
          Obstacle_width_def Obstacle_height_def)
  have v: "state (gameLoop 0 demo_last_frame) = VICTORY"
    "player (gameLoop 0 demo_last_frame) = Player_new 512 150"
    by (simp_all add: u victory_def s)
  show ?thesis
    using m c by (simp add: s v Player_new_def)
qed

text \<open>
  C5, amended. A frame reaches the obstacle loop if it starts in PLAYING and stays
  short of the win distance; the frame then ends with that loop. In such a frame
  the player is jumping at the loop exactly if the frame found the player jumping
  and the elapsed fraction of the 800 ms is below 1 (at 1 \<open>Player.update\<close> clears
  \<open>isJumping\<close> and sets the scale back to \<open>baseScale\<close>; it never sets the flag),
  and the collision test is skipped for every obstacle exactly if the player is
  jumping: jumping, the loop changes nothing but the obstacle list whatever
  overlaps; grounded, the frame ends in EXPLODING exactly if some obstacle other
  than a carousel overlaps the player once scrolled, and each turn's effect is the
  one the test selects. A frame that does not reach the loop (any other state, or
  the win distance reached) tests nothing whatever the flag says: it leaves the
  player and every obstacle as they were and turns no state into EXPLODING.
\<close>

theorem C5_jump_immunity:
  "(state g0 = PLAYING \<and> distance g0 + scrollSpeed g0 * METER_SCALE < WIN_DISTANCE \<longrightarrow>
      gameLoop now g0 = obstacles_loop (before_loop now g0)
      \<and> (isJumping (player (before_loop now g0)) \<longleftrightarrow>
           isJumping (player g0) \<and> jump_progress now (player g0) < 1)
      \<and> (isJumping (player g0) \<and> jump_progress now (player g0) \<ge> 1 \<longrightarrow>
           p_scale (player (before_loop now g0)) = baseScale (player g0))
      \<and> (isJumping (player (before_loop now g0)) \<longrightarrow>
           state (gameLoop now g0) = PLAYING
           \<and> player (gameLoop now g0) = player (before_loop now g0)
           \<and> carouselActive (gameLoop now g0) = carouselActive (before_loop now g0)
           \<and> particles (gameLoop now g0) = particles (before_loop now g0))
      \<and> (state (gameLoop now g0) = EXPLODING \<longleftrightarrow>
           \<not> isJumping (player (before_loop now g0))
           \<and> (\<exists>ob\<in>set (obstacles (before_loop now g0)). o_type ob \<noteq> Carousel
                \<and> checkCollision (player (before_loop now g0))
                     (ob\<lparr>o_y := o_y ob - scrollSpeed (before_loop now g0)\<rparr>))))
   \<and> (state g0 \<noteq> PLAYING \<or> distance g0 + scrollSpeed g0 * METER_SCALE \<ge> WIN_DISTANCE \<longrightarrow>
      player (gameLoop now g0) = player g0
      \<and> obstacles_kept g0 (gameLoop now g0)
      \<and> (state (gameLoop now g0) = EXPLODING \<longrightarrow> state g0 = EXPLODING))
   \<and> (isJumping (player g) \<longrightarrow>
      fst (obstacle_step ob (g, kept)) = g \<and> fst (foldr obstacle_step obs (g, kept)) = g)
   \<and> (\<not> isJumping (player g) \<longrightarrow>
      fst (obstacle_step ob (g, kept)) =
        (if checkCollision (player g) (ob\<lparr>o_y := o_y ob - scrollSpeed g\<rparr>)
         then (if o_type ob = Carousel
               then fst (triggerCarouselEffect (ob\<lparr>o_y := o_y ob - scrollSpeed g\<rparr>) g)
               else triggerExplosion (ob\<lparr>o_y := o_y ob - scrollSpeed g\<rparr>) g)
         else g))
   \<and> (\<not> isJumping (player g) \<and> o_type ob \<noteq> Carousel
        \<and> checkCollision (player g) (ob\<lparr>o_y := o_y ob - scrollSpeed g\<rparr>) \<longrightarrow>
      state (fst (obstacle_step ob (g, kept))) = EXPLODING)
   \<and> jump_progress now p = (now - jumpStartTime p) / 800
   \<and> (isJumping (Player_update now p) \<longleftrightarrow> isJumping p \<and> jump_progress now p < 1)
   \<and> (isJumping p \<and> jump_progress now p \<ge> 1 \<longrightarrow>
        \<not> isJumping (Player_update now p) \<and> p_scale (Player_update now p) = baseScale p)"
proof -
  have frame: "state g0 = PLAYING \<and> distance g0 + scrollSpeed g0 * METER_SCALE < WIN_DISTANCE \<longrightarrow>
      gameLoop now g0 = obstacles_loop (before_loop now g0)
      \<and> (isJumping (player (before_loop now g0)) \<longleftrightarrow>
           isJumping (player g0) \<and> jump_progress now (player g0) < 1)
      \<and> (isJumping (player g0) \<and> jump_progress now (player g0) \<ge> 1 \<longrightarrow>
           p_scale (player (before_loop now g0)) = baseScale (player g0))
      \<and> (isJumping (player (before_loop now g0)) \<longrightarrow>
           state (gameLoop now g0) = PLAYING
           \<and> player (gameLoop now g0) = player (before_loop now g0)
           \<and> carouselActive (gameLoop now g0) = carouselActive (before_loop now g0)
           \<and> particles (gameLoop now g0) = particles (before_loop now g0))
      \<and> (state (gameLoop now g0) = EXPLODING \<longleftrightarrow>
           \<not> isJumping (player (before_loop now g0))
           \<and> (\<exists>ob\<in>set (obstacles (before_loop now g0)). o_type ob \<noteq> Carousel
                \<and> checkCollision (player (before_loop now g0))
                     (ob\<lparr>o_y := o_y ob - scrollSpeed (before_loop now g0)\<rparr>)))"
  proof (intro impI)
    assume a: "state g0 = PLAYING \<and> distance g0 + scrollSpeed g0 * METER_SCALE < WIN_DISTANCE"
    then have l: "gameLoop now g0 = obstacles_loop (before_loop now g0)"
      by (simp add: gameLoop_reaches_loop)
    have i: "isJumping (player (before_loop now g0)) \<longrightarrow>
           state (gameLoop now g0) = PLAYING
           \<and> player (gameLoop now g0) = player (before_loop now g0)
           \<and> carouselActive (gameLoop now g0) = carouselActive (before_loop now g0)
           \<and> particles (gameLoop now g0) = particles (before_loop now g0)"
      using a by (simp add: l obstacles_loop_immune)
    from a have e: "state (gameLoop now g0) = EXPLODING \<longleftrightarrow>
           \<not> isJumping (player (before_loop now g0))
           \<and> (\<exists>ob\<in>set (obstacles (before_loop now g0)). o_type ob \<noteq> Carousel
                \<and> checkCollision (player (before_loop now g0))
                     (ob\<lparr>o_y := o_y ob - scrollSpeed (before_loop now g0)\<rparr>))"
      by (intro gameLoop_explodes_iff) simp_all
    show "gameLoop now g0 = obstacles_loop (before_loop now g0)
      \<and> (isJumping (player (before_loop now g0)) \<longleftrightarrow>
           isJumping (player g0) \<and> jump_progress now (player g0) < 1)
      \<and> (isJumping (player g0) \<and> jump_progress now (player g0) \<ge> 1 \<longrightarrow>
           p_scale (player (before_loop now g0)) = baseScale (player g0))
      \<and> (isJumping (player (before_loop now g0)) \<longrightarrow>
           state (gameLoop now g0) = PLAYING
           \<and> player (gameLoop now g0) = player (before_loop now g0)
           \<and> carouselActive (gameLoop now g0) = carouselActive (before_loop now g0)
           \<and> particles (gameLoop now g0) = particles (before_loop now g0))
      \<and> (state (gameLoop now g0) = EXPLODING \<longleftrightarrow>
           \<not> isJumping (player (before_loop now g0))
           \<and> (\<exists>ob\<in>set (obstacles (before_loop now g0)). o_type ob \<noteq> Carousel
                \<and> checkCollision (player (before_loop now g0))
                     (ob\<lparr>o_y := o_y ob - scrollSpeed (before_loop now g0)\<rparr>)))"
      using l i e before_loop_jumping [of now g0] before_loop_landed [of g0 now]
      by blast
  qed
  have other: "state g0 \<noteq> PLAYING \<or> distance g0 + scrollSpeed g0 * METER_SCALE \<ge> WIN_DISTANCE \<longrightarrow>
      player (gameLoop now g0) = player g0
      \<and> obstacles_kept g0 (gameLoop now g0)
      \<and> (state (gameLoop now g0) = EXPLODING \<longrightarrow> state g0 = EXPLODING)"
    using gameLoop_no_test [of g0 now] by blast
  have turn: "(isJumping (player g) \<longrightarrow>
      fst (obstacle_step ob (g, kept)) = g \<and> fst (foldr obstacle_step obs (g, kept)) = g)
   \<and> (\<not> isJumping (player g) \<longrightarrow>
      fst (obstacle_step ob (g, kept)) =
        (if checkCollision (player g) (ob\<lparr>o_y := o_y ob - scrollSpeed g\<rparr>)
         then (if o_type ob = Carousel
               then fst (triggerCarouselEffect (ob\<lparr>o_y := o_y ob - scrollSpeed g\<rparr>) g)
               else triggerExplosion (ob\<lparr>o_y := o_y ob - scrollSpeed g\<rparr>) g)
         else g))
   \<and> (\<not> isJumping (player g) \<and> o_type ob \<noteq> Carousel
        \<and> checkCollision (player g) (ob\<lparr>o_y := o_y ob - scrollSpeed g\<rparr>) \<longrightarrow>
      state (fst (obstacle_step ob (g, kept))) = EXPLODING)
   \<and> jump_progress now p = (now - jumpStartTime p) / 800
   \<and> (isJumping (Player_update now p) \<longleftrightarrow> isJumping p \<and> jump_progress now p < 1)
   \<and> (isJumping p \<and> jump_progress now p \<ge> 1 \<longrightarrow>
        \<not> isJumping (Player_update now p) \<and> p_scale (Player_update now p) = baseScale p)"
    using obstacle_step_jumping [of "(g, kept)" ob] foldr_obstacle_step_jumping [of "(g, kept)" obs]
      obstacle_step_grounded [of g ob kept]
    by (simp add: Player_update_jump Player_update_landed jump_progress_def JUMP_DURATION_def)
  from frame other turn show ?thesis
    by blast
qed

subsection \<open>What the loop finds\<close>

lemma path_stage_obstacles [simp]:
  "obstacles (path_retarget g) = obstacles g" "obstacles (path_move g) = obstacles g"
  "obstacles (path_widen g) = obstacles g" "obstacles (path_narrow g) = obstacles g"
  "obstacles (split_tick g) = obstacles g" "obstacles (split_start g) = obstacles g"
  "obstacles (split_prepare g) = obstacles g" "obstacles (split_separate g) = obstacles g"
  "obstacles (split_contract g) = obstacles g"
  by (simp_all add: path_retarget_def path_move_def path_widen_def path_narrow_def
        split_tick_def split_start_def split_prepare_def split_separate_def
        split_contract_def Math_random_def Let_def split_def split: option.splits)

lemma updatePath_obstacles [simp]: "obstacles (updatePath g) = obstacles g"
  by (simp add: updatePath_def)

lemma spawnTreeAt_kept: "obstacles_kept g (spawnTreeAt x y g)"
  by (simp add: obstacles_kept_def spawnTreeAt_def Math_random_def Let_def split_def)

lemma spawnJJBarrier_kept: "obstacles_kept g (spawnJJBarrier g)"
  by (simp add: obstacles_kept_def spawnJJBarrier_def Math_random_def Let_def split_def)

lemma spawnInternalObstacle_kept: "obstacles_kept g (spawnInternalObstacle g)"
  by (simp add: obstacles_kept_def spawnInternalObstacle_def Math_random_def Let_def split_def)

lemma spawnWallTrees_kept: "obstacles_kept g (spawnWallTrees g)"
proof -
  have a: "obstacles_kept g (spawnTreeAt x1 y1 (spawnTreeAt x2 y2 g))" for x1 y1 x2 y2
    using spawnTreeAt_kept obstacles_kept_trans by blast
  have b: "obstacles_kept g (spawnTreeAt x0 y0 (spawnTreeAt x1 y1 (spawnTreeAt x2 y2 g)))"
    for x0 y0 x1 y1 x2 y2
    using a spawnTreeAt_kept obstacles_kept_trans by blast
  show ?thesis
    by (simp add: spawnWallTrees_def Let_def a b obstacles_kept_same)
qed

lemma spawnObstacle_kept: "obstacles_kept g (spawnObstacle g)"
proof -
  have u: "obstacles_kept g (updatePath g)"
    by (simp add: obstacles_kept_same)
  have j: "obstacles_kept g (spawnJJBarrier ((updatePath g)\<lparr>lastHundredMeters := n\<rparr>))" for n
    using spawnJJBarrier_kept [of "(updatePath g)\<lparr>lastHundredMeters := n\<rparr>"]
    by (simp add: obstacles_kept_def)
  have w: "obstacles_kept g (spawnWallTrees (updatePath g))"
    using spawnWallTrees_kept [of "updatePath g"] by (simp add: obstacles_kept_def)
  have i: "obstacles_kept g (spawnInternalObstacle (updatePath g))"
    using spawnInternalObstacle_kept [of "updatePath g"] by (simp add: obstacles_kept_def)
  have wi: "obstacles_kept g (spawnInternalObstacle (spawnWallTrees (updatePath g)))"
    using w spawnInternalObstacle_kept obstacles_kept_trans by blast
  show ?thesis
    unfolding spawnObstacle_def Let_def
    using u j w i wi by (simp split: if_splits)
qed

lemma update_input_obstacles [simp]: "obstacles (update_input g) = obstacles g"
  by (simp add: update_input_def Let_def)

lemma spawnPatch_obstacles [simp]: "obstacles (spawnPatch y g) = obstacles g"
  by (simp add: spawnPatch_def Math_random_def Let_def split_def)

lemma patches_loop_obstacles [simp]: "obstacles (fst (patches_loop s ps g)) = obstacles g"
  by (induction ps) (simp_all add: Let_def split_def)

lemma BackgroundManager_update_obstacles [simp]:
  "obstacles (BackgroundManager_update s g) = obstacles g"
  by (simp add: BackgroundManager_update_def Let_def split_def)

lemma update_player_obstacles [simp]: "obstacles (update_player now g) = obstacles g"
  by (simp add: update_player_def Let_def updateTrails_def)

lemma before_loop_kept: "obstacles_kept g (before_loop now g)"
proof -
  let ?h = "update_head (update_begin g)"
  have "obstacles_kept g ?h"
    using update_head_kept [of "update_begin g"] by (simp add: obstacles_kept_def)
  moreover have "obstacles_kept ?h (before_loop now g)"
    using spawnObstacle_kept [of "update_player now (update_input ?h)"]
    by (simp add: obstacles_kept_def before_loop_def)
  ultimately show ?thesis
    by (rule obstacles_kept_trans)
qed

lemma before_loop_speed [simp]:
  "scrollSpeed (before_loop now g) = scrollSpeed (update_speed g)"
  by (simp add: before_loop_def)

lemma before_loop_carousel [simp]:
  "carouselActive (before_loop now g) = carouselActive g"
  by (simp add: before_loop_def)

lemma update_input_idle:
  "\<not> ArrowLeft (keys g) \<Longrightarrow> \<not> KeyA (keys g) \<Longrightarrow> \<not> ArrowRight (keys g) \<Longrightarrow> \<not> KeyD (keys g)
   \<Longrightarrow> update_input g = g"
  by (simp add: update_input_def Let_def)

lemma before_loop_position:
  assumes "\<not> ArrowLeft (keys g)" "\<not> KeyA (keys g)" "\<not> ArrowRight (keys g)" "\<not> KeyD (keys g)"
  shows "p_x (player (before_loop now g)) = p_x (player g)"
    and "p_y (player (before_loop now g)) = p_y (player g)"
proof -
  let ?h = "update_head (update_begin g)"
  have k: "keys ?h = keys g"
    by (simp add: update_head_def update_begin_def)
  have "update_input ?h = ?h"
    by (rule update_input_idle) (simp_all add: k assms)
  then show "p_x (player (before_loop now g)) = p_x (player g)"
    and "p_y (player (before_loop now g)) = p_y (player g)"
    by (simp_all add: before_loop_player Player_update_jump)
qed

lemma demo_before_loop:
  assumes "g = demo\<lparr>player := pl, obstacles := [demo_rock]\<rparr>"
    and "p_x pl = 512" and "p_y pl = 150"
  shows "demo_rock \<in> set (obstacles (before_loop now g))"
    and "checkCollision (player (before_loop now g))
           (demo_rock\<lparr>o_y := o_y demo_rock - scrollSpeed (before_loop now g)\<rparr>)"
    and "state g = PLAYING"
    and "distance g + scrollSpeed g * METER_SCALE < WIN_DISTANCE"
proof -
  show "demo_rock \<in> set (obstacles (before_loop now g))"
    by (rule obstacles_kept_mem [OF before_loop_kept]) (simp add: assms)
  have k: "\<not> ArrowLeft (keys g)" "\<not> KeyA (keys g)" "\<not> ArrowRight (keys g)" "\<not> KeyD (keys g)"
    by (simp_all add: assms)
  have s: "scrollSpeed (before_loop now g) = 3.501"
    by (simp add: assms update_speed_def Let_def MAX_SPEED_def)
  show "checkCollision (player (before_loop now g))
           (demo_rock\<lparr>o_y := o_y demo_rock - scrollSpeed (before_loop now g)\<rparr>)"
    unfolding s checkCollision_def before_loop_position [OF k]
    by (simp add: assms demo_rock_def Obstacle_new_def Obstacle_width_def Obstacle_height_def)
  show "state g = PLAYING" "distance g + scrollSpeed g * METER_SCALE < WIN_DISTANCE"
    by (simp_all add: assms WIN_DISTANCE_def METER_SCALE_def)
qed

theorem C5_jump_immunity_witness:
  "state demo_jumping = PLAYING
   \<and> distance demo_jumping + scrollSpeed demo_jumping * METER_SCALE < WIN_DISTANCE
   \<and> isJumping (player demo_jumping)
   \<and> isJumping (player (before_loop 799 demo_jumping))
   \<and> demo_rock \<in> set (obstacles (before_loop 799 demo_jumping))
   \<and> checkCollision (player (before_loop 799 demo_jumping))
        (demo_rock\<lparr>o_y := o_y demo_rock - scrollSpeed (before_loop 799 demo_jumping)\<rparr>)
   \<and> state (gameLoop 799 demo_jumping) = PLAYING
   \<and> \<not> isJumping (player (before_loop 800 demo_jumping))
   \<and> p_scale (player (before_loop 800 demo_jumping)) = 0.8
   \<and> state (gameLoop 800 demo_jumping) = EXPLODING
   \<and> \<not> isJumping (player demo_grounded)
   \<and> state (gameLoop 0 demo_grounded) = EXPLODING
   \<and> distance demo_last_frame + scrollSpeed demo_last_frame * METER_SCALE \<ge> WIN_DISTANCE
   \<and> player (gameLoop 0 demo_last_frame) = player demo_last_frame
   \<and> fst (obstacle_step demo_rock (demo_jumping, [])) = demo_jumping
   \<and> state (fst (obstacle_step demo_rock (demo_grounded, []))) = EXPLODING
   \<and> isJumping (Player_update 799 (player demo_jumping))
   \<and> \<not> isJumping (Player_update 800 (player demo_jumping))
   \<and> p_scale (Player_update 800 (player demo_jumping)) = 0.8"
proof -
  have j: "demo_jumping = demo\<lparr>player := Player_jump 0 (Player_new 512 150), obstacles := [demo_rock]\<rparr>"
    by (simp add: demo_jumping_def)
  have pj: "p_x (Player_jump 0 (Player_new 512 150)) = 512"
    "p_y (Player_jump 0 (Player_new 512 150)) = 150"
    by (simp_all add: Player_jump_def Player_new_def)
  have gr: "demo_grounded = demo\<lparr>player := Player_new 512 150, obstacles := [demo_rock]\<rparr>"
    by (simp add: demo_grounded_def)
  have pg: "p_x (Player_new 512 150) = 512" "p_y (Player_new 512 150) = 150"
    by (simp_all add: Player_new_def)
  note dj = demo_before_loop [OF j pj]
  note dg = demo_before_loop [OF gr pg]
  have jp: "isJumping (player demo_jumping)" "jump_progress 799 (player demo_jumping) < 1"
    "jump_progress 800 (player demo_jumping) \<ge> 1" "baseScale (player demo_jumping) = 0.8"
    "\<not> isJumping (player demo_grounded)"
    by (simp_all add: demo_jumping_def demo_grounded_def Player_jump_def Player_new_def
          jump_progress_def JUMP_DURATION_def)
  have w: "distance demo_last_frame + scrollSpeed demo_last_frame * METER_SCALE \<ge> WIN_DISTANCE"
    by (simp add: demo_last_frame_def WIN_DISTANCE_def METER_SCALE_def)
  have r: "o_type demo_rock \<noteq> Carousel"
    by simp
  have c: "checkCollision (player demo_jumping)
             (demo_rock\<lparr>o_y := o_y demo_rock - scrollSpeed demo_jumping\<rparr>)"
    "checkCollision (player demo_grounded)
             (demo_rock\<lparr>o_y := o_y demo_rock - scrollSpeed demo_grounded\<rparr>)"
    by (simp_all add: demo_jumping_def demo_grounded_def Player_jump_def Player_new_def
          checkCollision_def demo_rock_def Obstacle_new_def Obstacle_width_def
          Obstacle_height_def)
  note a = C5_jump_immunity [of demo_jumping 799 demo_jumping demo_rock "[]" "[]" "player demo_jumping"]
  note b = C5_jump_immunity [of demo_jumping 800 demo_grounded demo_rock "[]" "[]" "player demo_jumping"]
  note d = C5_jump_immunity [of demo_grounded 0 demo_grounded demo_rock "[]" "[]" "player demo_jumping"]
  note e = C5_jump_immunity [of demo_last_frame 0 demo_grounded demo_rock "[]" "[]" "player demo_jumping"]
  have a1: "isJumping (player (before_loop 799 demo_jumping))"
    "state (gameLoop 799 demo_jumping) = PLAYING"
    "fst (obstacle_step demo_rock (demo_jumping, [])) = demo_jumping"
    "isJumping (Player_update 799 (player demo_jumping))"
    using a dj(3,4) jp by blast+
  have b1: "\<not> isJumping (player (before_loop 800 demo_jumping))"
    "p_scale (player (before_loop 800 demo_jumping)) = 0.8"
    "\<not> isJumping (Player_update 800 (player demo_jumping))"
    "p_scale (Player_update 800 (player demo_jumping)) = 0.8"
    "state (fst (obstacle_step demo_rock (demo_grounded, []))) = EXPLODING"
    using b dj(3,4) jp c r by auto
  have b2: "state (gameLoop 800 demo_jumping) = EXPLODING"
    using b dj(1,2) [of 800] dj(3,4) b1(1) r by blast
  have d1: "\<not> isJumping (player (before_loop 0 demo_grounded))"
    using d dg(3,4) jp by blast
  have d2: "state (gameLoop 0 demo_grounded) = EXPLODING"
    using d dg(1,2) [of 0] dg(3,4) d1 r by blast
  have e1: "player (gameLoop 0 demo_last_frame) = player demo_last_frame"
    using e w by blast
  show ?thesis
    using a1 b1 b2 d2 e1 w jp dj(1,2) [of 799] dj(3,4) by simp
qed

subsection \<open>The carousel\<close>

lemma checkCollision_box:
  "o_x a = o_x b \<Longrightarrow> o_y a = o_y b \<Longrightarrow> o_width a = o_width b \<Longrightarrow> o_height a = o_height b
   \<Longrightarrow> checkCollision p a = checkCollision p b"
  by (simp add: checkCollision_def)

lemma triggerCarouselEffect_box [simp]:
  "o_x (snd (triggerCarouselEffect ob g)) = o_x ob"
  "o_width (snd (triggerCarouselEffect ob g)) = o_width ob"
  "o_height (snd (triggerCarouselEffect ob g)) = o_height ob"
  by (simp_all add: triggerCarouselEffect_def Let_def)

lemma checkCollision_handed_on [simp]:
  "checkCollision p (Obstacle_updateAnimation ob) = checkCollision p ob"
  "checkCollision p (snd (triggerCarouselEffect ob g)) = checkCollision p ob"
  by (rule checkCollision_box; simp)+

lemma triggerExplosion_carousel [simp]:
  "carouselActive (triggerExplosion ob g) = carouselActive g"
  by (simp add: triggerExplosion_def Let_def)












end
